theory Spec2Isabelle
  imports Main "HOL-Library.Char_ord" "HOL-Library.List_Lexorder" "HOL-Library.AList"
begin

section \<open>The script compiler front end (torch/csrc/jit/script/compiler.cpp)\<close>

text \<open>
  A shallow embedding of the parts of \<^verbatim>\<open>compiler.cpp\<close> that lower script syntax trees to
  the graph IR: the scope stack (\<^verbatim>\<open>Environment\<close>), schema matching
  (\<^verbatim>\<open>tryMatchSchema\<close>, \<^verbatim>\<open>emitBuiltinCall\<close>) and the statement and expression
  emitters of \<^verbatim>\<open>to_ir\<close>. Source ranges are dropped: they only decorate error
  messages. Every \<^verbatim>\<open>throw ErrorReport\<close> of the source is a branch returning \<open>Inl\<close> of
  the \<open>error\<close> constructor for that throw site.
\<close>

subsection \<open>Types (declared in type.h, used here through \<^verbatim>\<open>kind()\<close> and \<^verbatim>\<open>cast\<close>)\<close>

datatype jtype =
    DynamicType | TensorType | NumberType | IntType | FloatType | BoolType
  | StringType | NoneType | GeneratorType | DeviceObjType
  | ListType jtype | TupleType "jtype list" | OptionalType jtype | FutureType jtype
  | VarType string

subsection \<open>Errors: one constructor per throw site\<close>

text \<open>A candidate's diagnostic, as appended to \<^verbatim>\<open>failure_messages\<close> during overload resolution.\<close>

datatype match_failure =
    CouldNotMatchType string jtype jtype
  | ExpectedValueOfType string jtype jtype
  | ArgumentSpecifiedTwiceInSchema string
  | ArgumentNotProvided string
  | ExpectedAtMost nat nat
  | KeywordArgumentUnknown string
  | KeywordArgumentSpecifiedTwice string
  | SelfNotUsed
  | CalleeFailure nat

datatype error =
    TupleIndicesMustBeIntegerConstants
  | TupleIndexOutOfRange int int
  | ExpectedTupleType jtype
  | CannotBeUsedAsValue string
  | ReassignToNonFirstClass string string
  | ReassignOfNonFirstClass string string
  | VariablePreviouslyHasType string jtype jtype bool
  | UndefinedValue string
  | TypeMismatchInBranches string jtype jtype
  | UsedHere error
  | NullEnvironment
  | OutOfRangeAt string
  | AssertionFailed string
  | NoOperationFor string
  | UnknownBuiltinOp
  | ArgumentsNotValid "match_failure list"
  | IfExpressionBranchTypes jtype jtype
  | ExpectedBooleanCondition jtype bool
  | ExpectedInt jtype
  | ListsMustContainOnlyASingleType jtype jtype
  | CannotBeUsedAsTuple jtype
  | SugaredCannotBeUsedAsTuple string
  | CannotInferListSize
  | ReturnNotAtEnd
  | UnrecognizedStatementKind string
  | UnexpectedLhsOfAssignment
  | RangeExpectsOneArgument nat
  | ListOfIterablesNotSupported
  | IterationVariableUnpackingNotSupported
  | UnexpectedForTarget
  | ReturnValueAnnotated jtype jtype
  | NumberOfTypeAnnotations nat nat
  | MethodsMustHaveSelf
  | NotModelled string

subsection \<open>Graph, Block, Node, Value\<close>

text \<open>
  Modelled from the spec: the IR classes \<^verbatim>\<open>Graph\<close>, \<^verbatim>\<open>Block\<close>, \<^verbatim>\<open>Node\<close> and
  \<^verbatim>\<open>Value\<close> of ir.h are not part of the compiled file. Following the data model of the
  specification, a block holds ordered inputs, an ordered node sequence and ordered
  outputs; a node has ordered inputs and outputs, a symbolic kind and nested blocks; a
  value is a typed handle with an optional unique name. Objects live in arenas (lists)
  and pointers are indices into them. The graph also holds its insertion point: the
  block that receives new nodes and, optionally, the node before which they go.
\<close>

type_synonym vid = nat
type_synonym nid = nat
type_synonym bid = nat

datatype ivalue = INone | IInt int | IBool bool | IString string | ITensor nat

record val =
  v_type :: jtype
  v_uname :: "string option"
  v_node :: "nid option"
  v_block :: bid

record node =
  n_kind :: string
  n_inputs :: "vid list"
  n_outputs :: "vid list"
  n_blocks :: "bid list"
  n_ints :: "(string \<times> int) list"
  n_const :: "ivalue option"
  n_block :: bid

record block =
  b_inputs :: "vid list"
  b_nodes :: "nid list"
  b_outputs :: "vid list"
  b_owner :: "nid option"

record graph =
  g_vals :: "val list"
  g_nodes :: "node list"
  g_blocks :: "block list"
  insert_block :: bid
  insert_before :: "nid option"

text \<open>A fresh graph: the root block 0, empty, with the insertion point at its end.\<close>

definition fresh_graph :: graph where
  "fresh_graph =
     \<lparr>g_vals = [], g_nodes = [],
      g_blocks = [\<lparr>b_inputs = [], b_nodes = [], b_outputs = [], b_owner = None\<rparr>],
      insert_block = 0, insert_before = None\<rparr>"

definition type_of :: "graph \<Rightarrow> vid \<Rightarrow> jtype" where
  "type_of g v = v_type (g_vals g ! v)"

definition new_val :: "jtype \<Rightarrow> nid option \<Rightarrow> bid \<Rightarrow> graph \<Rightarrow> vid \<times> graph" where
  "new_val ty def blk g =
     (length (g_vals g),
      g\<lparr>g_vals := g_vals g @ [\<lparr>v_type = ty, v_uname = None, v_node = def, v_block = blk\<rparr>]\<rparr>)"

fun new_vals :: "jtype list \<Rightarrow> nid option \<Rightarrow> bid \<Rightarrow> graph \<Rightarrow> vid list \<times> graph" where
  "new_vals [] def blk g = ([], g)"
| "new_vals (ty # tys) def blk g =
     (case new_val ty def blk g of (v, g1) \<Rightarrow>
        (case new_vals tys def blk g1 of (vs, g2) \<Rightarrow> (v # vs, g2)))"

definition place_node :: "nid \<Rightarrow> bid \<Rightarrow> nid option \<Rightarrow> graph \<Rightarrow> graph" where
  "place_node n b before g =
     g\<lparr>g_blocks := (g_blocks g)
        [b := (let B = g_blocks g ! b in
               B\<lparr>b_nodes :=
                   (case before of
                      None \<Rightarrow> b_nodes B @ [n]
                    | Some m \<Rightarrow> takeWhile (\<lambda>x. x \<noteq> m) (b_nodes B) @ n #
                                dropWhile (\<lambda>x. x \<noteq> m) (b_nodes B))\<rparr>)]\<rparr>"

text \<open>
  \<^verbatim>\<open>graph.insertNode(graph.create(kind, inputs, n))\<close> with the output types set: the
  node goes to the insertion point, its outputs are fresh values.
\<close>

definition insertNode ::
  "string \<Rightarrow> vid list \<Rightarrow> jtype list \<Rightarrow> (string \<times> int) list \<Rightarrow> ivalue option \<Rightarrow> graph
     \<Rightarrow> nid \<times> graph" where
  "insertNode k ins out_tys ints c g =
     (let n = length (g_nodes g); b = insert_block g in
      case new_vals out_tys (Some n) b g of (outs, g1) \<Rightarrow>
        (n, place_node n b (insert_before g)
              (g1\<lparr>g_nodes := g_nodes g1 @
                   [\<lparr>n_kind = k, n_inputs = ins, n_outputs = outs, n_blocks = [],
                     n_ints = ints, n_const = c, n_block = b\<rparr>]\<rparr>)))"

definition insertNode1 ::
  "string \<Rightarrow> vid list \<Rightarrow> jtype \<Rightarrow> (string \<times> int) list \<Rightarrow> ivalue option \<Rightarrow> graph
     \<Rightarrow> vid \<times> graph" where
  "insertNode1 k ins out_ty ints c g =
     (case insertNode k ins [out_ty] ints c g of (n, g1) \<Rightarrow> (hd (n_outputs (g_nodes g1 ! n)), g1))"

text \<open>\<^verbatim>\<open>toIValue\<close> (constants.h): the constant a value stands for, when its node is one.\<close>

definition toIValue :: "graph \<Rightarrow> vid \<Rightarrow> ivalue option" where
  "toIValue g v =
     (case v_node (g_vals g ! v) of
        None \<Rightarrow> None
      | Some n \<Rightarrow> if n_kind (g_nodes g ! n) = ''prim::Constant'' then n_const (g_nodes g ! n) else None)"

text \<open>
  \<^verbatim>\<open>insertConstant\<close> (constants.h): a \<^verbatim>\<open>prim::Constant\<close> node carrying the value, typed
  by the kind of the value; the None value gets a \<^verbatim>\<open>prim::None\<close> node.
\<close>

fun ivalue_type :: "ivalue \<Rightarrow> jtype" where
  "ivalue_type INone = NoneType"
| "ivalue_type (IInt _) = IntType"
| "ivalue_type (IBool _) = BoolType"
| "ivalue_type (IString _) = StringType"
| "ivalue_type (ITensor _) = TensorType"

definition insertConstant :: "ivalue \<Rightarrow> graph \<Rightarrow> vid \<times> graph" where
  "insertConstant c g =
     (if c = INone then insertNode1 ''prim::None'' [] NoneType [] None g
      else insertNode1 ''prim::Constant'' [] (ivalue_type c) [] (Some c) g)"

text \<open>\<^verbatim>\<open>Block::addInput\<close>, \<^verbatim>\<open>Block::insertInput\<close> and \<^verbatim>\<open>Block::registerOutput\<close>.\<close>

definition insertInput :: "bid \<Rightarrow> nat \<Rightarrow> jtype \<Rightarrow> graph \<Rightarrow> vid \<times> graph" where
  "insertInput b i ty g =
     (case new_val ty None b g of (v, g1) \<Rightarrow>
        (v, g1\<lparr>g_blocks := (g_blocks g1)
               [b := (let B = g_blocks g1 ! b in
                      B\<lparr>b_inputs := take i (b_inputs B) @ v # drop i (b_inputs B)\<rparr>)]\<rparr>))"

definition addInput :: "bid \<Rightarrow> jtype \<Rightarrow> graph \<Rightarrow> vid \<times> graph" where
  "addInput b ty g = insertInput b (length (b_inputs (g_blocks g ! b))) ty g"

definition registerOutput :: "bid \<Rightarrow> vid \<Rightarrow> graph \<Rightarrow> graph" where
  "registerOutput b v g =
     g\<lparr>g_blocks := (g_blocks g)
        [b := (let B = g_blocks g ! b in B\<lparr>b_outputs := b_outputs B @ [v]\<rparr>)]\<rparr>"

subsection \<open>Tuple indexing and slicing\<close>

definition getTupleIndexVal :: "graph \<Rightarrow> jtype list \<Rightarrow> vid \<Rightarrow> bool \<Rightarrow> error + int" where
  "getTupleIndexVal g elements idx_val allow_out_of_bounds =
     (case toIValue g idx_val of
        Some (IInt index) \<Rightarrow>
          (let tuple_len = int (length elements);
               adj_index = (if index < 0 then tuple_len + index else index)
           in if \<not> allow_out_of_bounds \<and> (adj_index \<ge> tuple_len \<or> adj_index < 0)
              then Inl (TupleIndexOutOfRange tuple_len index)
              else Inr adj_index)
      | _ \<Rightarrow> Inl TupleIndicesMustBeIntegerConstants)"

text \<open>
  \<^verbatim>\<open>Graph::createTupleIndex\<close> and \<^verbatim>\<open>Graph::createTupleSlice\<close> (ir.cpp) record the
  adjusted positions as integer attributes; the output type is read off the tuple type.
\<close>

definition createTupleIndex :: "vid \<Rightarrow> jtype list \<Rightarrow> int \<Rightarrow> graph \<Rightarrow> vid \<times> graph" where
  "createTupleIndex tup elements idx g =
     insertNode1 ''prim::TupleIndex'' [tup] (elements ! nat idx) [(''index'', idx)] None g"

definition createTupleSlice :: "vid \<Rightarrow> jtype list \<Rightarrow> int \<Rightarrow> int \<Rightarrow> graph \<Rightarrow> vid \<times> graph" where
  "createTupleSlice tup elements beg end g =
     insertNode1 ''prim::TupleSlice'' [tup]
       (TupleType (take (nat (end - beg)) (drop (nat beg) elements)))
       [(''beg'', beg), (''end'', end)] None g"

definition emitTupleIndex :: "vid \<Rightarrow> vid \<Rightarrow> graph \<Rightarrow> error + vid \<times> graph" where
  "emitTupleIndex tuple_val idx_val g =
     (case type_of g tuple_val of
        TupleType elements \<Rightarrow>
          (case getTupleIndexVal g elements idx_val False of
             Inl e \<Rightarrow> Inl e
           | Inr adj_index \<Rightarrow> Inr (createTupleIndex tuple_val elements adj_index g))
      | t \<Rightarrow> Inl (ExpectedTupleType t))"

definition emitTupleSlice :: "vid \<Rightarrow> vid \<Rightarrow> vid option \<Rightarrow> graph \<Rightarrow> error + vid \<times> graph" where
  "emitTupleSlice tuple_val beg_val end_val g =
     (case type_of g tuple_val of
        TupleType elements \<Rightarrow>
          (case getTupleIndexVal g elements beg_val True of
             Inl e \<Rightarrow> Inl e
           | Inr beg \<Rightarrow>
               (let tuple_len = int (length elements) in
                case (case end_val of
                        Some ev \<Rightarrow> getTupleIndexVal g elements ev True
                      | None \<Rightarrow> Inr tuple_len) of
                  Inl e \<Rightarrow> Inl e
                | Inr end \<Rightarrow>
                    (let end1 = min (max 0 end) tuple_len;
                         beg1 = min (max 0 beg) tuple_len
                     in Inr (createTupleSlice tuple_val elements beg1 end1 g))))
      | t \<Rightarrow> Inl (ExpectedTupleType t))"

subsection \<open>Sugared values\<close>

text \<open>
  The compile-time denotation of a name. \<open>SimpleValue\<close> is a first-class graph value; the
  other constructors are the classes this file defines or instantiates; \<open>External\<close>
  stands for an instance of a \<^verbatim>\<open>SugaredValue\<close> class defined elsewhere (its \<^verbatim>\<open>kind()\<close>
  and a handle).
\<close>

datatype sugared =
    SimpleValue vid
  | NoneValue
  | PrintValue
  | CastValue jtype string
  | GetAttrValue
  | IsInstanceValue
  | External string nat

fun sv_kind :: "sugared \<Rightarrow> string" where
  "sv_kind (SimpleValue _) = ''value''"
| "sv_kind NoneValue = ''None''"
| "sv_kind PrintValue = ''print''"
| "sv_kind (CastValue _ _) = ''builtin''"
| "sv_kind GetAttrValue = ''getattr''"
| "sv_kind IsInstanceValue = ''isinstance''"
| "sv_kind (External k _) = k"

fun asSimple :: "sugared \<Rightarrow> vid option" where
  "asSimple (SimpleValue v) = Some v"
| "asSimple _ = None"

subsection \<open>Syntax trees, schemas, frames and the compiler state\<close>

datatype expr =
    Var string
  | Select expr string
  | Apply expr "expr list" "(string \<times> expr) list"
  | Is expr expr
  | IsNot expr expr
  | Op string "expr list"
  | Starred expr
  | ConstInt int
  | ConstFloat string
  | TrueLit
  | FalseLit
  | NoneLit
  | Subscript expr "expr list"
  | SliceExpr "expr option" "expr option"
  | TernaryIf expr expr expr
  | StringLiteral string
  | ListLiteral "expr list"
  | TupleLiteral "expr list"

datatype stmt =
    If expr "stmt list" "stmt list"
  | While expr "stmt list"
  | For "expr list" "expr list" "stmt list"
  | Assign expr expr
  | AugAssign expr string expr
  | Global "string list"
  | ExprStmt expr
  | Raise
  | Assert expr
  | Return expr
  | Pass
  | OtherStmt string

record argument =
  arg_name :: string
  arg_type :: jtype
  arg_N :: "nat option"
  default_value :: "ivalue option"
  kwarg_only :: bool

record schema =
  schema_name :: string
  arguments :: "argument list"
  returns :: "argument list"
  is_vararg :: bool

text \<open>A \<^verbatim>\<open>NamedValue\<close>: an optional name and either a graph value or a constant not yet inserted.\<close>

record named_value =
  nv_name :: "string option"
  nv_val :: "vid + ivalue"

record matched_schema =
  ms_inputs :: "vid list"
  ms_return_types :: "jtype list"

type_synonym type_env = "(string \<times> jtype) list"

text \<open>
  One \<^verbatim>\<open>Environment\<close> per lexical block. The chain through \<^verbatim>\<open>next\<close> is a list, innermost
  frame first. \<^verbatim>\<open>value_table\<close> is an association list; a stored type-error message is
  kept as the error it renders.
\<close>

record frame =
  value_table :: "(string \<times> sugared) list"
  captured_inputs :: "string list"
  error_messages :: "(string \<times> error) list"
  fr_block :: bid

record cstate =
  cs_graph :: graph
  environment_stack :: "frame list"
  integral_constants :: "(int \<times> vid) list"
  fp_constants :: "(string \<times> vid) list"

datatype none_status = ALWAYS | MAYBE | NEVER

text \<open>
  Where the element type of a list literal comes from; \<^verbatim>\<open>TypePtr\<close>s are compared as
  pointers there, so the comparison needs to know which type object is meant.
\<close>

datatype elem_type_ptr = DynamicSingleton | HintElement jtype | TypeOfValue vid

subsection \<open>What the file takes from its collaborators\<close>

text \<open>
  Functions declared in other files of the repository and called here are parameters:
  the subtype relation, shape erasure, type unification and type-variable matching of
  type.h; the name resolver held by every \<^verbatim>\<open>Environment\<close>; the methods of sugared values
  defined elsewhere; the operator and library-function registries; the check that an
  emitted operator has an implementation; \<^verbatim>\<open>try_emit_call_to\<close> and \<^verbatim>\<open>Graph::insert\<close>;
  whether two \<^verbatim>\<open>TypePtr\<close>s hold the same type object (\<open>type_ptr_eq\<close>). The members of \<^verbatim>\<open>to_ir\<close>
  that lower expressions and the assignment forms other than plain names are parameters as
  well, so that every statement about the statement emitter holds for any behaviour
  of theirs.
\<close>

record ext =
  isSubtypeOf :: "jtype \<Rightarrow> jtype \<Rightarrow> bool"
  unshapedType :: "jtype \<Rightarrow> jtype"
  unifyTypes :: "jtype \<Rightarrow> jtype \<Rightarrow> jtype option"
  matchTypeVariables :: "jtype \<Rightarrow> jtype \<Rightarrow> type_env \<Rightarrow> jtype option \<times> type_env"
  evalTypeVariables :: "jtype \<Rightarrow> type_env \<Rightarrow> jtype"
  type_ptr_eq :: "graph \<Rightarrow> vid \<Rightarrow> elem_type_ptr \<Rightarrow> bool"
  resolver :: "string \<Rightarrow> sugared option"
  ext_asValue :: "nat \<Rightarrow> graph \<Rightarrow> error + vid \<times> graph"
  ext_asTuple :: "nat \<Rightarrow> nat option \<Rightarrow> graph \<Rightarrow> error + sugared list \<times> graph"
  isNone :: "sugared \<Rightarrow> graph \<Rightarrow> none_status"
  getAllOperatorsFor :: "string \<Rightarrow> schema list"
  getAllBuiltinFunctionsFor :: "string \<Rightarrow> nat list"
  getOperation :: "string \<Rightarrow> jtype list \<Rightarrow> jtype list \<Rightarrow> bool"
  try_emit_call_to ::
    "nat \<Rightarrow> named_value option \<Rightarrow> named_value list \<Rightarrow> named_value list \<Rightarrow> bool \<Rightarrow> graph
       \<Rightarrow> error + match_failure list \<times> vid list option \<times> graph"
  graph_insert :: "string \<Rightarrow> named_value list \<Rightarrow> graph \<Rightarrow> error + vid \<times> graph"
  emitSugaredExpr :: "expr \<Rightarrow> nat \<Rightarrow> jtype option \<Rightarrow> cstate \<Rightarrow> error + sugared \<times> cstate"
  emitTupleAssign :: "expr \<Rightarrow> expr \<Rightarrow> cstate \<Rightarrow> error + cstate"
  emitSubscriptAssign :: "expr \<Rightarrow> expr \<Rightarrow> cstate \<Rightarrow> error + cstate"
  emitAugAssignment :: "expr \<Rightarrow> string \<Rightarrow> expr \<Rightarrow> cstate \<Rightarrow> error + cstate"

text \<open>\<^verbatim>\<open>SugaredValue::asValue\<close>: only a \<open>SimpleValue\<close> of this file is a value.\<close>

fun asValue :: "ext \<Rightarrow> sugared \<Rightarrow> graph \<Rightarrow> error + vid \<times> graph" where
  "asValue X (SimpleValue v) g = Inr (v, g)"
| "asValue X (External k h) g = ext_asValue X h g"
| "asValue X sv g = Inl (CannotBeUsedAsValue (sv_kind sv))"

subsection \<open>The scope stack: \<^verbatim>\<open>struct Environment\<close>\<close>

definition isdigit :: "char \<Rightarrow> bool" where
  "isdigit c = (c \<in> set ''0123456789'')"

fun meaningfulName :: "string \<Rightarrow> bool" where
  "meaningfulName [] = False"
| "meaningfulName (c # cs) = (if c \<noteq> CHR ''_'' then True else list_ex (\<lambda>d. \<not> isdigit d) cs)"

fun setVariableTypeError :: "string \<Rightarrow> error \<Rightarrow> frame list \<Rightarrow> frame list" where
  "setVariableTypeError name msg [] = []"
| "setVariableTypeError name msg [r] =
     [r\<lparr>error_messages := AList.update name msg (error_messages r)\<rparr>]"
| "setVariableTypeError name msg (f # f1 # rest) = f # setVariableTypeError name msg (f1 # rest)"

fun findVariableTypeError :: "string \<Rightarrow> frame list \<Rightarrow> error option" where
  "findVariableTypeError name [] = None"
| "findVariableTypeError name [r] = map_of (error_messages r) name"
| "findVariableTypeError name (f # f1 # rest) = findVariableTypeError name (f1 # rest)"

fun findInThisFrame :: "string \<Rightarrow> frame list \<Rightarrow> sugared option" where
  "findInThisFrame name [] = None"
| "findInThisFrame name (f # next) = map_of (value_table f) name"

fun findInAnyFrame :: "string \<Rightarrow> frame list \<Rightarrow> sugared option" where
  "findInAnyFrame name [] = None"
| "findInAnyFrame name (f # next) =
     (case map_of (value_table f) name of
        Some r \<Rightarrow> Some r
      | None \<Rightarrow> findInAnyFrame name next)"

fun findInParentFrame :: "string \<Rightarrow> frame list \<Rightarrow> sugared option" where
  "findInParentFrame name [] = None"
| "findInParentFrame name (f # next) = findInAnyFrame name next"

fun getValueInThisFrame :: "ext \<Rightarrow> string \<Rightarrow> frame list \<Rightarrow> graph \<Rightarrow> error + vid \<times> graph" where
  "getValueInThisFrame X name [] g = Inl NullEnvironment"
| "getValueInThisFrame X name (f # next) g =
     (case map_of (value_table f) name of
        None \<Rightarrow> Inl (OutOfRangeAt name)
      | Some sv \<Rightarrow> asValue X sv g)"

text \<open>
  \<^verbatim>\<open>createCapturedInput\<close>: the name goes into the capture list at its alphabetical rank,
  and a block input of the original's type is inserted one past that rank.
\<close>

definition createCapturedInput :: "vid \<Rightarrow> string \<Rightarrow> frame \<Rightarrow> graph \<Rightarrow> sugared \<times> frame \<times> graph" where
  "createCapturedInput orig name f g =
     (let insert_pos = length (takeWhile (\<lambda>c. name > c) (captured_inputs f));
          caps = take insert_pos (captured_inputs f) @ name # drop insert_pos (captured_inputs f)
      in case insertInput (fr_block f) (1 + insert_pos) (type_of g orig) g of
           (new_input, g1) \<Rightarrow>
             (SimpleValue new_input,
              f\<lparr>captured_inputs := caps,
                value_table := AList.update name (SimpleValue new_input) (value_table f)\<rparr>,
              g1))"

definition getBlockOwningKind :: "graph \<Rightarrow> frame \<Rightarrow> string" where
  "getBlockOwningKind g f =
     (case b_owner (g_blocks g ! fr_block f) of
        None \<Rightarrow> []
      | Some n \<Rightarrow> n_kind (g_nodes g ! n))"

fun createCapturedInputIfNeeded ::
  "string \<Rightarrow> frame list \<Rightarrow> graph \<Rightarrow> sugared option \<times> frame list \<times> graph" where
  "createCapturedInputIfNeeded ident [] g = (None, [], g)"
| "createCapturedInputIfNeeded ident (f # next) g =
     (case map_of (value_table f) ident of
        Some in_frame \<Rightarrow> (Some in_frame, f # next, g)
      | None \<Rightarrow>
          (case createCapturedInputIfNeeded ident next g of
             (from_parent, next1, g1) \<Rightarrow>
               (case from_parent of
                  Some (SimpleValue simple_val) \<Rightarrow>
                    if getBlockOwningKind g1 f = ''prim::Loop''
                    then (case createCapturedInput simple_val ident f g1 of
                            (sv, f1, g2) \<Rightarrow> (Some sv, f1 # next1, g2))
                    else (from_parent, f # next1, g1)
                | _ \<Rightarrow> (from_parent, f # next1, g1))))"

definition setUniqueName :: "vid \<Rightarrow> string \<Rightarrow> graph \<Rightarrow> graph" where
  "setUniqueName v name g = g\<lparr>g_vals := (g_vals g)[v := (g_vals g ! v)\<lparr>v_uname := Some name\<rparr>]\<rparr>"

fun is_ListType :: "jtype \<Rightarrow> bool" where
  "is_ListType (ListType _) = True"
| "is_ListType _ = False"

fun setSugaredVar ::
  "ext \<Rightarrow> string \<Rightarrow> sugared \<Rightarrow> frame list \<Rightarrow> graph \<Rightarrow> error + frame list \<times> graph" where
  "setSugaredVar X name value [] g = Inl NullEnvironment"
| "setSugaredVar X name value (f # next) g =
     (let as_simple_value = asSimple value;
          g1 = (case as_simple_value of
                  Some v \<Rightarrow>
                    if v_uname (g_vals g ! v) = None \<and> meaningfulName name \<and>
                       v_block (g_vals g ! v) = fr_block f
                    then setUniqueName v name g else g
                | None \<Rightarrow> g)
      in case (case findInParentFrame name (f # next) of
                 None \<Rightarrow> Inr ()
               | Some parent \<Rightarrow>
                   (case as_simple_value of
                      None \<Rightarrow> Inl (ReassignToNonFirstClass name (sv_kind value))
                    | Some v \<Rightarrow>
                        (case asSimple parent of
                           None \<Rightarrow> Inl (ReassignOfNonFirstClass name (sv_kind value))
                         | Some simple_parent \<Rightarrow>
                             if \<not> isSubtypeOf X (type_of g1 v)
                                    (unshapedType X (type_of g1 simple_parent))
                             then Inl (VariablePreviouslyHasType name
                                         (type_of g1 simple_parent) (type_of g1 v)
                                         (is_ListType (type_of g1 simple_parent) \<and>
                                          is_ListType (type_of g1 v)))
                             else Inr ()))) of
           Inl e \<Rightarrow> Inl e
         | Inr _ \<Rightarrow>
             (case (if as_simple_value \<noteq> None
                    then (case createCapturedInputIfNeeded name (f # next) g1 of
                            (r, env1, g2) \<Rightarrow> (env1, g2))
                    else (f # next, g1)) of
                (env1, g2) \<Rightarrow>
                  (case env1 of
                     [] \<Rightarrow> Inl NullEnvironment
                   | f1 # next1 \<Rightarrow>
                       Inr (f1\<lparr>value_table := AList.update name value (value_table f1)\<rparr> # next1,
                            g2))))"

definition setVar :: "ext \<Rightarrow> string \<Rightarrow> vid \<Rightarrow> frame list \<Rightarrow> graph \<Rightarrow> error + frame list \<times> graph" where
  "setVar X name v env g = setSugaredVar X name (SimpleValue v) env g"

definition globals :: "(string \<times> sugared) list" where
  "globals =
     [(''print'', PrintValue),
      (''float'', CastValue FloatType ''prim::Float''),
      (''int'', CastValue IntType ''prim::Int''),
      (''bool'', CastValue BoolType ''prim::Bool''),
      (''getattr'', GetAttrValue),
      (''isinstance'', IsInstanceValue),
      (''_to_tensor'', CastValue DynamicType ''prim::NumToTensor'')]"

definition getSugaredVar ::
  "ext \<Rightarrow> string \<Rightarrow> bool \<Rightarrow> frame list \<Rightarrow> graph
     \<Rightarrow> error + sugared option \<times> frame list \<times> graph" where
  "getSugaredVar X ident required env g =
     (case createCapturedInputIfNeeded ident env g of
        (retval, env1, g1) \<Rightarrow>
          (let retval1 = (case retval of None \<Rightarrow> map_of globals ident | Some r \<Rightarrow> Some r);
               retval2 = (case retval1 of None \<Rightarrow> resolver X ident | Some r \<Rightarrow> Some r)
           in if retval2 = None \<and> required
              then (case findVariableTypeError ident env1 of
                      Some msg \<Rightarrow> Inl (UsedHere msg)
                    | None \<Rightarrow> Inl (UndefinedValue ident))
              else Inr (retval2, env1, g1)))"

definition getVar :: "ext \<Rightarrow> string \<Rightarrow> frame list \<Rightarrow> graph \<Rightarrow> error + vid \<times> frame list \<times> graph" where
  "getVar X ident env g =
     (case getSugaredVar X ident True env g of
        Inl e \<Rightarrow> Inl e
      | Inr (None, env1, g1) \<Rightarrow> Inl NullEnvironment
      | Inr (Some sv, env1, g1) \<Rightarrow>
          (case asValue X sv g1 of
             Inl e \<Rightarrow> Inl e
           | Inr (v, g2) \<Rightarrow> Inr (v, env1, g2)))"

definition definedVariables :: "frame \<Rightarrow> string list" where
  "definedVariables f = map fst (value_table f)"

text \<open>\<^verbatim>\<open>Value::replaceAllUsesWith\<close>, \<^verbatim>\<open>Block::eraseInput\<close> and \<^verbatim>\<open>Block::eraseOutput\<close>.\<close>

definition replaceAllUsesWith :: "vid \<Rightarrow> vid \<Rightarrow> graph \<Rightarrow> graph" where
  "replaceAllUsesWith v orig g =
     g\<lparr>g_nodes := map (\<lambda>n. n\<lparr>n_inputs := map (\<lambda>u. if u = v then orig else u) (n_inputs n)\<rparr>)
                     (g_nodes g),
       g_blocks := map (\<lambda>B. B\<lparr>b_outputs := map (\<lambda>u. if u = v then orig else u) (b_outputs B)\<rparr>)
                     (g_blocks g)\<rparr>"

definition drop_nth :: "nat \<Rightarrow> 'a list \<Rightarrow> 'a list" where
  "drop_nth i xs = take i xs @ drop (Suc i) xs"

definition eraseInput :: "bid \<Rightarrow> nat \<Rightarrow> graph \<Rightarrow> graph" where
  "eraseInput b i g =
     g\<lparr>g_blocks := (g_blocks g)
        [b := (let B = g_blocks g ! b in B\<lparr>b_inputs := drop_nth i (b_inputs B)\<rparr>)]\<rparr>"

definition eraseOutput :: "bid \<Rightarrow> nat \<Rightarrow> graph \<Rightarrow> graph" where
  "eraseOutput b i g =
     g\<lparr>g_blocks := (g_blocks g)
        [b := (let B = g_blocks g ! b in B\<lparr>b_outputs := drop_nth i (b_outputs B)\<rparr>)]\<rparr>"

text \<open>
  \<^verbatim>\<open>deleteExtraInputs\<close>: the loop over \<open>i = size - 1, ..., 1\<close> is \<open>deleteExtraInputs_loop\<close>
  on \<open>i\<close>; the frame is the head of the chain.
\<close>

fun deleteExtraInputs_loop ::
  "ext \<Rightarrow> nat \<Rightarrow> frame \<Rightarrow> frame list \<Rightarrow> graph \<Rightarrow> error + frame \<times> graph" where
  "deleteExtraInputs_loop X 0 f next g = Inr (f, g)"
| "deleteExtraInputs_loop X (Suc j) f next g =
     (let i = Suc j; B = g_blocks g ! fr_block f in
      if b_inputs B ! i = b_outputs B ! i
      then (let name = captured_inputs f ! (i - 1) in
            case findInAnyFrame name next of
              None \<Rightarrow> Inl NullEnvironment
            | Some p \<Rightarrow>
                (case asValue X p g of
                   Inl e \<Rightarrow> Inl e
                 | Inr (orig, g1) \<Rightarrow>
                     deleteExtraInputs_loop X j
                       (f\<lparr>captured_inputs := drop_nth (i - 1) (captured_inputs f)\<rparr>) next
                       (eraseOutput (fr_block f) i
                          (eraseInput (fr_block f) i
                             (replaceAllUsesWith (b_inputs B ! i) orig g1)))))
      else deleteExtraInputs_loop X j f next g)"

definition deleteExtraInputs :: "ext \<Rightarrow> frame \<Rightarrow> frame list \<Rightarrow> graph \<Rightarrow> error + frame \<times> graph" where
  "deleteExtraInputs X f next g =
     (let B = g_blocks g ! fr_block f in
      if length (b_inputs B) \<noteq> length (b_outputs B)
      then Inl (AssertionFailed ''b->inputs().size() == b->outputs().size()'')
      else if length (b_inputs B) \<noteq> length (captured_inputs f) + 1
      then Inl (AssertionFailed ''b->inputs().size() == captured_inputs.size() + 1'')
      else deleteExtraInputs_loop X (length (b_inputs B) - 1) f next g)"

subsection \<open>Node constructors of the graph (ir.cpp) used by the matcher\<close>

definition createList :: "jtype \<Rightarrow> vid list \<Rightarrow> graph \<Rightarrow> vid \<times> graph" where
  "createList elem_type vs g = insertNode1 ''prim::ListConstruct'' vs (ListType elem_type) [] None g"

definition createTuple :: "vid list \<Rightarrow> graph \<Rightarrow> vid \<times> graph" where
  "createTuple vs g =
     insertNode1 ''prim::TupleConstruct'' vs (TupleType (map (type_of g) vs)) [] None g"

fun tuple_elements :: "jtype \<Rightarrow> jtype list" where
  "tuple_elements (TupleType ts) = ts"
| "tuple_elements _ = []"

text \<open>
  \<^verbatim>\<open>createTupleUnpack\<close> of this file: the inputs of a \<^verbatim>\<open>prim::TupleConstruct\<close> node are
  reused, any other tuple gets a \<^verbatim>\<open>prim::TupleUnpack\<close> node.
\<close>

definition createTupleUnpack :: "vid \<Rightarrow> graph \<Rightarrow> vid list \<times> graph" where
  "createTupleUnpack v g =
     (let unpack = (case insertNode ''prim::TupleUnpack'' [v] (tuple_elements (type_of g v)) [] None g of
                      (n, g1) \<Rightarrow> (n_outputs (g_nodes g1 ! n), g1))
      in case v_node (g_vals g ! v) of
           Some n \<Rightarrow>
             if n_kind (g_nodes g ! n) = ''prim::TupleConstruct''
             then (n_inputs (g_nodes g ! n), g) else unpack
         | None \<Rightarrow> unpack)"

definition packOutputs :: "vid list \<Rightarrow> graph \<Rightarrow> vid \<times> graph" where
  "packOutputs vs g = (case vs of [v] \<Rightarrow> (v, g) | _ \<Rightarrow> createTuple vs g)"

subsection \<open>Matching a call against one schema\<close>

fun unwrapOptional :: "jtype \<Rightarrow> jtype" where
  "unwrapOptional (OptionalType t) = t"
| "unwrapOptional t = t"

definition isIntOrFloatUsedAsList :: "graph \<Rightarrow> vid \<Rightarrow> argument \<Rightarrow> bool" where
  "isIntOrFloatUsedAsList g v arg =
     (let v_ty = type_of g v in
      if v_ty \<noteq> FloatType \<and> v_ty \<noteq> IntType then False
      else (case unwrapOptional (arg_type arg) of
              ListType elem \<Rightarrow> elem = v_ty \<and> arg_N arg \<noteq> None
            | _ \<Rightarrow> False))"

definition convertibleToList :: "ext \<Rightarrow> jtype \<Rightarrow> jtype \<Rightarrow> bool" where
  "convertibleToList X ty list_type =
     (case list_type of
        ListType elem \<Rightarrow>
          if isSubtypeOf X ty list_type then True
          else (case ty of
                  TupleType ts \<Rightarrow> list_all (\<lambda>t. isSubtypeOf X t elem) ts
                | _ \<Rightarrow> False)
      | _ \<Rightarrow> False)"

definition nv_value :: "named_value \<Rightarrow> graph \<Rightarrow> vid \<times> graph" where
  "nv_value nv g = (case nv_val nv of Inl v \<Rightarrow> (v, g) | Inr c \<Rightarrow> insertConstant c g)"

definition simple_nv :: "vid \<Rightarrow> named_value" where
  "simple_nv v = \<lparr>nv_name = None, nv_val = Inl v\<rparr>"

text \<open>
  \<^verbatim>\<open>tryConvertToType\<close>. The loop over the elements of a tuple is \<open>convertElements\<close>. Only
  the last two conversions depend on \<open>allow_conversions\<close>.
\<close>

fun tryConvertToType :: "ext \<Rightarrow> bool \<Rightarrow> jtype \<Rightarrow> vid \<Rightarrow> graph \<Rightarrow> error + vid \<times> graph"
and convertElements :: "ext \<Rightarrow> bool \<Rightarrow> jtype list \<Rightarrow> vid list \<Rightarrow> graph \<Rightarrow> error + vid list \<times> graph"
where
  "tryConvertToType X allow_conversions concrete_type v0 g0 =
     (case (case type_of g0 v0 of
              TupleType value_elems \<Rightarrow>
                (case (if convertibleToList X (type_of g0 v0) (unwrapOptional concrete_type)
                       then (case createTupleUnpack v0 g0 of
                               (unpacked, g1) \<Rightarrow>
                                 (case unwrapOptional concrete_type of
                                    ListType elem_type \<Rightarrow> createList elem_type unpacked g1
                                  | _ \<Rightarrow> (v0, g0)))
                       else (v0, g0)) of
                   (v1, g1) \<Rightarrow>
                     (case concrete_type of
                        TupleType concrete_elems \<Rightarrow>
                          if \<not> isSubtypeOf X (TupleType value_elems) concrete_type \<and>
                             length concrete_elems = length value_elems
                          then (case createTupleUnpack v1 g1 of
                                  (unpacked, g2) \<Rightarrow>
                                    (case convertElements X allow_conversions concrete_elems unpacked g2 of
                                       Inl e \<Rightarrow> Inl e
                                     | Inr (converted, g3) \<Rightarrow> Inr (createTuple converted g3)))
                          else Inr (v1, g1)
                      | _ \<Rightarrow> Inr (v1, g1)))
            | _ \<Rightarrow> Inr (v0, g0)) of
        Inl e \<Rightarrow> Inl e
      | Inr (v1, g1) \<Rightarrow>
          (case (if isSubtypeOf X (type_of g1 v1) NoneType \<and> \<not> isSubtypeOf X concrete_type NoneType
                 then (if isSubtypeOf X concrete_type GeneratorType
                       then insertNode1 ''prim::NoneGenerator'' [] GeneratorType [] None g1
                       else if isSubtypeOf X concrete_type (OptionalType DynamicType)
                       then insertNode1 ''prim::Undefined'' [] DynamicType [] None g1
                       else (case concrete_type of
                               OptionalType elem \<Rightarrow>
                                 insertNode1 ''prim::None'' [] (OptionalType elem) [] None g1
                             | _ \<Rightarrow> (v1, g1)))
                 else (v1, g1)) of
             (v2, g2) \<Rightarrow>
               if allow_conversions
               then (case (if isSubtypeOf X concrete_type NumberType \<and>
                              isSubtypeOf X (type_of g2 v2) DynamicType
                           then insertNode1 ''prim::ImplicitTensorToNum'' [v2] concrete_type [] None g2
                           else (v2, g2)) of
                       (v3, g3) \<Rightarrow>
                         if isSubtypeOf X (type_of g3 v3) StringType \<and>
                            isSubtypeOf X DeviceObjType concrete_type
                         then graph_insert X ''aten::device'' [simple_nv v3] g3
                         else Inr (v3, g3))
               else Inr (v2, g2)))"
| "convertElements X allow_conversions [] unpacked g = Inr ([], g)"
| "convertElements X allow_conversions (t # ts) [] g = Inl (OutOfRangeAt ''unpacked'')"
| "convertElements X allow_conversions (t # ts) (u # us) g =
     (case tryConvertToType X allow_conversions t u g of
        Inl e \<Rightarrow> Inl e
      | Inr (c, g1) \<Rightarrow>
          (case convertElements X allow_conversions ts us g1 of
             Inl e \<Rightarrow> Inl e
           | Inr (cs, g2) \<Rightarrow> Inr (c # cs, g2)))"

text \<open>
  \<^verbatim>\<open>tryMatchArgument\<close>: \<open>Inr (Inl m)\<close> is the \<^verbatim>\<open>nullptr\<close> return with the diagnostic \<open>m\<close>
  written to \<^verbatim>\<open>err()\<close>, \<open>Inl e\<close> is an exception.
\<close>

definition tryMatchArgument ::
  "ext \<Rightarrow> argument \<Rightarrow> named_value \<Rightarrow> bool \<Rightarrow> type_env \<Rightarrow> graph
     \<Rightarrow> error + (match_failure + vid) \<times> type_env \<times> graph" where
  "tryMatchArgument X arg named allow_conversions type_env g =
     (case nv_value named g of
        (v0, g0) \<Rightarrow>
          (case (if isIntOrFloatUsedAsList g0 v0 arg
                 then createList (type_of g0 v0) (replicate (the (arg_N arg)) v0) g0
                 else (v0, g0)) of
             (v1, g1) \<Rightarrow>
               (case matchTypeVariables X (arg_type arg) (type_of g1 v1) type_env of
                  (None, env1) \<Rightarrow>
                    Inr (Inl (CouldNotMatchType (arg_name arg) (type_of g1 v1) (arg_type arg)),
                         env1, g1)
                | (Some concrete_type, env1) \<Rightarrow>
                    (case tryConvertToType X allow_conversions concrete_type v1 g1 of
                       Inl e \<Rightarrow> Inl e
                     | Inr (v2, g2) \<Rightarrow>
                         if \<not> isSubtypeOf X (type_of g2 v2) concrete_type
                         then Inr (Inl (ExpectedValueOfType (arg_name arg) concrete_type
                                          (type_of g2 v2)), env1, g2)
                         else Inr (Inr v2, env1, g2)))))"

fun findInputWithName :: "string \<Rightarrow> named_value list \<Rightarrow> nat option" where
  "findInputWithName name [] = None"
| "findInputWithName name (kw # kwargs) =
     (if nv_name kw = Some name then Some 0
      else map_option Suc (findInputWithName name kwargs))"

definition varargs_argument :: "jtype \<Rightarrow> argument" where
  "varargs_argument elem_type =
     \<lparr>arg_name = ''<varargs>'', arg_type = elem_type, arg_N = None, default_value = None,
      kwarg_only = False\<rparr>"

fun tryCreateList_loop ::
  "ext \<Rightarrow> jtype \<Rightarrow> named_value list \<Rightarrow> bool \<Rightarrow> vid list \<Rightarrow> type_env \<Rightarrow> graph
     \<Rightarrow> error + (match_failure + vid list) \<times> type_env \<times> graph" where
  "tryCreateList_loop X elem_type [] conv list_ctor type_env g = Inr (Inr list_ctor, type_env, g)"
| "tryCreateList_loop X elem_type (a # varargs) conv list_ctor type_env g =
     (case tryMatchArgument X (varargs_argument elem_type) a conv type_env g of
        Inl e \<Rightarrow> Inl e
      | Inr (Inl m, env1, g1) \<Rightarrow> Inr (Inl m, env1, g1)
      | Inr (Inr av, env1, g1) \<Rightarrow>
          tryCreateList_loop X elem_type varargs conv (list_ctor @ [av]) env1 g1)"

definition tryCreateList ::
  "ext \<Rightarrow> jtype \<Rightarrow> named_value list \<Rightarrow> bool \<Rightarrow> type_env \<Rightarrow> graph
     \<Rightarrow> error + (match_failure + vid) \<times> type_env \<times> graph" where
  "tryCreateList X elem_type varargs convert_tensor_to_num type_env g =
     (case tryCreateList_loop X elem_type varargs convert_tensor_to_num [] type_env g of
        Inl e \<Rightarrow> Inl e
      | Inr (Inl m, env1, g1) \<Rightarrow> Inr (Inl m, env1, g1)
      | Inr (Inr list_ctor, env1, g1) \<Rightarrow>
          (case createList elem_type list_ctor g1 of
             (l, g2) \<Rightarrow> Inr (Inr l, env1, g2)))"

text \<open>
  The local variables of \<^verbatim>\<open>tryMatchSchema\<close> that its loop over the schema's parameters
  updates.
\<close>

record match_state =
  m_self :: "named_value option"
  used_args :: nat
  positional_inputs :: "vid list"
  used_kwarg :: "bool list"
  m_type_env :: type_env

text \<open>
  The test that sends a parameter down the greedy path: the formal is a list, it has no
  fixed length \<open>N\<close>, and it is the last positional parameter.
\<close>

definition consumes_varargs :: "argument \<Rightarrow> argument list \<Rightarrow> bool" where
  "consumes_varargs arg rest =
     (is_ListType (arg_type arg) \<and> arg_N arg = None \<and>
      (rest = [] \<or> kwarg_only (hd rest)))"

fun list_element_type :: "jtype \<Rightarrow> jtype option" where
  "list_element_type (ListType t) = Some t"
| "list_element_type _ = None"

text \<open>
  One iteration of the loop of \<^verbatim>\<open>tryMatchSchema\<close>, for parameter \<open>arg\<close> followed in the
  schema by \<open>rest\<close>. \<open>Inr (Inl m)\<close> is \<^verbatim>\<open>return c10::nullopt\<close> after writing \<open>m\<close>.
\<close>

definition matchParameter ::
  "ext \<Rightarrow> named_value list \<Rightarrow> named_value list \<Rightarrow> bool \<Rightarrow> argument \<Rightarrow> argument list
     \<Rightarrow> match_state \<Rightarrow> graph \<Rightarrow> error + (match_failure + match_state) \<times> graph" where
  "matchParameter X args kwargs allow_conversions arg rest st g =
     (let bind = (\<lambda>v st1 g1.
            case tryMatchArgument X arg v allow_conversions (m_type_env st1) g1 of
              Inl e \<Rightarrow> Inl e
            | Inr (Inl m, env1, g2) \<Rightarrow> Inr (Inl m, g2)
            | Inr (Inr positional, env1, g2) \<Rightarrow>
                Inr (Inr (st1\<lparr>positional_inputs := positional_inputs st1 @ [positional],
                               m_type_env := env1\<rparr>), g2))
      in
      if arg_name arg = ''self'' \<and> m_self st \<noteq> None
      then bind (the (m_self st)) (st\<lparr>m_self := None\<rparr>) g
      else if \<not> kwarg_only arg \<and> used_args st < length args
      then (case (if consumes_varargs arg rest
                  then (case nv_value (args ! used_args st) g of
                          (actual, g1) \<Rightarrow>
                            (\<not> is_ListType (type_of g1 actual) \<and>
                             \<not> convertibleToList X (type_of g1 actual)
                                  (unwrapOptional (arg_type arg)), g1))
                  else (False, g)) of
              (greedy, g1) \<Rightarrow>
                if greedy
                then (case list_element_type (unwrapOptional (arg_type arg)) of
                        None \<Rightarrow> Inl (AssertionFailed ''expect<ListType>'')
                      | Some elem_type \<Rightarrow>
                          (case tryCreateList X elem_type (drop (used_args st) args)
                                  allow_conversions (m_type_env st) g1 of
                             Inl e \<Rightarrow> Inl e
                           | Inr (Inl m, env1, g2) \<Rightarrow> Inr (Inl m, g2)
                           | Inr (Inr l, env1, g2) \<Rightarrow>
                               Inr (Inr (st\<lparr>used_args := length args,
                                            positional_inputs := positional_inputs st @ [l],
                                            m_type_env := env1\<rparr>), g2)))
                else bind (args ! used_args st) (st\<lparr>used_args := used_args st + 1\<rparr>) g1)
      else (case findInputWithName (arg_name arg) kwargs of
              Some idx \<Rightarrow>
                if used_kwarg st ! idx
                then Inr (Inl (ArgumentSpecifiedTwiceInSchema (arg_name arg)), g)
                else bind (kwargs ! idx) (st\<lparr>used_kwarg := (used_kwarg st)[idx := True]\<rparr>) g
            | None \<Rightarrow>
                (case default_value arg of
                   Some d \<Rightarrow> bind \<lparr>nv_name = None, nv_val = Inr d\<rparr> st g
                 | None \<Rightarrow> Inr (Inl (ArgumentNotProvided (arg_name arg)), g))))"

fun matchParameters ::
  "ext \<Rightarrow> named_value list \<Rightarrow> named_value list \<Rightarrow> bool \<Rightarrow> argument list
     \<Rightarrow> match_state \<Rightarrow> graph \<Rightarrow> error + (match_failure + match_state) \<times> graph" where
  "matchParameters X args kwargs allow_conversions [] st g = Inr (Inr st, g)"
| "matchParameters X args kwargs allow_conversions (arg # rest) st g =
     (case matchParameter X args kwargs allow_conversions arg rest st g of
        Inl e \<Rightarrow> Inl e
      | Inr (Inl m, g1) \<Rightarrow> Inr (Inl m, g1)
      | Inr (Inr st1, g1) \<Rightarrow> matchParameters X args kwargs allow_conversions rest st1 g1)"

fun nv_values :: "named_value list \<Rightarrow> graph \<Rightarrow> vid list \<times> graph" where
  "nv_values [] g = ([], g)"
| "nv_values (a # as) g =
     (case nv_value a g of (v, g1) \<Rightarrow> (case nv_values as g1 of (vs, g2) \<Rightarrow> (v # vs, g2)))"

fun first_unused_kwarg :: "named_value list \<Rightarrow> bool list \<Rightarrow> named_value option" where
  "first_unused_kwarg (kw # kwargs) (u # used) =
     (if \<not> u then Some kw else first_unused_kwarg kwargs used)"
| "first_unused_kwarg _ _ = None"

text \<open>
  \<^verbatim>\<open>tryMatchSchema\<close>. The result holds the diagnostics written to \<^verbatim>\<open>failure_messages\<close>,
  the match (or \<open>None\<close> for \<^verbatim>\<open>c10::nullopt\<close>) and the graph, to which a failed attempt may
  have added nodes. An unused \<^verbatim>\<open>self\<close> writes a diagnostic and goes on.
\<close>

definition tryMatchSchema ::
  "ext \<Rightarrow> schema \<Rightarrow> named_value option \<Rightarrow> named_value list \<Rightarrow> named_value list \<Rightarrow> bool \<Rightarrow> graph
     \<Rightarrow> error + match_failure list \<times> matched_schema option \<times> graph" where
  "tryMatchSchema X sch self args kwargs allow_conversions g =
     (case matchParameters X args kwargs allow_conversions (arguments sch)
             \<lparr>m_self = self, used_args = 0, positional_inputs = [],
              used_kwarg = replicate (length kwargs) False, m_type_env = []\<rparr> g of
        Inl e \<Rightarrow> Inl e
      | Inr (Inl m, g1) \<Rightarrow> Inr ([m], None, g1)
      | Inr (Inr st, g1) \<Rightarrow>
          (let msgs = (if m_self st \<noteq> None then [SelfNotUsed] else []) in
           case (if is_vararg sch
                 then (case nv_values (drop (used_args st) args) g1 of
                         (vs, g2) \<Rightarrow>
                           (st\<lparr>positional_inputs := positional_inputs st @ vs,
                               used_args := max (used_args st) (length args)\<rparr>, g2))
                 else (st, g1)) of
             (st1, g2) \<Rightarrow>
               if used_args st1 < length args
               then Inr (msgs @ [ExpectedAtMost (used_args st1) (length args)], None, g2)
               else (case first_unused_kwarg kwargs (used_kwarg st1) of
                       Some nv \<Rightarrow>
                         if the (nv_name nv) \<notin> set (map arg_name (arguments sch))
                         then Inr (msgs @ [KeywordArgumentUnknown (the (nv_name nv))], None, g2)
                         else Inr (msgs @ [KeywordArgumentSpecifiedTwice (the (nv_name nv))],
                                   None, g2)
                     | None \<Rightarrow>
                         Inr (msgs,
                              Some \<lparr>ms_inputs = positional_inputs st1,
                                    ms_return_types =
                                      map (\<lambda>r. evalTypeVariables X (arg_type r) (m_type_env st1))
                                        (returns sch)\<rparr>,
                              g2))))"

subsection \<open>Overload resolution: \<^verbatim>\<open>emitBuiltinCall\<close>\<close>

definition emitBuiltinNode :: "ext \<Rightarrow> matched_schema \<Rightarrow> string \<Rightarrow> graph \<Rightarrow> error + vid \<times> graph" where
  "emitBuiltinNode X ms name g =
     (case insertNode name (ms_inputs ms) (ms_return_types ms) [] None g of
        (n, g1) \<Rightarrow>
          if \<not> getOperation X name (map (type_of g1) (ms_inputs ms)) (ms_return_types ms)
          then Inl (NoOperationFor name)
          else Inr (packOutputs (n_outputs (g_nodes g1 ! n)) g1))"

text \<open>
  The two inner loops of \<^verbatim>\<open>emitBuiltinCall\<close>, for one value of \<open>allow_conversions\<close>: first
  the operators, then the library functions, each in the order of its registry. The
  result is \<open>Some\<close> of the value returned at the first match, or \<open>None\<close> with the
  diagnostics collected.
\<close>

fun tryOperators ::
  "ext \<Rightarrow> string \<Rightarrow> named_value option \<Rightarrow> named_value list \<Rightarrow> named_value list \<Rightarrow> bool
     \<Rightarrow> schema list \<Rightarrow> match_failure list \<Rightarrow> graph
     \<Rightarrow> error + match_failure list \<times> vid option \<times> graph" where
  "tryOperators X name self inputs attributes allow [] msgs g = Inr (msgs, None, g)"
| "tryOperators X name self inputs attributes allow (op # variants) msgs g =
     (case tryMatchSchema X op self inputs attributes allow g of
        Inl e \<Rightarrow> Inl e
      | Inr (m, Some matched, g1) \<Rightarrow>
          (case emitBuiltinNode X matched name g1 of
             Inl e \<Rightarrow> Inl e
           | Inr (v, g2) \<Rightarrow> Inr (msgs @ m, Some v, g2))
      | Inr (m, None, g1) \<Rightarrow>
          tryOperators X name self inputs attributes allow variants (msgs @ m) g1)"

fun tryBuiltinFunctions ::
  "ext \<Rightarrow> named_value option \<Rightarrow> named_value list \<Rightarrow> named_value list \<Rightarrow> bool
     \<Rightarrow> nat list \<Rightarrow> match_failure list \<Rightarrow> graph
     \<Rightarrow> error + match_failure list \<times> vid option \<times> graph" where
  "tryBuiltinFunctions X self inputs attributes allow [] msgs g = Inr (msgs, None, g)"
| "tryBuiltinFunctions X self inputs attributes allow (method # methods) msgs g =
     (case try_emit_call_to X method self inputs attributes allow g of
        Inl e \<Rightarrow> Inl e
      | Inr (m, Some result, g1) \<Rightarrow>
          (case packOutputs result g1 of (v, g2) \<Rightarrow> Inr (msgs @ m, Some v, g2))
      | Inr (m, None, g1) \<Rightarrow>
          tryBuiltinFunctions X self inputs attributes allow methods (msgs @ m) g1)"

definition matchPass ::
  "ext \<Rightarrow> string \<Rightarrow> named_value option \<Rightarrow> named_value list \<Rightarrow> named_value list \<Rightarrow> bool \<Rightarrow> graph
     \<Rightarrow> error + match_failure list \<times> vid option \<times> graph" where
  "matchPass X name self inputs attributes allow g =
     (case tryOperators X name self inputs attributes allow (getAllOperatorsFor X name) [] g of
        Inl e \<Rightarrow> Inl e
      | Inr (msgs, Some v, g1) \<Rightarrow> Inr (msgs, Some v, g1)
      | Inr (msgs, None, g1) \<Rightarrow>
          tryBuiltinFunctions X self inputs attributes allow
            (getAllBuiltinFunctionsFor X name) msgs g1)"

text \<open>
  \<^verbatim>\<open>emitBuiltinCall\<close>: the loop \<^verbatim>\<open>for (bool allow_conversions : {false, true})\<close>. \<open>Inr (None, g)\<close>
  is the \<^verbatim>\<open>nullptr\<close> returned when nothing matched and the call is not required.
\<close>

definition emitBuiltinCall ::
  "ext \<Rightarrow> string \<Rightarrow> named_value option \<Rightarrow> named_value list \<Rightarrow> named_value list \<Rightarrow> bool \<Rightarrow> graph
     \<Rightarrow> error + vid option \<times> graph" where
  "emitBuiltinCall X name self inputs attributes required g =
     (case matchPass X name self inputs attributes False g of
        Inl e \<Rightarrow> Inl e
      | Inr (msgs, Some v, g1) \<Rightarrow> Inr (Some v, g1)
      | Inr (msgs, None, g1) \<Rightarrow>
          (case matchPass X name self inputs attributes True g1 of
             Inl e \<Rightarrow> Inl e
           | Inr (msgs, Some v, g2) \<Rightarrow> Inr (Some v, g2)
           | Inr (msgs, None, g2) \<Rightarrow>
               if \<not> required then Inr (None, g2)
               else if getAllOperatorsFor X name = [] then Inl UnknownBuiltinOp
               else Inl (ArgumentsNotValid msgs)))"

subsection \<open>The emitter \<^verbatim>\<open>struct to_ir\<close>: frames, insertion point, node surgery\<close>

definition empty_frame :: "bid \<Rightarrow> frame" where
  "empty_frame b = \<lparr>value_table = [], captured_inputs = [], error_messages = [], fr_block = b\<rparr>"

definition pushFrame :: "bid \<Rightarrow> cstate \<Rightarrow> cstate" where
  "pushFrame b s = s\<lparr>environment_stack := empty_frame b # environment_stack s\<rparr>"

definition popFrame :: "cstate \<Rightarrow> error + frame \<times> cstate" where
  "popFrame s =
     (case environment_stack s of
        [] \<Rightarrow> Inl NullEnvironment
      | old_frame # next \<Rightarrow> Inr (old_frame, s\<lparr>environment_stack := next\<rparr>))"

text \<open>
  \<^verbatim>\<open>WithInsertPoint guard(b)\<close> moves the insertion point to the end of block \<open>b\<close> and
  \<^verbatim>\<open>WithInsertPoint guard(n)\<close> to just before node \<open>n\<close>; leaving the scope puts the old
  insertion point back.
\<close>

definition setInsertPoint :: "bid \<Rightarrow> nid option \<Rightarrow> cstate \<Rightarrow> cstate" where
  "setInsertPoint b before s =
     s\<lparr>cs_graph := (cs_graph s)\<lparr>insert_block := b, insert_before := before\<rparr>\<rparr>"

definition restoreInsertPoint :: "cstate \<Rightarrow> cstate \<Rightarrow> cstate" where
  "restoreInsertPoint old s =
     setInsertPoint (insert_block (cs_graph old)) (insert_before (cs_graph old)) s"

definition addNodeInput :: "nid \<Rightarrow> vid \<Rightarrow> graph \<Rightarrow> graph" where
  "addNodeInput n v g =
     g\<lparr>g_nodes := (g_nodes g)[n := (let N = g_nodes g ! n in N\<lparr>n_inputs := n_inputs N @ [v]\<rparr>)]\<rparr>"

definition addBlock :: "nid \<Rightarrow> graph \<Rightarrow> bid \<times> graph" where
  "addBlock n g =
     (let b = length (g_blocks g) in
      (b, g\<lparr>g_blocks := g_blocks g @
                [\<lparr>b_inputs = [], b_nodes = [], b_outputs = [], b_owner = Some n\<rparr>],
             g_nodes := (g_nodes g)
                [n := (let N = g_nodes g ! n in N\<lparr>n_blocks := n_blocks N @ [b]\<rparr>)]\<rparr>))"

definition addOutput :: "nid \<Rightarrow> jtype \<Rightarrow> graph \<Rightarrow> vid \<times> graph" where
  "addOutput n ty g =
     (case new_val ty (Some n) (n_block (g_nodes g ! n)) g of
        (v, g1) \<Rightarrow>
          (v, g1\<lparr>g_nodes := (g_nodes g1)
                 [n := (let N = g_nodes g1 ! n in N\<lparr>n_outputs := n_outputs N @ [v]\<rparr>)]\<rparr>))"


definition on_graph :: "(graph \<Rightarrow> 'a \<times> graph) \<Rightarrow> cstate \<Rightarrow> 'a \<times> cstate" where
  "on_graph f s = (case f (cs_graph s) of (a, g) \<Rightarrow> (a, s\<lparr>cs_graph := g\<rparr>))"

text \<open>
  \<^verbatim>\<open>materializeConstant\<close>: integer literals are interned in \<^verbatim>\<open>integral_constants\<close>; a new one
  is inserted before the first node of the root block.
\<close>

definition materializeConstant :: "int \<Rightarrow> cstate \<Rightarrow> vid \<times> cstate" where
  "materializeConstant c s =
     (case map_of (integral_constants s) c of
        Some existing_constant \<Rightarrow> (existing_constant, s)
      | None \<Rightarrow>
          (let g = cs_graph s;
               front = (case b_nodes (g_blocks g ! 0) of [] \<Rightarrow> None | n # _ \<Rightarrow> Some n)
           in case insertConstant (IInt c) (g\<lparr>insert_block := 0, insert_before := front\<rparr>) of
                (new_constant, g1) \<Rightarrow>
                  (new_constant,
                   s\<lparr>cs_graph := g1\<lparr>insert_block := insert_block g,
                                     insert_before := insert_before g\<rparr>,
                     integral_constants := AList.update c new_constant (integral_constants s)\<rparr>)))"

subsection \<open>Expressions\<close>

definition emitExpr :: "ext \<Rightarrow> expr \<Rightarrow> jtype option \<Rightarrow> cstate \<Rightarrow> error + vid \<times> cstate" where
  "emitExpr X tree type_hint s =
     (case emitSugaredExpr X tree 1 type_hint s of
        Inl e \<Rightarrow> Inl e
      | Inr (sv, s1) \<Rightarrow>
          (case asValue X sv (cs_graph s1) of
             Inl e \<Rightarrow> Inl e
           | Inr (v, g) \<Rightarrow> Inr (v, s1\<lparr>cs_graph := g\<rparr>)))"

definition emitCond :: "ext \<Rightarrow> expr \<Rightarrow> cstate \<Rightarrow> error + vid \<times> cstate" where
  "emitCond X cond s =
     (case emitExpr X cond None s of
        Inl e \<Rightarrow> Inl e
      | Inr (v, s1) \<Rightarrow>
          if \<not> isSubtypeOf X (type_of (cs_graph s1) v) BoolType
          then Inl (ExpectedBooleanCondition (type_of (cs_graph s1) v)
                      (isSubtypeOf X (type_of (cs_graph s1) v) DynamicType))
          else Inr (v, s1))"

definition ensureInt :: "ext \<Rightarrow> vid \<Rightarrow> cstate \<Rightarrow> error + vid \<times> cstate" where
  "ensureInt X v s =
     (if \<not> isSubtypeOf X (type_of (cs_graph s) v) IntType
      then Inl (ExpectedInt (type_of (cs_graph s) v))
      else Inr (v, s))"

text \<open>
  The first lines shared by \<^verbatim>\<open>emitIfExpr\<close> and \<^verbatim>\<open>emitIfElseBlocks\<close>: one \<^verbatim>\<open>prim::If\<close> node at
  the insertion point, the condition as its input, and its two blocks.
\<close>

definition beginIf :: "vid \<Rightarrow> graph \<Rightarrow> nid \<times> bid \<times> bid \<times> graph" where
  "beginIf cond_value g =
     (case insertNode ''prim::If'' [] [] [] None g of
        (n, g1) \<Rightarrow>
          (case addBlock n (addNodeInput n cond_value g1) of
             (true_block, g2) \<Rightarrow>
               (case addBlock n g2 of
                  (false_block, g3) \<Rightarrow> (n, true_block, false_block, g3))))"

text \<open>The lambda \<^verbatim>\<open>emit_if_expr\<close> of \<^verbatim>\<open>emitIfExpr\<close>.\<close>

definition emit_if_expr ::
  "bid \<Rightarrow> (cstate \<Rightarrow> error + vid \<times> cstate) \<Rightarrow> cstate \<Rightarrow> error + cstate" where
  "emit_if_expr b expr_value s =
     (case expr_value (setInsertPoint b None (pushFrame b s)) of
        Inl e \<Rightarrow> Inl e
      | Inr (out_val, s1) \<Rightarrow>
          (case popFrame (s1\<lparr>cs_graph := registerOutput b out_val (cs_graph s1)\<rparr>) of
             Inl e \<Rightarrow> Inl e
           | Inr (fr, s2) \<Rightarrow> Inr (restoreInsertPoint s s2)))"

definition emitIfExpr ::
  "ext \<Rightarrow> vid \<Rightarrow> (cstate \<Rightarrow> error + vid \<times> cstate) \<Rightarrow> (cstate \<Rightarrow> error + vid \<times> cstate)
     \<Rightarrow> cstate \<Rightarrow> error + vid \<times> cstate" where
  "emitIfExpr X cond_value true_expr false_expr s =
     (case beginIf cond_value (cs_graph s) of
        (n, true_block, false_block, g1) \<Rightarrow>
          (case emit_if_expr true_block true_expr (s\<lparr>cs_graph := g1\<rparr>) of
             Inl e \<Rightarrow> Inl e
           | Inr s2 \<Rightarrow>
               (case emit_if_expr false_block false_expr s2 of
                  Inl e \<Rightarrow> Inl e
                | Inr s3 \<Rightarrow>
                    (case (b_outputs (g_blocks (cs_graph s3) ! true_block),
                           b_outputs (g_blocks (cs_graph s3) ! false_block)) of
                       (t_out # _, f_out # _) \<Rightarrow>
                         (let true_type = unshapedType X (type_of (cs_graph s3) t_out);
                              false_type = unshapedType X (type_of (cs_graph s3) f_out)
                          in if true_type \<noteq> false_type
                             then Inl (IfExpressionBranchTypes true_type false_type)
                             else Inr (on_graph (addOutput n true_type) s3))
                     | _ \<Rightarrow> Inl (OutOfRangeAt ''outputs'')))))"

definition emitTernaryIf :: "ext \<Rightarrow> expr \<Rightarrow> expr \<Rightarrow> expr \<Rightarrow> cstate \<Rightarrow> error + vid \<times> cstate" where
  "emitTernaryIf X cond true_expr false_expr s =
     (case emitCond X cond s of
        Inl e \<Rightarrow> Inl e
      | Inr (cond_value, s1) \<Rightarrow>
          emitIfExpr X cond_value (emitExpr X true_expr None) (emitExpr X false_expr None) s1)"

text \<open>
  \<^verbatim>\<open>SimpleValue::asTuple\<close> of this file; the other sugared values of this file inherit the
  default, which fails.
\<close>

definition asTuple :: "ext \<Rightarrow> sugared \<Rightarrow> nat option \<Rightarrow> graph \<Rightarrow> error + sugared list \<times> graph" where
  "asTuple X sv size_hint g =
     (case sv of
        SimpleValue v \<Rightarrow>
          (case type_of g v of
             TupleType ts \<Rightarrow>
               (case createTupleUnpack v g of (outputs, g1) \<Rightarrow> Inr (map SimpleValue outputs, g1))
           | ListType elem \<Rightarrow>
               (case size_hint of
                  None \<Rightarrow> Inl CannotInferListSize
                | Some n \<Rightarrow>
                    (case insertNode ''prim::ListUnpack'' [v] (replicate n elem) [] None g of
                       (u, g1) \<Rightarrow> Inr (map SimpleValue (n_outputs (g_nodes g1 ! u)), g1)))
           | t \<Rightarrow> Inl (CannotBeUsedAsTuple t))
      | External k h \<Rightarrow> ext_asTuple X h size_hint g
      | _ \<Rightarrow> Inl (SugaredCannotBeUsedAsTuple (sv_kind sv)))"

fun asValues :: "ext \<Rightarrow> sugared list \<Rightarrow> graph \<Rightarrow> error + vid list \<times> graph" where
  "asValues X [] g = Inr ([], g)"
| "asValues X (sv # svs) g =
     (case asValue X sv g of
        Inl e \<Rightarrow> Inl e
      | Inr (v, g1) \<Rightarrow>
          (case asValues X svs g1 of
             Inl e \<Rightarrow> Inl e
           | Inr (vs, g2) \<Rightarrow> Inr (v # vs, g2)))"

text \<open>\<^verbatim>\<open>getValues(trees, maybe_unpack)\<close>: a starred entry is expanded into the values of its tuple.\<close>

fun getValues :: "ext \<Rightarrow> expr list \<Rightarrow> bool \<Rightarrow> cstate \<Rightarrow> error + vid list \<times> cstate" where
  "getValues X [] maybe_unpack s = Inr ([], s)"
| "getValues X (tree # trees) maybe_unpack s =
     (case (case tree of
              Starred starred \<Rightarrow>
                if maybe_unpack
                then (case emitSugaredExpr X starred 1 None s of
                        Inl e \<Rightarrow> Inl e
                      | Inr (sv, s1) \<Rightarrow>
                          (case asTuple X sv None (cs_graph s1) of
                             Inl e \<Rightarrow> Inl e
                           | Inr (entries, g1) \<Rightarrow>
                               (case asValues X entries g1 of
                                  Inl e \<Rightarrow> Inl e
                                | Inr (vs, g2) \<Rightarrow> Inr (vs, s1\<lparr>cs_graph := g2\<rparr>))))
                else (case emitExpr X tree None s of
                        Inl e \<Rightarrow> Inl e
                      | Inr (v, s1) \<Rightarrow> Inr ([v], s1))
            | _ \<Rightarrow>
                (case emitExpr X tree None s of
                   Inl e \<Rightarrow> Inl e
                 | Inr (v, s1) \<Rightarrow> Inr ([v], s1))) of
        Inl e \<Rightarrow> Inl e
      | Inr (vs, s1) \<Rightarrow>
          (case getValues X trees maybe_unpack s1 of
             Inl e \<Rightarrow> Inl e
           | Inr (ws, s2) \<Rightarrow> Inr (vs @ ws, s2)))"

text \<open>
  The \<^verbatim>\<open>TK_LIST_LITERAL\<close> case of \<^verbatim>\<open>emitSimpleExpr\<close>. \<open>elem_ptr\<close> says which type object
  \<^verbatim>\<open>elem_type\<close> points to and \<open>elem_type_of\<close> is the type it holds; the test
  \<^verbatim>\<open>v->type() != elem_type\<close> compares the two pointers.
\<close>

definition elem_ptr :: "jtype option \<Rightarrow> vid list \<Rightarrow> elem_type_ptr" where
  "elem_ptr type_hint vs =
     (case type_hint of
        Some (ListType t) \<Rightarrow> HintElement t
      | _ \<Rightarrow> (case vs of [] \<Rightarrow> DynamicSingleton | v # _ \<Rightarrow> TypeOfValue v))"

fun elem_type_of :: "graph \<Rightarrow> elem_type_ptr \<Rightarrow> jtype" where
  "elem_type_of g DynamicSingleton = DynamicType"
| "elem_type_of g (HintElement t) = t"
| "elem_type_of g (TypeOfValue v) = type_of g v"

definition emitListLiteral ::
  "ext \<Rightarrow> expr list \<Rightarrow> jtype option \<Rightarrow> cstate \<Rightarrow> error + vid \<times> cstate" where
  "emitListLiteral X inputs type_hint s =
     (case getValues X inputs True s of
        Inl e \<Rightarrow> Inl e
      | Inr (vs, s1) \<Rightarrow>
          (let g = cs_graph s1;
               p = elem_ptr type_hint vs;
               elem_type = elem_type_of g p
           in case find (\<lambda>v. \<not> type_ptr_eq X g v p) vs of
                Some v \<Rightarrow> Inl (ListsMustContainOnlyASingleType elem_type (type_of g v))
              | None \<Rightarrow> Inr (on_graph (createList elem_type vs) s1)))"

subsection \<open>Statements\<close>

text \<open>
  The names \<^verbatim>\<open>emitIfElseBlocks\<close> reconciles: those defined in one branch's frame and
  visible from the other branch. They are collected in a \<^verbatim>\<open>std::set\<close>, which is iterated
  in ascending order.
\<close>

definition mutated_variables :: "frame \<Rightarrow> frame \<Rightarrow> frame list \<Rightarrow> string list" where
  "mutated_variables save_true save_false env =
     sort (remdups
       (filter (\<lambda>v. findInAnyFrame v (save_false # env) \<noteq> None) (definedVariables save_true) @
        filter (\<lambda>v. findInAnyFrame v (save_true # env) \<noteq> None) (definedVariables save_false)))"

text \<open>
  The body of the loop \<^verbatim>\<open>for (const auto& x : mutated_variables)\<close> of \<^verbatim>\<open>emitIfElseBlocks\<close>.
  The two saved frames still point to the live scope stack, so a lookup through one of
  them runs on the frame put in front of the stack.
\<close>

definition reconcileVariable ::
  "ext \<Rightarrow> nid \<Rightarrow> bid \<Rightarrow> bid \<Rightarrow> string \<Rightarrow> frame \<times> frame \<times> cstate
     \<Rightarrow> error + frame \<times> frame \<times> cstate" where
  "reconcileVariable X n true_block false_block x st =
     (case st of (save_true, save_false, s) \<Rightarrow>
      (case getVar X x (save_true # environment_stack s) (cs_graph s) of
         Inl e \<Rightarrow> Inl e
       | Inr (tv, [], g1) \<Rightarrow> Inl NullEnvironment
       | Inr (tv, save_true1 # env1, g1) \<Rightarrow>
           (case getVar X x (save_false # env1) g1 of
              Inl e \<Rightarrow> Inl e
            | Inr (fv, [], g2) \<Rightarrow> Inl NullEnvironment
            | Inr (fv, save_false1 # env2, g2) \<Rightarrow>
                (case unifyTypes X (type_of g2 tv) (type_of g2 fv) of
                   None \<Rightarrow>
                     if findInParentFrame x (save_true1 # env2) \<noteq> None \<or>
                        findInParentFrame x (save_false1 # env2) \<noteq> None
                     then Inl (TypeMismatchInBranches x (type_of g2 tv) (type_of g2 fv))
                     else (case setVariableTypeError x
                                  (TypeMismatchInBranches x (type_of g2 tv) (type_of g2 fv))
                                  (save_true1 # env2) of
                             [] \<Rightarrow> Inl NullEnvironment
                           | save_true2 # env3 \<Rightarrow>
                               Inr (save_true2, save_false1,
                                    s\<lparr>cs_graph := g2, environment_stack := env3\<rparr>))
                 | Some unified \<Rightarrow>
                     (case addOutput n unified
                             (registerOutput false_block fv (registerOutput true_block tv g2)) of
                        (out, g3) \<Rightarrow>
                          (case setVar X x out env2 g3 of
                             Inl e \<Rightarrow> Inl e
                           | Inr (env3, g4) \<Rightarrow>
                               Inr (save_true1, save_false1,
                                    s\<lparr>cs_graph := g4, environment_stack := env3\<rparr>)))))))"

fun reconcileVariables ::
  "ext \<Rightarrow> nid \<Rightarrow> bid \<Rightarrow> bid \<Rightarrow> string list \<Rightarrow> frame \<times> frame \<times> cstate
     \<Rightarrow> error + frame \<times> frame \<times> cstate" where
  "reconcileVariables X n true_block false_block [] st = Inr st"
| "reconcileVariables X n true_block false_block (x # xs) st =
     (case reconcileVariable X n true_block false_block x st of
        Inl e \<Rightarrow> Inl e
      | Inr st1 \<Rightarrow> reconcileVariables X n true_block false_block xs st1)"

text \<open>\<^verbatim>\<open>emitRaise\<close> and the part of \<^verbatim>\<open>emitAssert\<close> after the condition.\<close>

definition emitRaise :: "ext \<Rightarrow> cstate \<Rightarrow> error + cstate" where
  "emitRaise X s =
     (case insertConstant (IString ''Exception'') (cs_graph s) of
        (string_input, g1) \<Rightarrow>
          (case graph_insert X ''prim::RaiseException'' [simple_nv string_input] g1 of
             Inl e \<Rightarrow> Inl e
           | Inr (v, g2) \<Rightarrow> Inr (s\<lparr>cs_graph := g2\<rparr>)))"

definition emitAssert :: "ext \<Rightarrow> expr \<Rightarrow> cstate \<Rightarrow> error + cstate" where
  "emitAssert X test s =
     (case emitCond X test s of
        Inl e \<Rightarrow> Inl e
      | Inr (cond_value, s1) \<Rightarrow>
          (case beginIf cond_value (cs_graph s1) of
             (n, true_block, false_block, g1) \<Rightarrow>
               (case emitRaise X (setInsertPoint false_block None
                                    (pushFrame false_block (s1\<lparr>cs_graph := g1\<rparr>))) of
                  Inl e \<Rightarrow> Inl e
                | Inr s2 \<Rightarrow>
                    (case popFrame s2 of
                       Inl e \<Rightarrow> Inl e
                     | Inr (fr, s3) \<Rightarrow> Inr (restoreInsertPoint s1 s3)))))"

text \<open>The \<^verbatim>\<open>TK_GLOBAL\<close> case: each name becomes a named graph input.\<close>

fun emitGlobal :: "ext \<Rightarrow> string list \<Rightarrow> cstate \<Rightarrow> error + cstate" where
  "emitGlobal X [] s = Inr s"
| "emitGlobal X (name # names) s =
     (case addInput 0 DynamicType (cs_graph s) of
        (v, g1) \<Rightarrow>
          (case setVar X name v (environment_stack s) (setUniqueName v name g1) of
             Inl e \<Rightarrow> Inl e
           | Inr (env1, g2) \<Rightarrow>
               emitGlobal X names (s\<lparr>cs_graph := g2, environment_stack := env1\<rparr>)))"

definition emitAssignment :: "ext \<Rightarrow> expr \<Rightarrow> expr \<Rightarrow> cstate \<Rightarrow> error + cstate" where
  "emitAssignment X lhs rhs s =
     (case lhs of
        Var name \<Rightarrow>
          (case emitSugaredExpr X rhs 1 None s of
             Inl e \<Rightarrow> Inl e
           | Inr (sv, s1) \<Rightarrow>
               (case setSugaredVar X name sv (environment_stack s1) (cs_graph s1) of
                  Inl e \<Rightarrow> Inl e
                | Inr (env1, g1) \<Rightarrow> Inr (s1\<lparr>cs_graph := g1, environment_stack := env1\<rparr>)))
      | TupleLiteral _ \<Rightarrow> emitTupleAssign X lhs rhs s
      | Subscript _ _ \<Rightarrow> emitSubscriptAssign X lhs rhs s
      | _ \<Rightarrow> Inl UnexpectedLhsOfAssignment)"

text \<open>
  The tail of \<^verbatim>\<open>emitLoopCommon\<close> after the body frame is popped: block outputs for the
  captured inputs, removal of the unchanged ones, then node inputs and outputs for the
  rest.
\<close>

fun registerCapturedOutputs ::
  "ext \<Rightarrow> bid \<Rightarrow> string list \<Rightarrow> frame \<Rightarrow> frame list \<Rightarrow> graph \<Rightarrow> error + graph" where
  "registerCapturedOutputs X body_block [] body_frame next g = Inr g"
| "registerCapturedOutputs X body_block (x # xs) body_frame next g =
     (case getValueInThisFrame X x (body_frame # next) g of
        Inl e \<Rightarrow> Inl e
      | Inr (fv, g1) \<Rightarrow>
          registerCapturedOutputs X body_block xs body_frame next (registerOutput body_block fv g1))"

fun registerLoopCarried ::
  "ext \<Rightarrow> nid \<Rightarrow> bid \<Rightarrow> nat \<Rightarrow> string list \<Rightarrow> frame list \<Rightarrow> graph
     \<Rightarrow> error + frame list \<times> graph" where
  "registerLoopCarried X n body_block i [] outer g = Inr (outer, g)"
| "registerLoopCarried X n body_block i (x # xs) outer g =
     (case getVar X x outer g of
        Inl e \<Rightarrow> Inl e
      | Inr (v, outer1, g1) \<Rightarrow>
          (case addOutput n (type_of g1 (b_inputs (g_blocks g1 ! body_block) ! (i + 1)))
                  (addNodeInput n v g1) of
             (out, g2) \<Rightarrow>
               (case setVar X x out outer1 g2 of
                  Inl e \<Rightarrow> Inl e
                | Inr (outer2, g3) \<Rightarrow>
                    registerLoopCarried X n body_block (i + 1) xs outer2 g3)))"

definition finishLoop :: "ext \<Rightarrow> nid \<Rightarrow> bid \<Rightarrow> frame \<Rightarrow> cstate \<Rightarrow> error + cstate" where
  "finishLoop X n body_block body_frame s =
     (case registerCapturedOutputs X body_block (captured_inputs body_frame) body_frame
             (environment_stack s) (cs_graph s) of
        Inl e \<Rightarrow> Inl e
      | Inr g1 \<Rightarrow>
          (case deleteExtraInputs X body_frame (environment_stack s) g1 of
             Inl e \<Rightarrow> Inl e
           | Inr (body_frame1, g2) \<Rightarrow>
               (case registerLoopCarried X n body_block 0 (captured_inputs body_frame1)
                       (environment_stack s) g2 of
                  Inl e \<Rightarrow> Inl e
                | Inr (outer, g3) \<Rightarrow> Inr (s\<lparr>cs_graph := g3, environment_stack := outer\<rparr>))))"

text \<open>
  The head of \<^verbatim>\<open>emitLoopCommon\<close>: the \<^verbatim>\<open>prim::Loop\<close> node, the trip count and the start
  condition emitted just before it, the body block with its counter input, the body
  frame and the binding of the iteration variable.
\<close>

definition INT64_MAX :: int where
  "INT64_MAX = 9223372036854775807"

definition beginLoop ::
  "ext \<Rightarrow> expr option \<Rightarrow> expr option \<Rightarrow> string option \<Rightarrow> cstate
     \<Rightarrow> error + nid \<times> bid \<times> cstate" where
  "beginLoop X max_trip_count cond itr_ident s =
     (case insertNode ''prim::Loop'' [] [] [] None (cs_graph s) of
        (n, g1) \<Rightarrow>
          (let s1 = setInsertPoint (insert_block (cs_graph s)) (Some n) (s\<lparr>cs_graph := g1\<rparr>) in
           case (case max_trip_count of
                   Some e \<Rightarrow>
                     (case emitExpr X e None s1 of
                        Inl err \<Rightarrow> Inl err
                      | Inr (v, s2) \<Rightarrow> ensureInt X v s2)
                 | None \<Rightarrow> Inr (materializeConstant INT64_MAX s1)) of
             Inl err \<Rightarrow> Inl err
           | Inr (max_trip_count_val, s2) \<Rightarrow>
               (case (case cond of
                        Some c \<Rightarrow> emitCond X c s2
                      | None \<Rightarrow> Inr (on_graph (insertConstant (IBool True)) s2)) of
                  Inl err \<Rightarrow> Inl err
                | Inr (cond_val, s3) \<Rightarrow>
                    (let s4 = restoreInsertPoint s s3;
                         g4 = addNodeInput n cond_val (addNodeInput n max_trip_count_val (cs_graph s4))
                     in case addBlock n g4 of
                          (body_block, g5) \<Rightarrow>
                            (case addInput body_block IntType g5 of
                               (trip_count, g6) \<Rightarrow>
                                 (let s5 = pushFrame body_block (s4\<lparr>cs_graph := g6\<rparr>) in
                                  case (case itr_ident of
                                          Some name \<Rightarrow>
                                            (case setVar X name trip_count (environment_stack s5)
                                                    (cs_graph s5) of
                                               Inl err \<Rightarrow> Inl err
                                             | Inr (env1, g7) \<Rightarrow>
                                                 Inr (s5\<lparr>cs_graph := g7, environment_stack := env1\<rparr>))
                                        | None \<Rightarrow> Inr s5) of
                                    Inl err \<Rightarrow> Inl err
                                  | Inr s6 \<Rightarrow> Inr (n, body_block, setInsertPoint body_block None s6)))))))"

text \<open>After the body: the continue condition becomes the first block output.\<close>

definition emitBodyCondition :: "ext \<Rightarrow> expr option \<Rightarrow> bid \<Rightarrow> cstate \<Rightarrow> error + cstate" where
  "emitBodyCondition X cond body_block s =
     (case (case cond of
              Some c \<Rightarrow> emitCond X c s
            | None \<Rightarrow> Inr (on_graph (insertConstant (IBool True)) s)) of
        Inl e \<Rightarrow> Inl e
      | Inr (v, s1) \<Rightarrow> Inr (s1\<lparr>cs_graph := registerOutput body_block v (cs_graph s1)\<rparr>))"

text \<open>
  The end of the unrolled form of \<^verbatim>\<open>emitFor\<close>: names of the unrolled frame that exist in
  an enclosing frame are written to the parent frame.
\<close>

fun promoteDefined :: "ext \<Rightarrow> string list \<Rightarrow> frame list \<Rightarrow> graph \<Rightarrow> error + frame list \<times> graph" where
  "promoteDefined X [] env g = Inr (env, g)"
| "promoteDefined X (n # ns) env g =
     (if findInParentFrame n env \<noteq> None
      then (case getVar X n env g of
              Inl e \<Rightarrow> Inl e
            | Inr (v, [], g1) \<Rightarrow> Inl NullEnvironment
            | Inr (v, f # next, g1) \<Rightarrow>
                (case setVar X n v next g1 of
                   Inl e \<Rightarrow> Inl e
                 | Inr (next1, g2) \<Rightarrow> promoteDefined X ns (f # next1) g2))
      else promoteDefined X ns env g)"

text \<open>
  The statement emitter. \<open>emitForUnrolled\<close> is the loop over the instances in the
  unrolled form of \<^verbatim>\<open>emitFor\<close>.
\<close>

function (sequential)
    emitStatements :: "ext \<Rightarrow> stmt list \<Rightarrow> cstate \<Rightarrow> error + cstate"
and emitIf :: "ext \<Rightarrow> stmt \<Rightarrow> cstate \<Rightarrow> error + cstate"
and emitIfElseBlocks :: "ext \<Rightarrow> vid \<Rightarrow> stmt \<Rightarrow> cstate \<Rightarrow> error + cstate"
and emitSingleIfBranch :: "ext \<Rightarrow> bid \<Rightarrow> stmt list \<Rightarrow> cstate \<Rightarrow> error + frame \<times> cstate"
and emitWhile :: "ext \<Rightarrow> stmt \<Rightarrow> cstate \<Rightarrow> error + cstate"
and emitFor :: "ext \<Rightarrow> stmt \<Rightarrow> cstate \<Rightarrow> error + cstate"
and emitForUnrolled :: "ext \<Rightarrow> string \<Rightarrow> sugared list \<Rightarrow> stmt list \<Rightarrow> cstate \<Rightarrow> error + cstate"
and emitLoopCommon ::
      "ext \<Rightarrow> expr option \<Rightarrow> expr option \<Rightarrow> stmt list \<Rightarrow> string option \<Rightarrow> cstate \<Rightarrow> error + cstate"
where
  "emitStatements X [] s = Inr s"
| "emitStatements X (stmt # rest) s =
     (case (case stmt of
              If _ _ _ \<Rightarrow> emitIf X stmt s
            | While _ _ \<Rightarrow> emitWhile X stmt s
            | For _ _ _ \<Rightarrow> emitFor X stmt s
            | Assign lhs rhs \<Rightarrow> emitAssignment X lhs rhs s
            | AugAssign lhs aug_op rhs \<Rightarrow> emitAugAssignment X lhs aug_op rhs s
            | Global names \<Rightarrow> emitGlobal X names s
            | ExprStmt e \<Rightarrow>
                (case emitSugaredExpr X e 0 None s of
                   Inl err \<Rightarrow> Inl err
                 | Inr (sv, s1) \<Rightarrow> Inr s1)
            | Raise \<Rightarrow> emitRaise X s
            | Assert test \<Rightarrow> emitAssert X test s
            | Return _ \<Rightarrow> Inl ReturnNotAtEnd
            | Pass \<Rightarrow> Inr s
            | OtherStmt k \<Rightarrow> Inl (UnrecognizedStatementKind k)) of
        Inl e \<Rightarrow> Inl e
      | Inr s1 \<Rightarrow> emitStatements X rest s1)"
| "emitIf X (If cond trueBranch falseBranch) s =
     (case (case cond of
              Is lhs rhs \<Rightarrow> Some (True, lhs, rhs)
            | IsNot lhs rhs \<Rightarrow> Some (False, lhs, rhs)
            | _ \<Rightarrow> None) of
        None \<Rightarrow>
          (case emitCond X cond s of
             Inl e \<Rightarrow> Inl e
           | Inr (cond_value, s1) \<Rightarrow>
               emitIfElseBlocks X cond_value (If cond trueBranch falseBranch) s1)
      | Some (is_kind, lhs, rhs) \<Rightarrow>
          (case emitSugaredExpr X lhs 1 None s of
             Inl e \<Rightarrow> Inl e
           | Inr (lhs_val, s1) \<Rightarrow>
               (case emitSugaredExpr X rhs 1 None s1 of
                  Inl e \<Rightarrow> Inl e
                | Inr (rhs_val, s2) \<Rightarrow>
                    (let lhs_none = isNone X lhs_val (cs_graph s2);
                         rhs_none = isNone X rhs_val (cs_graph s2)
                     in if lhs_none = ALWAYS \<and> rhs_none = ALWAYS
                        then emitStatements X (if is_kind then trueBranch else falseBranch) s2
                        else if (lhs_none = ALWAYS \<and> rhs_none = NEVER) \<or>
                                (lhs_none = NEVER \<and> rhs_none = ALWAYS)
                        then emitStatements X (if is_kind then falseBranch else trueBranch) s2
                        else (case asValue X lhs_val (cs_graph s2) of
                                Inl e \<Rightarrow> Inl e
                              | Inr (l, g3) \<Rightarrow>
                                  (case asValue X rhs_val g3 of
                                     Inl e \<Rightarrow> Inl e
                                   | Inr (r, g4) \<Rightarrow>
                                       (case emitBuiltinCall X
                                               (if is_kind then ''aten::__is__''
                                                else ''aten::__isnot__'')
                                               None [simple_nv l, simple_nv r] [] True g4 of
                                          Inl e \<Rightarrow> Inl e
                                        | Inr (None, g5) \<Rightarrow> Inl NullEnvironment
                                        | Inr (Some cond_value, g5) \<Rightarrow>
                                            emitIfElseBlocks X cond_value
                                              (If cond trueBranch falseBranch)
                                              (s2\<lparr>cs_graph := g5\<rparr>))))))))"
| "emitIf X _ s = Inl (AssertionFailed ''If'')"
| "emitIfElseBlocks X cond_value (If cond trueBranch falseBranch) s =
     (case beginIf cond_value (cs_graph s) of
        (n, true_block, false_block, g1) \<Rightarrow>
          (case emitSingleIfBranch X true_block trueBranch (s\<lparr>cs_graph := g1\<rparr>) of
             Inl e \<Rightarrow> Inl e
           | Inr (save_true, s2) \<Rightarrow>
               (case emitSingleIfBranch X false_block falseBranch s2 of
                  Inl e \<Rightarrow> Inl e
                | Inr (save_false, s3) \<Rightarrow>
                    (case reconcileVariables X n true_block false_block
                            (mutated_variables save_true save_false (environment_stack s3))
                            (save_true, save_false, s3) of
                       Inl e \<Rightarrow> Inl e
                     | Inr (save_true1, save_false1, s4) \<Rightarrow> Inr s4))))"
| "emitIfElseBlocks X cond_value _ s = Inl (AssertionFailed ''If'')"
| "emitSingleIfBranch X b branch s =
     (case emitStatements X branch (setInsertPoint b None (pushFrame b s)) of
        Inl e \<Rightarrow> Inl e
      | Inr s1 \<Rightarrow>
          (case popFrame s1 of
             Inl e \<Rightarrow> Inl e
           | Inr (fr, s2) \<Rightarrow> Inr (fr, restoreInsertPoint s s2)))"
| "emitWhile X (While cond body) s = emitLoopCommon X None (Some cond) body None s"
| "emitWhile X _ s = Inl (AssertionFailed ''While'')"
| "emitFor X (For targets itrs body) s =
     (if length itrs \<noteq> 1 then Inl ListOfIterablesNotSupported
      else if length targets \<noteq> 1 then Inl IterationVariableUnpackingNotSupported
      else (case hd targets of
              Var target \<Rightarrow>
                (case (case hd itrs of
                         Apply (Var callee) inputs attributes \<Rightarrow>
                           if callee = ''range'' then Some inputs else None
                       | _ \<Rightarrow> None) of
                   Some args \<Rightarrow>
                     if length args \<noteq> 1 then Inl (RangeExpectsOneArgument (length args))
                     else emitLoopCommon X (Some (hd args)) None body (Some target) s
                 | None \<Rightarrow>
                     (case emitSugaredExpr X (hd itrs) 1 None s of
                        Inl e \<Rightarrow> Inl e
                      | Inr (sv, s1) \<Rightarrow>
                          (case asTuple X sv None (cs_graph s1) of
                             Inl e \<Rightarrow> Inl e
                           | Inr (instances, g2) \<Rightarrow>
                               (case environment_stack s1 of
                                  [] \<Rightarrow> Inl NullEnvironment
                                | f # next \<Rightarrow>
                                    (case emitForUnrolled X target instances body
                                            (pushFrame (fr_block f) (s1\<lparr>cs_graph := g2\<rparr>)) of
                                       Inl e \<Rightarrow> Inl e
                                     | Inr s3 \<Rightarrow>
                                         (case promoteDefined X
                                                 (case environment_stack s3 of
                                                    [] \<Rightarrow> []
                                                  | f3 # _ \<Rightarrow> definedVariables f3)
                                                 (environment_stack s3) (cs_graph s3) of
                                            Inl e \<Rightarrow> Inl e
                                          | Inr (env4, g4) \<Rightarrow>
                                              (case popFrame
                                                      (s3\<lparr>cs_graph := g4,
                                                          environment_stack := env4\<rparr>) of
                                                 Inl e \<Rightarrow> Inl e
                                               | Inr (fr, s5) \<Rightarrow> Inr s5)))))))
            | _ \<Rightarrow> Inl UnexpectedForTarget))"
| "emitFor X _ s = Inl (AssertionFailed ''For'')"
| "emitForUnrolled X target_name [] body s = Inr s"
| "emitForUnrolled X target_name (inst # instances) body s =
     (case setSugaredVar X target_name inst (environment_stack s) (cs_graph s) of
        Inl e \<Rightarrow> Inl e
      | Inr (env1, g1) \<Rightarrow>
          (case emitStatements X body (s\<lparr>cs_graph := g1, environment_stack := env1\<rparr>) of
             Inl e \<Rightarrow> Inl e
           | Inr s2 \<Rightarrow> emitForUnrolled X target_name instances body s2))"
| "emitLoopCommon X max_trip_count cond body itr_ident s =
     (case beginLoop X max_trip_count cond itr_ident s of
        Inl e \<Rightarrow> Inl e
      | Inr (n, body_block, s1) \<Rightarrow>
          (case emitStatements X body s1 of
             Inl e \<Rightarrow> Inl e
           | Inr s2 \<Rightarrow>
               (case emitBodyCondition X cond body_block s2 of
                  Inl e \<Rightarrow> Inl e
                | Inr s3 \<Rightarrow>
                    (case popFrame s3 of
                       Inl e \<Rightarrow> Inl e
                     | Inr (body_frame, s4) \<Rightarrow>
                         (case finishLoop X n body_block body_frame s4 of
                            Inl e \<Rightarrow> Inl e
                          | Inr s5 \<Rightarrow> Inr (restoreInsertPoint s s5))))))"
  by pat_completeness auto

termination emitStatements
  by (relation "measures
        [case_sum
           (case_sum
              (case_sum (\<lambda>(X, stmts, s). 4 * size_list size stmts)
                        (\<lambda>(X, stmt, s). 4 * size stmt + 3))
              (case_sum (\<lambda>(X, v, stmt, s). 4 * size stmt + 2)
                        (\<lambda>(X, b, branch, s). 4 * size_list size branch + 1)))
           (case_sum
              (case_sum (\<lambda>(X, stmt, s). 4 * size stmt + 3)
                        (\<lambda>(X, stmt, s). 4 * size stmt + 3))
              (case_sum (\<lambda>(X, t, instances, body, s). 4 * size_list size body + 2)
                        (\<lambda>(X, m, c, body, i, s). 4 * size_list size body + 1))),
         case_sum (\<lambda>_. 0)
           (case_sum (\<lambda>_. 0)
              (case_sum (\<lambda>(X, t, instances, body, s). length instances) (\<lambda>_. 0)))]")
     auto

subsection \<open>A whole function: the constructor of \<^verbatim>\<open>to_ir\<close>\<close>

text \<open>
  A definition: its name, the names of its parameters and its body. The schema read off
  its annotations (\<^verbatim>\<open>extractSchemaFromDef\<close>) is given with it.
\<close>

record def =
  def_name :: string
  def_params :: "string list"
  def_statements :: "stmt list"






subsection \<open>Sample inputs\<close>

text \<open>
  A graph with one input of type \<open>Tuple[int, float, bool]\<close> (value 0) and the integer
  constants 5 (value 1) and -5 (value 2).
\<close>

definition tuple_graph :: graph where
  "tuple_graph =
     snd (insertConstant (IInt (- 5))
       (snd (insertConstant (IInt 5)
         (snd (addInput 0 (TupleType [IntType, FloatType, BoolType]) fresh_graph)))))"

text \<open>
  A small instance of the collaborators, used to run the definitions on concrete
  inputs: subtyping is equality, widened by \<open>int, float <: number\<close>, a shaped tensor under
  \<open>Tensor\<close> and \<open>T <: Optional[T]\<close>; shape erasure maps a shaped tensor to \<open>Tensor\<close>; two
  types unify when one is a subtype of the other; formal types have no type variables;
  type objects are compared by content; nothing is resolved or registered outside the
  file. Its expression emitter lowers names and literals only.
\<close>

definition sample_subtype :: "jtype \<Rightarrow> jtype \<Rightarrow> bool" where
  "sample_subtype t1 t2 =
     (t1 = t2 \<or> (t2 = NumberType \<and> (t1 = IntType \<or> t1 = FloatType)) \<or>
      (t2 = DynamicType \<and> t1 = TensorType) \<or> t2 = OptionalType t1)"

definition sample_unshaped :: "jtype \<Rightarrow> jtype" where
  "sample_unshaped t = (if t = TensorType then DynamicType else t)"

definition sample_unify :: "jtype \<Rightarrow> jtype \<Rightarrow> jtype option" where
  "sample_unify t1 t2 =
     (if sample_subtype t1 t2 then Some t2
      else if sample_subtype t2 t1 then Some t1 else None)"

definition sample_isNone :: "sugared \<Rightarrow> graph \<Rightarrow> none_status" where
  "sample_isNone sv g =
     (case sv of
        SimpleValue v \<Rightarrow>
          (case v_node (g_vals g ! v) of
             None \<Rightarrow>
               (case type_of g v of OptionalType _ \<Rightarrow> MAYBE | _ \<Rightarrow> NEVER)
           | Some n \<Rightarrow>
               if n_kind (g_nodes g ! n) = ''prim::None'' then ALWAYS
               else (case type_of g v of OptionalType _ \<Rightarrow> MAYBE | _ \<Rightarrow> NEVER))
      | _ \<Rightarrow> NEVER)"

definition sample_base :: ext where
  "sample_base =
     \<lparr>isSubtypeOf = sample_subtype,
      unshapedType = sample_unshaped,
      unifyTypes = sample_unify,
      matchTypeVariables = (\<lambda>formal actual env. (Some formal, env)),
      evalTypeVariables = (\<lambda>t env. t),
      type_ptr_eq = (\<lambda>g v p. type_of g v = elem_type_of g p),
      resolver = (\<lambda>name. None),
      ext_asValue = (\<lambda>h g. Inl (CannotBeUsedAsValue ''external'')),
      ext_asTuple = (\<lambda>h n g. Inl (SugaredCannotBeUsedAsTuple ''external'')),
      isNone = sample_isNone,
      getAllOperatorsFor = (\<lambda>name. []),
      getAllBuiltinFunctionsFor = (\<lambda>name. []),
      getOperation = (\<lambda>name ins outs. True),
      try_emit_call_to = (\<lambda>m self args kwargs conv g. Inr ([CalleeFailure m], None, g)),
      graph_insert = (\<lambda>name args g. Inl (NotModelled name)),
      emitSugaredExpr = (\<lambda>e n h s. Inl (NotModelled ''expression'')),
      emitTupleAssign = (\<lambda>l r s. Inl (NotModelled ''tuple assignment'')),
      emitSubscriptAssign = (\<lambda>l r s. Inl (NotModelled ''subscript assignment'')),
      emitAugAssignment = (\<lambda>l k r s. Inl (NotModelled ''augmented assignment''))\<rparr>"

definition sample_emitSugaredExpr ::
  "expr \<Rightarrow> nat \<Rightarrow> jtype option \<Rightarrow> cstate \<Rightarrow> error + sugared \<times> cstate" where
  "sample_emitSugaredExpr tree n_binders type_hint s =
     (case tree of
        Var name \<Rightarrow>
          (case getSugaredVar sample_base name True (environment_stack s) (cs_graph s) of
             Inl e \<Rightarrow> Inl e
           | Inr (None, env1, g1) \<Rightarrow> Inl NullEnvironment
           | Inr (Some sv, env1, g1) \<Rightarrow>
               Inr (sv, s\<lparr>cs_graph := g1, environment_stack := env1\<rparr>))
      | ConstInt c \<Rightarrow>
          (case materializeConstant c s of (v, s1) \<Rightarrow> Inr (SimpleValue v, s1))
      | TrueLit \<Rightarrow>
          (case on_graph (insertConstant (IBool True)) s of (v, s1) \<Rightarrow> Inr (SimpleValue v, s1))
      | FalseLit \<Rightarrow>
          (case on_graph (insertConstant (IBool False)) s of (v, s1) \<Rightarrow> Inr (SimpleValue v, s1))
      | NoneLit \<Rightarrow>
          (case on_graph (insertConstant INone) s of (v, s1) \<Rightarrow> Inr (SimpleValue v, s1))
      | StringLiteral t \<Rightarrow>
          (case on_graph (insertConstant (IString t)) s of (v, s1) \<Rightarrow> Inr (SimpleValue v, s1))
      | _ \<Rightarrow> Inl (NotModelled ''expression''))"

definition sample_ext :: ext where
  "sample_ext = sample_base\<lparr>emitSugaredExpr := sample_emitSugaredExpr\<rparr>"

text \<open>
  A graph with an \<open>int\<close> input (value 0), the constant 7 (value 1) and a string constant
  (value 2); a scope stack whose root frame binds \<open>x\<close> to value 0 under an empty inner
  frame.
\<close>

definition rebind_graph :: graph where
  "rebind_graph =
     snd (insertConstant (IString ''s'')
       (snd (insertConstant (IInt 7) (snd (addInput 0 IntType fresh_graph)))))"

definition rebind_env :: "frame list" where
  "rebind_env = [empty_frame 0, (empty_frame 0)\<lparr>value_table := [(''x'', SimpleValue 0)]\<rparr>]"

text \<open>The state in which the body of a function without parameters starts.\<close>

definition sample_state :: cstate where
  "sample_state =
     pushFrame 0 \<lparr>cs_graph = fresh_graph, environment_stack = [], integral_constants = [],
                  fp_constants = []\<rparr>"

text \<open>
  Two overloads of one operator, registered in this order: the first takes an \<open>int\<close>, the
  second a \<open>Tensor\<close>. The graph has one \<open>Tensor\<close> input (value 0).
\<close>

definition plain_arg :: "string \<Rightarrow> jtype \<Rightarrow> argument" where
  "plain_arg name ty =
     \<lparr>arg_name = name, arg_type = ty, arg_N = None, default_value = None, kwarg_only = False\<rparr>"

definition overload_int :: schema where
  "overload_int =
     \<lparr>schema_name = ''aten::f'', arguments = [plain_arg ''x'' IntType],
      returns = [plain_arg [] IntType], is_vararg = False\<rparr>"

definition overload_tensor :: schema where
  "overload_tensor =
     \<lparr>schema_name = ''aten::f'', arguments = [plain_arg ''x'' DynamicType],
      returns = [plain_arg [] DynamicType], is_vararg = False\<rparr>"

definition overload_ext :: ext where
  "overload_ext =
     sample_ext\<lparr>getAllOperatorsFor :=
       (\<lambda>name. if name = ''aten::f'' then [overload_int, overload_tensor] else [])\<rparr>"

definition tensor_graph :: graph where
  "tensor_graph = snd (addInput 0 DynamicType fresh_graph)"

text \<open>
  A schema whose only parameter is the fixed-length list \<open>int[2] sizes\<close>, one whose only
  parameter is the list \<open>int[] sizes\<close>, and a graph with two \<open>int\<close> inputs (values 0 and 1).
\<close>

definition sizes_fixed :: argument where
  "sizes_fixed = (plain_arg ''sizes'' (ListType IntType))\<lparr>arg_N := Some 2\<rparr>"

definition schema_fixed :: schema where
  "schema_fixed =
     \<lparr>schema_name = ''aten::zeros'', arguments = [sizes_fixed],
      returns = [plain_arg [] DynamicType], is_vararg = False\<rparr>"

definition schema_list :: schema where
  "schema_list =
     \<lparr>schema_name = ''aten::zeros'', arguments = [plain_arg ''sizes'' (ListType IntType)],
      returns = [plain_arg [] DynamicType], is_vararg = False\<rparr>"

definition two_ints_graph :: graph where
  "two_ints_graph = snd (addInput 0 IntType (snd (addInput 0 IntType fresh_graph)))"

text \<open>
  The state in which the body of a function starts whose parameters have the given names
  and types: one graph input per parameter, bound in the root frame.
\<close>

definition entry_state :: "(string \<times> jtype) list \<Rightarrow> cstate" where
  "entry_state params =
     \<lparr>cs_graph = fold (\<lambda>p g. snd (addInput 0 (snd p) g)) params fresh_graph,
      environment_stack =
        [(empty_frame 0)\<lparr>value_table :=
           map (\<lambda>p. (fst (snd p), SimpleValue (fst p))) (enumerate 0 params)\<rparr>],
      integral_constants = [], fp_constants = []\<rparr>"

text \<open>
  The comparison operators behind \<open>is\<close> and \<open>is not\<close>, registered for an optional
  integer and \<open>None\<close>; a function body that starts with \<open>a : Optional[int]\<close>.
\<close>

definition schema_is :: "string \<Rightarrow> schema" where
  "schema_is name =
     \<lparr>schema_name = name,
      arguments = [plain_arg ''self'' (OptionalType IntType), plain_arg ''obj'' NoneType],
      returns = [plain_arg [] BoolType], is_vararg = False\<rparr>"

definition is_ext :: ext where
  "is_ext =
     sample_ext\<lparr>getAllOperatorsFor :=
       (\<lambda>name. if name = ''aten::__is__'' \<or> name = ''aten::__isnot__''
                then [schema_is name] else [])\<rparr>"

definition optional_state :: cstate where
  "optional_state = entry_state [(''a'', OptionalType IntType)]"













text \<open>
  Two overloads of one operator, registered in this order: the first takes an \<open>int[]\<close>,
  the second a \<open>Tuple[int, int]\<close>. The graph has one input of type \<open>Tuple[int, int]\<close>
  (value 0). And a registry whose operators have no implementation.
\<close>

definition overload_list :: schema where
  "overload_list =
     \<lparr>schema_name = ''aten::f'', arguments = [plain_arg ''x'' (ListType IntType)],
      returns = [plain_arg [] IntType], is_vararg = False\<rparr>"

definition overload_pair :: schema where
  "overload_pair =
     \<lparr>schema_name = ''aten::f'', arguments = [plain_arg ''x'' (TupleType [IntType, IntType])],
      returns = [plain_arg [] BoolType], is_vararg = False\<rparr>"

definition pair_ext :: ext where
  "pair_ext =
     sample_ext\<lparr>getAllOperatorsFor :=
       (\<lambda>name. if name = ''aten::f'' then [overload_list, overload_pair] else [])\<rparr>"

definition pair_graph :: graph where
  "pair_graph = snd (addInput 0 (TupleType [IntType, IntType]) fresh_graph)"

definition unimplemented_ext :: ext where
  "unimplemented_ext = overload_ext\<lparr>getOperation := (\<lambda>name ins outs. False)\<rparr>"

subsection \<open>Notions used to state the properties\<close>

text \<open>The nodes of a given kind, in the order of their creation.\<close>

definition nodes_of_kind :: "string \<Rightarrow> graph \<Rightarrow> nid list" where
  "nodes_of_kind k g = map fst (filter (\<lambda>p. n_kind (snd p) = k) (enumerate 0 (g_nodes g)))"





text \<open>
  The kinds of the nodes that argument matching may insert whatever the value of
  \<open>allow_conversions\<close>: tuple unpacking and list or tuple construction (a tuple passed for a
  list, a number passed for a list of fixed length, the remaining arguments collected
  into a list), the none and undefined values (\<open>None\<close> passed for an optional, a tensor or a
  generator) and constants (defaults). \<open>adds_only K g g2\<close>: the nodes of \<open>g2\<close> are those of
  \<open>g\<close>, with their kinds, followed by nodes whose kinds are in \<open>K\<close>.
\<close>

definition ungated_kinds :: "string set" where
  "ungated_kinds =
     {''prim::TupleUnpack'', ''prim::ListConstruct'', ''prim::TupleConstruct'',
      ''prim::NoneGenerator'', ''prim::Undefined'', ''prim::None'', ''prim::Constant''}"

definition adds_only :: "string set \<Rightarrow> graph \<Rightarrow> graph \<Rightarrow> bool" where
  "adds_only K g g2 =
     (length (g_nodes g) \<le> length (g_nodes g2) \<and>
      take (length (g_nodes g)) (map n_kind (g_nodes g2)) = map n_kind (g_nodes g) \<and>
      set (drop (length (g_nodes g)) (map n_kind (g_nodes g2))) \<subseteq> K)"

section \<open>Properties\<close>

subsection \<open>Graph construction\<close>

lemma new_vals_frame:
  "new_vals tys d b g = (vs, g1) \<Longrightarrow>
     g_nodes g1 = g_nodes g \<and> g_blocks g1 = g_blocks g \<and>
     insert_block g1 = insert_block g \<and> insert_before g1 = insert_before g"
  by (induction tys arbitrary: g vs g1) (auto simp: new_val_def split: prod.splits)

lemma insertNode_node:
  "insertNode k ins tys ints c g = (n, g1) \<Longrightarrow>
     n = length (g_nodes g) \<and> length (g_nodes g1) = Suc (length (g_nodes g)) \<and>
     n_kind (g_nodes g1 ! n) = k \<and> n_inputs (g_nodes g1 ! n) = ins \<and>
     n_ints (g_nodes g1 ! n) = ints \<and> n_const (g_nodes g1 ! n) = c"
  by (auto simp: insertNode_def Let_def place_node_def split: prod.splits dest!: new_vals_frame)

lemma createTupleSlice_node:
  "createTupleSlice tup elems b e g = (v, g1) \<Longrightarrow>
     n_kind (g_nodes g1 ! length (g_nodes g)) = ''prim::TupleSlice'' \<and>
     n_ints (g_nodes g1 ! length (g_nodes g)) = [(''beg'', b), (''end'', e)]"
  by (auto simp: createTupleSlice_def insertNode1_def split: prod.splits dest!: insertNode_node)

lemma type_of_setUniqueName [simp]: "type_of (setUniqueName v n g) u = type_of g u"
  by (cases "v < length (g_vals g)"; cases "u = v")
     (simp_all add: type_of_def setUniqueName_def list_update_beyond)

subsection \<open>The scope stack\<close>

lemma createCapturedInputIfNeeded_length:
  "createCapturedInputIfNeeded ident env g = (r, env1, g1) \<Longrightarrow> length env1 = length env"
  by (induction env arbitrary: r env1 g1 g)
     (auto split: option.splits prod.splits sugared.splits if_splits)

lemma createCapturedInputIfNeeded_nonempty:
  "createCapturedInputIfNeeded ident (f # next) g = (r, env1, g1) \<Longrightarrow> \<exists>f1 next1. env1 = f1 # next1"
  by (drule createCapturedInputIfNeeded_length) (cases env1; simp)

lemma map_of_update_same: "map_of (AList.update k v al) k = Some v"
  by (simp add: update_conv')

lemma new_val_type:
  "new_val ty d b g = (v, g1) \<Longrightarrow>
     v = length (g_vals g) \<and> type_of g1 v = ty \<and> length (g_vals g1) = Suc (length (g_vals g)) \<and>
     (\<forall>u < length (g_vals g). g_vals g1 ! u = g_vals g ! u)"
  by (auto simp: new_val_def type_of_def nth_append)

lemma insertNode1_type:
  "insertNode1 k ins ty ints c g = (v, g1) \<Longrightarrow>
     v = length (g_vals g) \<and> type_of g1 v = ty \<and>
     (\<forall>u < length (g_vals g). type_of g1 u = type_of g u) \<and>
     n_inputs (g_nodes g1 ! length (g_nodes g)) = ins \<and>
     n_kind (g_nodes g1 ! length (g_nodes g)) = k \<and>
     n_outputs (g_nodes g1 ! length (g_nodes g)) = [v]"
  by (auto simp: insertNode1_def insertNode_def Let_def place_node_def new_val_def type_of_def
      nth_append split: prod.splits)


subsection \<open>Evaluating the sample inputs\<close>

lemmas sample_eval = sample_state_def sample_ext_def sample_base_def sample_emitSugaredExpr_def
  emitExpr_def materializeConstant_def insertConstant_def insertNode1_def insertNode_def
  new_val_def place_node_def on_graph_def fresh_graph_def pushFrame_def empty_frame_def Let_def
  type_of_def


subsection \<open>Conditional nodes\<close>

lemma beginIf_node:
  assumes "beginIf c g = (n, tb, fb, g1)"
  shows "n = length (g_nodes g)" "tb = length (g_blocks g)" "fb = Suc (length (g_blocks g))"
    "length (g_nodes g1) = Suc (length (g_nodes g))"
    "length (g_blocks g1) = Suc (Suc (length (g_blocks g)))"
    "g_nodes g1 ! n = \<lparr>n_kind = ''prim::If'', n_inputs = [c], n_outputs = [], n_blocks = [tb, fb],
        n_ints = [], n_const = None, n_block = insert_block g\<rparr>"
    "g_blocks g1 ! tb = \<lparr>b_inputs = [], b_nodes = [], b_outputs = [], b_owner = Some n\<rparr>"
    "g_blocks g1 ! fb = \<lparr>b_inputs = [], b_nodes = [], b_outputs = [], b_owner = Some n\<rparr>"
    "g_vals g1 = g_vals g" "insert_block g1 = insert_block g" "insert_before g1 = insert_before g"
    "\<forall>m < length (g_nodes g). g_nodes g1 ! m = g_nodes g ! m"
    "insert_before g = None \<longrightarrow> insert_block g < length (g_blocks g) \<longrightarrow>
       b_nodes (g_blocks g1 ! insert_block g) = b_nodes (g_blocks g ! insert_block g) @ [n]"
  using assms
  by (auto simp: beginIf_def insertNode_def addBlock_def addNodeInput_def place_node_def Let_def
      nth_append split: prod.splits)


lemma addOutput_type:
  "addOutput n ty g = (v, g1) \<Longrightarrow>
     v = length (g_vals g) \<and> type_of g1 v = ty \<and>
     (n < length (g_nodes g) \<longrightarrow> n_outputs (g_nodes g1 ! n) = n_outputs (g_nodes g ! n) @ [v])"
  by (auto simp: addOutput_def new_val_def type_of_def Let_def split: prod.splits)

lemma emit_if_expr_ok:
  assumes "emit_if_expr b e s = Inr s2"
  shows "\<exists>out s1 fr. e (setInsertPoint b None (pushFrame b s)) = Inr (out, s1) \<and>
           environment_stack s1 = fr # environment_stack s2 \<and>
           cs_graph s2 = (registerOutput b out (cs_graph s1))
              \<lparr>insert_block := insert_block (cs_graph s), insert_before := insert_before (cs_graph s)\<rparr>"
  using assms
  by (auto simp: emit_if_expr_def popFrame_def restoreInsertPoint_def setInsertPoint_def
      split: sum.splits prod.splits list.splits)


subsection \<open>Overload resolution\<close>

lemma tryOperators_append:
  "tryOperators X name self inputs attrs allow (pre @ rest) msgs g =
     (case tryOperators X name self inputs attrs allow pre msgs g of
        Inl e \<Rightarrow> Inl e
      | Inr (m, Some v, g1) \<Rightarrow> Inr (m, Some v, g1)
      | Inr (m, None, g1) \<Rightarrow> tryOperators X name self inputs attrs allow rest m g1)"
  by (induction pre arbitrary: msgs g) (auto split: sum.splits option.splits prod.splits)

lemma tryBuiltinFunctions_append:
  "tryBuiltinFunctions X self inputs attrs allow (pre @ rest) msgs g =
     (case tryBuiltinFunctions X self inputs attrs allow pre msgs g of
        Inl e \<Rightarrow> Inl e
      | Inr (m, Some v, g1) \<Rightarrow> Inr (m, Some v, g1)
      | Inr (m, None, g1) \<Rightarrow> tryBuiltinFunctions X self inputs attrs allow rest m g1)"
  by (induction pre arbitrary: msgs g) (auto split: sum.splits option.splits prod.splits)


declare tryConvertToType.simps [simp del]

lemma tryCreateList_loop_length:
  "tryCreateList_loop X elem varargs conv acc env g = Inr (Inr list_ctor, env1, g1) \<Longrightarrow>
     length list_ctor = length acc + length varargs"
  by (induction varargs arbitrary: acc env g)
     (auto split: sum.splits prod.splits)

lemma tryCreateList_node:
  assumes "tryCreateList X elem varargs conv env g = Inr (Inr l, env1, g2)"
  shows "type_of g2 l = ListType elem \<and>
         (\<exists>n. n_kind (g_nodes g2 ! n) = ''prim::ListConstruct'' \<and>
              n_outputs (g_nodes g2 ! n) = [l] \<and>
              length (n_inputs (g_nodes g2 ! n)) = length varargs)"
proof -
  from assms obtain list_ctor g1 where
    l: "tryCreateList_loop X elem varargs conv [] env g = Inr (Inr list_ctor, env1, g1)"
    and c: "createList elem list_ctor g1 = (l, g2)"
    by (auto simp: tryCreateList_def split: sum.splits prod.splits)
  from insertNode1_type[OF c[unfolded createList_def]] tryCreateList_loop_length[OF l]
  show ?thesis by auto
qed


lemmas schema_eval = plain_arg_def sample_ext_def sample_base_def sample_subtype_def
  tryMatchSchema_def matchParameter_def tryMatchArgument_def nv_value_def simple_nv_def
  isIntOrFloatUsedAsList_def consumes_varargs_def convertibleToList_def emitBuiltinNode_def
  packOutputs_def addInput_def insertInput_def insertNode1_def insertNode_def new_val_def
  place_node_def fresh_graph_def type_of_def Let_def createList_def tryCreateList_def
  varargs_argument_def tryConvertToType.simps



lemmas emit_eval = sample_eval schema_eval is_ext_def schema_is_def optional_state_def
  entry_state_def nodes_of_kind_def sample_isNone_def sample_unify_def sample_unshaped_def
  emitAssignment_def getSugaredVar_def getVar_def setVar_def globals_def
  beginIf_def addBlock_def addNodeInput_def addOutput_def registerOutput_def
  setInsertPoint_def restoreInsertPoint_def popFrame_def
  reconcileVariable_def mutated_variables_def definedVariables_def
  emitBuiltinCall_def matchPass_def setUniqueName_def getBlockOwningKind_def
  emitCond_def

subsection \<open>Two-pass overload resolution\<close>

text \<open>Nodes that argument matching adds when \<open>allow_conversions\<close> is false.\<close>

lemma adds_only_iff:
  "adds_only K g g2 = (\<exists>ks. map n_kind (g_nodes g2) = map n_kind (g_nodes g) @ ks \<and> set ks \<subseteq> K)"
proof
  assume a: "adds_only K g g2"
  have "map n_kind (g_nodes g2) =
          take (length (g_nodes g)) (map n_kind (g_nodes g2)) @
          drop (length (g_nodes g)) (map n_kind (g_nodes g2))"
    by simp
  with a show "\<exists>ks. map n_kind (g_nodes g2) = map n_kind (g_nodes g) @ ks \<and> set ks \<subseteq> K"
    unfolding adds_only_def by metis
next
  assume "\<exists>ks. map n_kind (g_nodes g2) = map n_kind (g_nodes g) @ ks \<and> set ks \<subseteq> K"
  then obtain ks where k: "map n_kind (g_nodes g2) = map n_kind (g_nodes g) @ ks" "set ks \<subseteq> K"
    by blast
  from k(1) have "length (g_nodes g2) = length (g_nodes g) + length ks"
    by (metis length_append length_map)
  with k show "adds_only K g g2" by (simp add: adds_only_def)
qed

lemma adds_only_refl [simp]: "adds_only K g g"
  by (simp add: adds_only_iff)

lemma adds_only_trans: "adds_only K g g1 \<Longrightarrow> adds_only K g1 g2 \<Longrightarrow> adds_only K g g2"
  by (auto simp: adds_only_iff)

lemma adds_only_insertNode:
  "insertNode k ins tys ints c g = (n, g1) \<Longrightarrow> k \<in> K \<Longrightarrow> adds_only K g g1"
  by (auto simp: adds_only_iff insertNode_def Let_def place_node_def split: prod.splits
      dest!: new_vals_frame)

lemma adds_only_insertNode1:
  "insertNode1 k ins ty ints c g = (v, g1) \<Longrightarrow> k \<in> K \<Longrightarrow> adds_only K g g1"
  by (auto simp: insertNode1_def split: prod.splits dest: adds_only_insertNode)

lemma ungated_kinds_mem:
  "''prim::TupleUnpack'' \<in> ungated_kinds" "''prim::ListConstruct'' \<in> ungated_kinds"
  "''prim::TupleConstruct'' \<in> ungated_kinds" "''prim::NoneGenerator'' \<in> ungated_kinds"
  "''prim::Undefined'' \<in> ungated_kinds" "''prim::None'' \<in> ungated_kinds"
  "''prim::Constant'' \<in> ungated_kinds"
  by (simp_all add: ungated_kinds_def)

lemma adds_only_createList:
  "createList t vs g = (v, g1) \<Longrightarrow> adds_only ungated_kinds g g1"
  unfolding createList_def by (erule adds_only_insertNode1) (rule ungated_kinds_mem)

lemma adds_only_createTuple:
  "createTuple vs g = (v, g1) \<Longrightarrow> adds_only ungated_kinds g g1"
  unfolding createTuple_def by (erule adds_only_insertNode1) (rule ungated_kinds_mem)

lemma adds_only_createTupleUnpack:
  "createTupleUnpack v g = (vs, g1) \<Longrightarrow> adds_only ungated_kinds g g1"
  by (auto simp: createTupleUnpack_def Let_def split: option.splits if_splits prod.splits
      intro: adds_only_insertNode ungated_kinds_mem)

lemma adds_only_insertConstant:
  "insertConstant c g = (v, g1) \<Longrightarrow> adds_only ungated_kinds g g1"
  by (auto simp: insertConstant_def split: if_splits
      intro: adds_only_insertNode1 ungated_kinds_mem)

lemma adds_only_nv_value:
  "nv_value nv g = (v, g1) \<Longrightarrow> adds_only ungated_kinds g g1"
  by (auto simp: nv_value_def split: sum.splits dest: adds_only_insertConstant)

lemma adds_only_tryConvertToType:
  "allow = False \<Longrightarrow> tryConvertToType X allow t v g = Inr (v2, g2) \<Longrightarrow>
     adds_only ungated_kinds g g2"
  "allow = False \<Longrightarrow> convertElements X allow ts vs g = Inr (vs2, g2) \<Longrightarrow>
     adds_only ungated_kinds g g2"
proof (induction X allow t v g and X allow ts vs g arbitrary: v2 g2 and vs2 g2
    rule: tryConvertToType_convertElements.induct)
  case (1 X allow ct v0 g0)
  note f = \<open>allow = False\<close>
  define L where "L =
    (if convertibleToList X (type_of g0 v0) (unwrapOptional ct)
     then (case createTupleUnpack v0 g0 of
             (unpacked, g1) \<Rightarrow>
               (case unwrapOptional ct of
                  ListType elem_type \<Rightarrow> createList elem_type unpacked g1
                | _ \<Rightarrow> (v0, g0)))
     else (v0, g0))"
  define A where "A =
    (case type_of g0 v0 of
       TupleType value_elems \<Rightarrow>
         (case L of
            (v1, g1) \<Rightarrow>
              (case ct of
                 TupleType concrete_elems \<Rightarrow>
                   if \<not> isSubtypeOf X (TupleType value_elems) ct \<and>
                      length concrete_elems = length value_elems
                   then (case createTupleUnpack v1 g1 of
                           (unpacked, g2) \<Rightarrow>
                             (case convertElements X allow concrete_elems unpacked g2 of
                                Inl e \<Rightarrow> Inl e
                              | Inr (converted, g3) \<Rightarrow> Inr (createTuple converted g3)))
                   else Inr (v1, g1)
               | _ \<Rightarrow> Inr (v1, g1)))
     | _ \<Rightarrow> Inr (v0, g0))"
  define B where "B v1 g1 =
    (if isSubtypeOf X (type_of g1 v1) NoneType \<and> \<not> isSubtypeOf X ct NoneType
     then (if isSubtypeOf X ct GeneratorType
           then insertNode1 ''prim::NoneGenerator'' [] GeneratorType [] None g1
           else if isSubtypeOf X ct (OptionalType DynamicType)
           then insertNode1 ''prim::Undefined'' [] DynamicType [] None g1
           else (case ct of
                   OptionalType elem \<Rightarrow>
                     insertNode1 ''prim::None'' [] (OptionalType elem) [] None g1
                 | _ \<Rightarrow> (v1, g1)))
     else (v1, g1))" for v1 g1
  have eq: "tryConvertToType X allow ct v0 g0 =
      (case A of Inl e \<Rightarrow> Inl e | Inr (v1, g1) \<Rightarrow> (case B v1 g1 of (v2, g2) \<Rightarrow> Inr (v2, g2)))"
    unfolding A_def L_def B_def f
    by (subst tryConvertToType.simps, unfold if_False, rule refl)
  have l: "adds_only ungated_kinds g0 (snd L)"
  proof (cases "convertibleToList X (type_of g0 v0) (unwrapOptional ct)")
    case True
    obtain unp gu where u: "createTupleUnpack v0 g0 = (unp, gu)"
      by (cases "createTupleUnpack v0 g0")
    show ?thesis
    proof (cases "unwrapOptional ct")
      case (ListType et)
      obtain lv lg where c: "createList et unp gu = (lv, lg)" by (cases "createList et unp gu")
      from adds_only_trans[OF adds_only_createTupleUnpack[OF u] adds_only_createList[OF c]]
      show ?thesis using True u ListType c by (simp add: L_def)
    qed (use True u in \<open>simp_all add: L_def\<close>)
  qed (simp add: L_def)
  have a: "adds_only ungated_kinds g0 g1" if A: "A = Inr (v1, g1)" for v1 g1
  proof (cases "type_of g0 v0")
    case (TupleType ve)
    obtain lv lg where L: "L = (lv, lg)" by (cases L)
    with l have lg: "adds_only ungated_kinds g0 lg" by simp
    show ?thesis
    proof (cases "\<exists>ce. ct = TupleType ce \<and> \<not> isSubtypeOf X (TupleType ve) ct \<and> length ce = length ve")
      case True
      then obtain ce where ce: "ct = TupleType ce"
        "\<not> isSubtypeOf X (TupleType ve) ct \<and> length ce = length ve"
        by blast
      obtain unp gu where u: "createTupleUnpack lv lg = (unp, gu)"
        by (cases "createTupleUnpack lv lg")
      from A obtain conv g3 where c: "convertElements X allow ce unp gu = Inr (conv, g3)"
        and t: "createTuple conv g3 = (v1, g1)"
        using TupleType L ce u by (auto simp: A_def split: sum.splits)
      from 1(1)[OF TupleType L[symmetric, unfolded L_def] ce(1) ce(2) u[symmetric] f c]
      have "adds_only ungated_kinds gu g3" .
      with lg adds_only_createTupleUnpack[OF u] adds_only_createTuple[OF t]
      show ?thesis by (blast intro: adds_only_trans)
    next
      case False
      with A TupleType L have "g1 = lg"
        by (auto simp: A_def split: jtype.splits if_splits)
      with lg show ?thesis by simp
    qed
  qed (use A in \<open>auto simp: A_def\<close>)
  have b: "adds_only ungated_kinds g1 g3" if "B v1 g1 = (v3, g3)" for v1 g1 v3 g3
    using that unfolding B_def
    by (auto split: if_splits jtype.splits intro: adds_only_insertNode1 ungated_kinds_mem)
  from 1(3) obtain v1 g1 where "A = Inr (v1, g1)" "B v1 g1 = (v2, g2)"
    unfolding eq by (auto split: sum.splits prod.splits)
  with a b show ?case by (blast intro: adds_only_trans)
next
  case (2 X allow_conversions unpacked g)
  then show ?case by simp
next
  case (3 X allow_conversions t ts g)
  then show ?case by simp
next
  case (4 X allow_conversions t ts u us g)
  then show ?case
    by (auto split: sum.splits) (blast intro: adds_only_trans)
qed

lemma adds_only_tryMatchArgument:
  assumes "tryMatchArgument X arg nv False env g = Inr (r, env1, g2)"
  shows "adds_only ungated_kinds g g2"
proof -
  obtain v0 g0 where n: "nv_value nv g = (v0, g0)" by (cases "nv_value nv g")
  define P where "P = (if isIntOrFloatUsedAsList g0 v0 arg
                 then createList (type_of g0 v0) (replicate (the (arg_N arg)) v0) g0
                 else (v0, g0))"
  obtain v1 g1 where p: "P = (v1, g1)" by (cases P)
  have a: "adds_only ungated_kinds g0 g1"
    using p unfolding P_def by (auto split: if_splits dest: adds_only_createList)
  have "adds_only ungated_kinds g1 g2"
    using assms n p[unfolded P_def]
    by (auto simp: tryMatchArgument_def split: prod.splits option.splits sum.splits if_splits
        dest: adds_only_tryConvertToType(1)[OF refl])
  with adds_only_nv_value[OF n] a show ?thesis by (blast intro: adds_only_trans)
qed

lemma adds_only_tryCreateList_loop:
  "tryCreateList_loop X elem varargs False acc env g = Inr (r, env1, g2) \<Longrightarrow>
     adds_only ungated_kinds g g2"
proof (induction varargs arbitrary: acc env g)
  case Nil
  then show ?case by simp
next
  case (Cons a varargs)
  then show ?case
    by (auto split: sum.splits prod.splits dest!: adds_only_tryMatchArgument
        intro: adds_only_trans)
qed

lemma adds_only_tryCreateList:
  "tryCreateList X elem varargs False env g = Inr (r, env1, g2) \<Longrightarrow>
     adds_only ungated_kinds g g2"
  by (auto simp: tryCreateList_def split: sum.splits prod.splits
      dest!: adds_only_tryCreateList_loop adds_only_createList intro: adds_only_trans)

lemma adds_only_matchParameter:
  "matchParameter X args kwargs False arg rest st g = Inr (r, g2) \<Longrightarrow>
     adds_only ungated_kinds g g2"
  by (auto simp: matchParameter_def Let_def
      split: if_splits sum.splits prod.splits option.splits
      dest!: adds_only_tryMatchArgument adds_only_tryCreateList adds_only_nv_value
      intro: adds_only_trans)

lemma adds_only_matchParameters:
  "matchParameters X args kwargs False params st g = Inr (r, g2) \<Longrightarrow>
     adds_only ungated_kinds g g2"
proof (induction params arbitrary: st g)
  case Nil
  then show ?case by simp
next
  case (Cons arg rest)
  then show ?case
    by (auto split: sum.splits prod.splits dest!: adds_only_matchParameter
        intro: adds_only_trans)
qed

lemma adds_only_nv_values:
  "nv_values nvs g = (vs, g2) \<Longrightarrow> adds_only ungated_kinds g g2"
  by (induction nvs arbitrary: g vs)
     (auto split: prod.splits dest!: adds_only_nv_value intro: adds_only_trans)

lemma adds_only_tryMatchSchema:
  "tryMatchSchema X sch self args kwargs False g = Inr (m, r, g2) \<Longrightarrow>
     adds_only ungated_kinds g g2"
  by (auto simp: tryMatchSchema_def Let_def
      split: sum.splits prod.splits if_splits option.splits
      dest!: adds_only_matchParameters adds_only_nv_values intro: adds_only_trans)

lemma adds_only_nth:
  assumes "adds_only K g g2" "length (g_nodes g) \<le> n \<and> n < length (g_nodes g2)"
  shows "n_kind (g_nodes g2 ! n) \<in> K"
proof -
  from assms(2) have "map n_kind (g_nodes g2) ! n \<in> set (drop (length (g_nodes g)) (map n_kind (g_nodes g2)))"
    by (auto simp: in_set_conv_nth intro!: exI[of _ "n - length (g_nodes g)"])
  with assms show ?thesis by (auto simp: adds_only_def)
qed

text \<open>With \<open>allow_conversions\<close> false, \<^verbatim>\<open>Graph::insert\<close> is not called.\<close>

lemma convertibleToList_graph_insert:
  "convertibleToList (X\<lparr>graph_insert := f\<rparr>) ty lt = convertibleToList X ty lt"
  by (simp add: convertibleToList_def split: jtype.splits)

lemma convertElements_graph_insert:
  "(\<And>t v g. t \<in> set ts \<Longrightarrow>
      tryConvertToType (X\<lparr>graph_insert := f\<rparr>) False t v g = tryConvertToType X False t v g) \<Longrightarrow>
   convertElements (X\<lparr>graph_insert := f\<rparr>) False ts vs g = convertElements X False ts vs g"
proof (induction ts arbitrary: vs g)
  case Nil
  then show ?case by simp
next
  case (Cons t ts)
  then show ?case by (cases vs) (simp_all split: sum.splits)
qed

lemma tryConvertToType_graph_insert:
  "tryConvertToType (X\<lparr>graph_insert := f\<rparr>) False ct v g = tryConvertToType X False ct v g"
proof (induction ct arbitrary: v g)
  case (TupleType ts)
  have "convertElements (X\<lparr>graph_insert := f\<rparr>) False ts vs g = convertElements X False ts vs g"
    for vs g
    by (rule convertElements_graph_insert) (rule TupleType)
  then show ?case
    by (simp add: tryConvertToType.simps convertibleToList_graph_insert
        cong del: jtype.case_cong_weak sum.case_cong_weak if_weak_cong)
qed (simp_all add: tryConvertToType.simps convertibleToList_graph_insert
        cong del: jtype.case_cong_weak sum.case_cong_weak if_weak_cong)

lemma tryMatchArgument_graph_insert:
  "tryMatchArgument (X\<lparr>graph_insert := f\<rparr>) arg nv False env g =
     tryMatchArgument X arg nv False env g"
  by (simp add: tryMatchArgument_def tryConvertToType_graph_insert
      cong del: sum.case_cong_weak option.case_cong_weak if_weak_cong)

lemma tryCreateList_loop_graph_insert:
  "tryCreateList_loop (X\<lparr>graph_insert := f\<rparr>) elem varargs False acc env g =
     tryCreateList_loop X elem varargs False acc env g"
  by (induction varargs arbitrary: acc env g)
     (simp_all add: tryMatchArgument_graph_insert split: sum.splits)

lemma matchParameter_graph_insert:
  "matchParameter (X\<lparr>graph_insert := f\<rparr>) args kwargs False arg rest st g =
     matchParameter X args kwargs False arg rest st g"
  unfolding matchParameter_def tryCreateList_def tryMatchArgument_graph_insert
    tryCreateList_loop_graph_insert convertibleToList_graph_insert
  by (rule refl)

lemma matchParameters_graph_insert:
  "matchParameters (X\<lparr>graph_insert := f\<rparr>) args kwargs False params st g =
     matchParameters X args kwargs False params st g"
  by (induction params arbitrary: st g)
     (simp_all add: matchParameter_graph_insert split: sum.splits)

lemma tryMatchSchema_graph_insert:
  "tryMatchSchema (X\<lparr>graph_insert := f\<rparr>) sch self args kwargs False g =
     tryMatchSchema X sch self args kwargs False g"
  by (simp add: tryMatchSchema_def matchParameters_graph_insert
      cong del: sum.case_cong_weak option.case_cong_weak if_weak_cong)


text \<open>
  Claim C1, as stated, has the first pass forbid implicit conversions, so that a
  candidate that needs a conversion is never selected when another one matches without.
  In the source only two conversions are under \<^verbatim>\<open>if (allow_conversions)\<close>; a tuple
  passed for a list is unpacked and packed into a list in both passes. With the
  overloads \<open>f(int[] x)\<close> and \<open>f(Tuple[int, int] x)\<close> registered in this order and an
  argument of type \<open>Tuple[int, int]\<close>, the second overload matches the argument as it is,
  yet the first pass selects the first overload, through a \<^verbatim>\<open>prim::TupleUnpack\<close> and a
  \<^verbatim>\<open>prim::ListConstruct\<close> node.
\<close>

theorem ungated_conversion_counterexample:
  "getAllOperatorsFor pair_ext ''aten::f'' = [overload_list, overload_pair] \<and>
   tryMatchSchema pair_ext overload_pair None [simple_nv 0] [] False pair_graph =
     Inr ([], Some \<lparr>ms_inputs = [0], ms_return_types = [BoolType]\<rparr>, pair_graph) \<and>
   (\<exists>msgs v g1.
      matchPass pair_ext ''aten::f'' None [simple_nv 0] [] False pair_graph =
        Inr (msgs, Some v, g1) \<and>
      emitBuiltinCall pair_ext ''aten::f'' None [simple_nv 0] [] True pair_graph =
        Inr (Some v, g1) \<and>
      map n_kind (g_nodes g1) = [''prim::TupleUnpack'', ''prim::ListConstruct'', ''aten::f''] \<and>
      n_inputs (g_nodes g1 ! 0) = [0] \<and>
      n_inputs (g_nodes g1 ! 1) = n_outputs (g_nodes g1 ! 0) \<and>
      n_inputs (g_nodes g1 ! 2) = n_outputs (g_nodes g1 ! 1) \<and>
      type_of g1 v = IntType)"
  by (simp add: pair_ext_def overload_list_def overload_pair_def pair_graph_def
      emitBuiltinCall_def matchPass_def createTupleUnpack_def schema_eval)

text \<open>
  Claim C1, amended. \<^verbatim>\<open>emitBuiltinCall\<close> runs one pass with \<open>allow_conversions = False\<close>; an
  error raised in that pass is the result of the call; only if that pass matched nothing
  among the operators and the library functions, a second pass runs with
  \<open>allow_conversions = True\<close> (from the graph the first pass left). A pass tries the
  operators in registry order, then the library functions in registry order, and stops at
  the first match: candidates after it are never tried and do not influence the result.
  What the first pass forbids are the two conversions under \<^verbatim>\<open>if (allow_conversions)\<close>,
  from a tensor to a number and from a string to a device: matching a schema with the
  flag false never calls \<^verbatim>\<open>Graph::insert\<close> and adds only nodes of the kinds in
  \<open>ungated_kinds\<close>, none of which is \<^verbatim>\<open>prim::ImplicitTensorToNum\<close>. The other conversions
  (tuple to list, \<open>None\<close> to an optional, a number to a list of fixed length) are applied in
  both passes. So when the candidates before some operator all fail in the first pass and
  that operator matches in the first pass, the call is resolved to it, whatever comes
  after it and whatever the earlier candidates would match with the two gated
  conversions.
\<close>

theorem two_pass_gated_resolution:

  "(\<forall>msgs v g1. matchPass X name self inputs attrs False g = Inr (msgs, Some v, g1) \<longrightarrow>
       emitBuiltinCall X name self inputs attrs required g = Inr (Some v, g1))
   \<and> (\<forall>msgs g1. matchPass X name self inputs attrs False g = Inr (msgs, None, g1) \<longrightarrow>
       emitBuiltinCall X name self inputs attrs required g =
         (case matchPass X name self inputs attrs True g1 of
            Inl e \<Rightarrow> Inl e
          | Inr (m, Some v, g2) \<Rightarrow> Inr (Some v, g2)
          | Inr (m, None, g2) \<Rightarrow>
              if \<not> required then Inr (None, g2)
              else if getAllOperatorsFor X name = [] then Inl UnknownBuiltinOp
              else Inl (ArgumentsNotValid m)))
   \<and> (\<forall>m v g1. tryOperators X name self inputs attrs allow (getAllOperatorsFor X name) [] g =
                  Inr (m, Some v, g1) \<longrightarrow>
       matchPass X name self inputs attrs allow g = Inr (m, Some v, g1))
   \<and> (\<forall>m g1. tryOperators X name self inputs attrs allow (getAllOperatorsFor X name) [] g =
                  Inr (m, None, g1) \<longrightarrow>
       matchPass X name self inputs attrs allow g =
         tryBuiltinFunctions X self inputs attrs allow (getAllBuiltinFunctionsFor X name) m g1)
   \<and> (\<forall>m1 g1 m matched g2.
         tryOperators X name self inputs attrs allow pre msgs0 g = Inr (m1, None, g1) \<longrightarrow>
         tryMatchSchema X op self inputs attrs allow g1 = Inr (m, Some matched, g2) \<longrightarrow>
         tryOperators X name self inputs attrs allow (pre @ op # post) msgs0 g =
           (case emitBuiltinNode X matched name g2 of
              Inl e \<Rightarrow> Inl e
            | Inr (v, g3) \<Rightarrow> Inr (m1 @ m, Some v, g3)))
   \<and> (\<forall>m1 g1 m result g2.
         tryBuiltinFunctions X self inputs attrs allow mpre msgs0 g = Inr (m1, None, g1) \<longrightarrow>
         try_emit_call_to X method self inputs attrs allow g1 = Inr (m, Some result, g2) \<longrightarrow>
         tryBuiltinFunctions X self inputs attrs allow (mpre @ method # mpost) msgs0 g =
           (case packOutputs result g2 of (v, g3) \<Rightarrow> Inr (m1 @ m, Some v, g3)))
   \<and> (\<forall>m1 g1 m matched g2 v g3.
         getAllOperatorsFor X name = pre @ op # post \<longrightarrow>
         tryOperators X name self inputs attrs False pre [] g = Inr (m1, None, g1) \<longrightarrow>
         tryMatchSchema X op self inputs attrs False g1 = Inr (m, Some matched, g2) \<longrightarrow>
         emitBuiltinNode X matched name g2 = Inr (v, g3) \<longrightarrow>
         emitBuiltinCall X name self inputs attrs required g = Inr (Some v, g3))
   \<and> (\<forall>e. matchPass X name self inputs attrs False g = Inl e \<longrightarrow>
       emitBuiltinCall X name self inputs attrs required g = Inl e)
   \<and> (\<forall>e. tryOperators X name self inputs attrs allow (getAllOperatorsFor X name) [] g = Inl e \<longrightarrow>
       matchPass X name self inputs attrs allow g = Inl e)
   \<and> (\<forall>m r g2. tryMatchSchema X op self inputs attrs False g = Inr (m, r, g2) \<longrightarrow>
       adds_only ungated_kinds g g2 \<and>
       (\<forall>n. length (g_nodes g) \<le> n \<and> n < length (g_nodes g2) \<longrightarrow>
          n_kind (g_nodes g2 ! n) \<noteq> ''prim::ImplicitTensorToNum'' \<and>
          n_kind (g_nodes g2 ! n) \<noteq> ''aten::device''))
   \<and> (\<forall>f. tryMatchSchema (X\<lparr>graph_insert := f\<rparr>) op self inputs attrs False g =
          tryMatchSchema X op self inputs attrs False g)"
proof (intro conjI allI impI)
  fix m1 g1 m matched g2 v g3
  assume "getAllOperatorsFor X name = pre @ op # post"
    "tryOperators X name self inputs attrs False pre [] g = Inr (m1, None, g1)"
    "tryMatchSchema X op self inputs attrs False g1 = Inr (m, Some matched, g2)"
    "emitBuiltinNode X matched name g2 = Inr (v, g3)"
  then show "emitBuiltinCall X name self inputs attrs required g = Inr (Some v, g3)"
    by (simp add: emitBuiltinCall_def matchPass_def tryOperators_append)
next
  fix m r g2
  assume "tryMatchSchema X op self inputs attrs False g = Inr (m, r, g2)"
  then show "adds_only ungated_kinds g g2" by (rule adds_only_tryMatchSchema)
next
  fix m r g2 n
  assume "tryMatchSchema X op self inputs attrs False g = Inr (m, r, g2)"
    and "length (g_nodes g) \<le> n \<and> n < length (g_nodes g2)"
  then have "n_kind (g_nodes g2 ! n) \<in> ungated_kinds"
    by (blast intro: adds_only_nth adds_only_tryMatchSchema)
  then show "n_kind (g_nodes g2 ! n) \<noteq> ''prim::ImplicitTensorToNum''"
    by (auto simp: ungated_kinds_def)
next
  fix m r g2 n
  assume "tryMatchSchema X op self inputs attrs False g = Inr (m, r, g2)"
    and "length (g_nodes g) \<le> n \<and> n < length (g_nodes g2)"
  then have "n_kind (g_nodes g2 ! n) \<in> ungated_kinds"
    by (blast intro: adds_only_nth adds_only_tryMatchSchema)
  then show "n_kind (g_nodes g2 ! n) \<noteq> ''aten::device''"
    by (auto simp: ungated_kinds_def)
next
  fix f
  show "tryMatchSchema (X\<lparr>graph_insert := f\<rparr>) op self inputs attrs False g =
          tryMatchSchema X op self inputs attrs False g"
    by (rule tryMatchSchema_graph_insert)
qed (simp_all add: emitBuiltinCall_def matchPass_def tryOperators_append tryBuiltinFunctions_append)

theorem two_pass_gated_resolution_witness:
  "getAllOperatorsFor overload_ext ''aten::f'' = [overload_int] @ overload_tensor # [] \<and>
   (\<exists>m ms g. tryMatchSchema overload_ext overload_int None [simple_nv 0] [] True tensor_graph =
      Inr (m, Some ms, g) \<and> map n_kind (g_nodes g) = [''prim::ImplicitTensorToNum'']) \<and>
   (\<exists>v g3. emitBuiltinCall overload_ext ''aten::f'' None [simple_nv 0] [] True tensor_graph =
      Inr (Some v, g3) \<and> type_of g3 v = DynamicType \<and> map n_kind (g_nodes g3) = [''aten::f'']) \<and>
   emitBuiltinCall unimplemented_ext ''aten::f'' None [simple_nv 0] [] True tensor_graph =
     Inl (NoOperationFor ''aten::f'') \<and>
   (\<exists>m r g2. tryMatchSchema pair_ext overload_list None [simple_nv 0] [] False pair_graph =
      Inr (m, r, g2) \<and> adds_only ungated_kinds pair_graph g2 \<and>
      map n_kind (g_nodes g2) = [''prim::TupleUnpack'', ''prim::ListConstruct'']) \<and>
   tryMatchSchema (pair_ext\<lparr>graph_insert := (\<lambda>name args g. Inr (0, g))\<rparr>) overload_list None
       [simple_nv 0] [] False pair_graph =
     tryMatchSchema pair_ext overload_list None [simple_nv 0] [] False pair_graph"
proof -
  note ev = overload_ext_def overload_int_def overload_tensor_def plain_arg_def tensor_graph_def
    sample_ext_def sample_base_def sample_subtype_def tryMatchSchema_def matchParameter_def
    tryMatchArgument_def nv_value_def simple_nv_def isIntOrFloatUsedAsList_def consumes_varargs_def
    convertibleToList_def emitBuiltinNode_def packOutputs_def addInput_def insertInput_def
    insertNode1_def insertNode_def new_val_def place_node_def fresh_graph_def type_of_def Let_def
    tryConvertToType.simps
  have r: "getAllOperatorsFor overload_ext ''aten::f'' = [overload_int] @ overload_tensor # []"
    by (simp add: overload_ext_def)
  obtain m1 g1 where p: "tryOperators overload_ext ''aten::f'' None [simple_nv 0] [] False
      [overload_int] [] tensor_graph = Inr (m1, None, g1)" and g1: "g1 = tensor_graph"
    by (simp add: ev)
  obtain m matched g2 where q: "tryMatchSchema overload_ext overload_tensor None [simple_nv 0] []
      False g1 = Inr (m, Some matched, g2)"
    and q2: "g2 = tensor_graph" "matched = \<lparr>ms_inputs = [0], ms_return_types = [DynamicType]\<rparr>"
    unfolding g1 by (simp add: ev)
  obtain v g3 where e: "emitBuiltinNode overload_ext matched ''aten::f'' g2 = Inr (v, g3)"
    and ty: "type_of g3 v = DynamicType" "map n_kind (g_nodes g3) = [''aten::f'']"
    unfolding q2 by (simp add: ev)
  have conv: "\<exists>m ms g. tryMatchSchema overload_ext overload_int None [simple_nv 0] [] True tensor_graph =
      Inr (m, Some ms, g) \<and> map n_kind (g_nodes g) = [''prim::ImplicitTensorToNum'']"
    by (simp add: ev)
  note a = two_pass_gated_resolution [where X = overload_ext and name = "''aten::f''"
      and self = None and inputs = "[simple_nv 0]" and attrs = "[]" and g = tensor_graph
      and required = True and pre = "[overload_int]" and op = overload_tensor and post = "[]"]
  from a r p q e
  have c1: "emitBuiltinCall overload_ext ''aten::f'' None [simple_nv 0] [] True tensor_graph =
      Inr (Some v, g3)"
    by blast
  have u: "tryOperators unimplemented_ext ''aten::f'' None [simple_nv 0] [] False
      (getAllOperatorsFor unimplemented_ext ''aten::f'') [] tensor_graph =
      Inl (NoOperationFor ''aten::f'')"
    by (simp add: unimplemented_ext_def ev)
  note b = two_pass_gated_resolution [where X = unimplemented_ext and name = "''aten::f''"
      and self = None and inputs = "[simple_nv 0]" and attrs = "[]" and g = tensor_graph
      and required = True and allow = False]
  from b u have "matchPass unimplemented_ext ''aten::f'' None [simple_nv 0] [] False tensor_graph =
      Inl (NoOperationFor ''aten::f'')"
    by blast
  with b have c2: "emitBuiltinCall unimplemented_ext ''aten::f'' None [simple_nv 0] [] True
      tensor_graph = Inl (NoOperationFor ''aten::f'')"
    by blast
  obtain lm lr lg where l: "tryMatchSchema pair_ext overload_list None [simple_nv 0] [] False
      pair_graph = Inr (lm, lr, lg)"
    and lk: "map n_kind (g_nodes lg) = [''prim::TupleUnpack'', ''prim::ListConstruct'']"
    by (simp add: pair_ext_def overload_list_def pair_graph_def createTupleUnpack_def schema_eval)
  note c = two_pass_gated_resolution [where X = pair_ext and inputs = "[simple_nv 0]"
      and attrs = "[]" and g = pair_graph and op = overload_list and self = None]
  from c l have c3: "adds_only ungated_kinds pair_graph lg" by blast
  from c have c4: "tryMatchSchema (pair_ext\<lparr>graph_insert := (\<lambda>name args g. Inr (0, g))\<rparr>)
       overload_list None [simple_nv 0] [] False pair_graph =
     tryMatchSchema pair_ext overload_list None [simple_nv 0] [] False pair_graph"
    by blast
  from c1 ty have e3: "\<exists>v g3. emitBuiltinCall overload_ext ''aten::f'' None [simple_nv 0] [] True
      tensor_graph = Inr (Some v, g3) \<and> type_of g3 v = DynamicType \<and>
      map n_kind (g_nodes g3) = [''aten::f'']"
    by simp
  from l lk c3 have e5: "\<exists>m r g2. tryMatchSchema pair_ext overload_list None [simple_nv 0] []
      False pair_graph = Inr (m, r, g2) \<and> adds_only ungated_kinds pair_graph g2 \<and>
      map n_kind (g_nodes g2) = [''prim::TupleUnpack'', ''prim::ListConstruct'']"
    by simp
  show ?thesis
    by (intro conjI) (fact r, fact conv, fact e3, fact c2, fact e5, fact c4)
qed

subsection \<open>Conditions on \<open>is\<close> and \<open>is not\<close>\<close>

text \<open>
  Claim C3. For an if statement whose condition is \<open>a is b\<close> or \<open>a is not b\<close>, \<^verbatim>\<open>emitIf\<close>
  lowers both operands and asks each for its none status. When both are always none, the
  whole statement is the statement list of one branch, emitted in the state left by the
  operands: the true branch for \<open>is\<close>, the false branch for \<open>is not\<close>. When one is always
  none and the other never, it is the statement list of the opposite branch. Nothing else
  is emitted in these cases, in particular no \<^verbatim>\<open>prim::If\<close> node. In all other cases the
  operands are turned into values, the call of \<^verbatim>\<open>aten::__is__\<close> (or \<^verbatim>\<open>aten::__isnot__\<close>) is
  emitted, and the statement is lowered by \<^verbatim>\<open>emitIfElseBlocks\<close> on the result of that
  call, which creates exactly one new node, of kind \<^verbatim>\<open>prim::If\<close>, with that result as its
  input and two blocks, one per branch.
\<close>

theorem is_none_dispatch:
  assumes "emitSugaredExpr X lhs 1 None s = Inr (lhs_val, s1)"
      and "emitSugaredExpr X rhs 1 None s1 = Inr (rhs_val, s2)"
  shows
    "(isNone X lhs_val (cs_graph s2) = ALWAYS \<and> isNone X rhs_val (cs_graph s2) = ALWAYS \<longrightarrow>
        emitIf X (If (Is lhs rhs) trueBranch falseBranch) s = emitStatements X trueBranch s2 \<and>
        emitIf X (If (IsNot lhs rhs) trueBranch falseBranch) s = emitStatements X falseBranch s2) \<and>
     ((isNone X lhs_val (cs_graph s2) = ALWAYS \<and> isNone X rhs_val (cs_graph s2) = NEVER) \<or>
      (isNone X lhs_val (cs_graph s2) = NEVER \<and> isNone X rhs_val (cs_graph s2) = ALWAYS) \<longrightarrow>
        emitIf X (If (Is lhs rhs) trueBranch falseBranch) s = emitStatements X falseBranch s2 \<and>
        emitIf X (If (IsNot lhs rhs) trueBranch falseBranch) s = emitStatements X trueBranch s2) \<and>
     (isNone X lhs_val (cs_graph s2) = MAYBE \<or> isNone X rhs_val (cs_graph s2) = MAYBE \<or>
      (isNone X lhs_val (cs_graph s2) = NEVER \<and> isNone X rhs_val (cs_graph s2) = NEVER) \<longrightarrow>
        (\<forall>cond name l g3 r g4 cond_value g5.
           (cond = Is lhs rhs \<and> name = ''aten::__is__'' \<or>
            cond = IsNot lhs rhs \<and> name = ''aten::__isnot__'') \<longrightarrow>
           asValue X lhs_val (cs_graph s2) = Inr (l, g3) \<longrightarrow>
           asValue X rhs_val g3 = Inr (r, g4) \<longrightarrow>
           emitBuiltinCall X name None [simple_nv l, simple_nv r] [] True g4 =
             Inr (Some cond_value, g5) \<longrightarrow>
           emitIf X (If cond trueBranch falseBranch) s =
             emitIfElseBlocks X cond_value (If cond trueBranch falseBranch) (s2\<lparr>cs_graph := g5\<rparr>) \<and>
           (\<exists>n true_block false_block g6.
              beginIf cond_value g5 = (n, true_block, false_block, g6) \<and>
              n = length (g_nodes g5) \<and> length (g_nodes g6) = Suc (length (g_nodes g5)) \<and>
              n_kind (g_nodes g6 ! n) = ''prim::If'' \<and>
              n_inputs (g_nodes g6 ! n) = [cond_value] \<and>
              n_blocks (g_nodes g6 ! n) = [true_block, false_block] \<and>
              emitIfElseBlocks X cond_value (If cond trueBranch falseBranch) (s2\<lparr>cs_graph := g5\<rparr>) =
                (case emitSingleIfBranch X true_block trueBranch (s2\<lparr>cs_graph := g6\<rparr>) of
                   Inl e \<Rightarrow> Inl e
                 | Inr (save_true, s3) \<Rightarrow>
                     (case emitSingleIfBranch X false_block falseBranch s3 of
                        Inl e \<Rightarrow> Inl e
                      | Inr (save_false, s4) \<Rightarrow>
                          (case reconcileVariables X n true_block false_block
                                  (mutated_variables save_true save_false (environment_stack s4))
                                  (save_true, save_false, s4) of
                             Inl e \<Rightarrow> Inl e
                           | Inr (save_true1, save_false1, s5) \<Rightarrow> Inr s5))))))"
proof (intro conjI impI allI)
  fix cond name l g3 r g4 cond_value g5
  assume m: "isNone X lhs_val (cs_graph s2) = MAYBE \<or> isNone X rhs_val (cs_graph s2) = MAYBE \<or>
      (isNone X lhs_val (cs_graph s2) = NEVER \<and> isNone X rhs_val (cs_graph s2) = NEVER)"
    and c: "cond = Is lhs rhs \<and> name = ''aten::__is__'' \<or>
            cond = IsNot lhs rhs \<and> name = ''aten::__isnot__''"
    and v: "asValue X lhs_val (cs_graph s2) = Inr (l, g3)" "asValue X rhs_val g3 = Inr (r, g4)"
      "emitBuiltinCall X name None [simple_nv l, simple_nv r] [] True g4 = Inr (Some cond_value, g5)"
  from m have n: "\<not> (isNone X lhs_val (cs_graph s2) = ALWAYS \<and> isNone X rhs_val (cs_graph s2) = ALWAYS)"
    "\<not> (isNone X lhs_val (cs_graph s2) = ALWAYS \<and> isNone X rhs_val (cs_graph s2) = NEVER)"
    "\<not> (isNone X lhs_val (cs_graph s2) = NEVER \<and> isNone X rhs_val (cs_graph s2) = ALWAYS)"
    by auto
  show "emitIf X (If cond trueBranch falseBranch) s =
          emitIfElseBlocks X cond_value (If cond trueBranch falseBranch) (s2\<lparr>cs_graph := g5\<rparr>)"
    using c assms n v by (auto simp: Let_def simp del: emitIfElseBlocks.simps)
  obtain n true_block false_block g6 where b: "beginIf cond_value g5 = (n, true_block, false_block, g6)"
    by (metis prod_cases4)
  from beginIf_node[OF b] b
  show "\<exists>n true_block false_block g6.
              beginIf cond_value g5 = (n, true_block, false_block, g6) \<and>
              n = length (g_nodes g5) \<and> length (g_nodes g6) = Suc (length (g_nodes g5)) \<and>
              n_kind (g_nodes g6 ! n) = ''prim::If'' \<and>
              n_inputs (g_nodes g6 ! n) = [cond_value] \<and>
              n_blocks (g_nodes g6 ! n) = [true_block, false_block] \<and>
              emitIfElseBlocks X cond_value (If cond trueBranch falseBranch) (s2\<lparr>cs_graph := g5\<rparr>) =
                (case emitSingleIfBranch X true_block trueBranch (s2\<lparr>cs_graph := g6\<rparr>) of
                   Inl e \<Rightarrow> Inl e
                 | Inr (save_true, s3) \<Rightarrow>
                     (case emitSingleIfBranch X false_block falseBranch s3 of
                        Inl e \<Rightarrow> Inl e
                      | Inr (save_false, s4) \<Rightarrow>
                          (case reconcileVariables X n true_block false_block
                                  (mutated_variables save_true save_false (environment_stack s4))
                                  (save_true, save_false, s4) of
                             Inl e \<Rightarrow> Inl e
                           | Inr (save_true1, save_false1, s5) \<Rightarrow> Inr s5)))"
    by (simp del: emitSingleIfBranch.simps)
qed (use assms in \<open>auto simp: Let_def\<close>)

theorem is_none_dispatch_witness:
  "(\<exists>s. emitIf is_ext (If (Is NoneLit NoneLit) [Assign (Var ''b'') (ConstInt 1)]
                          [Assign (Var ''b'') (ConstInt 2)]) optional_state = Inr s \<and>
        nodes_of_kind ''prim::If'' (cs_graph s) = [] \<and> integral_constants s = [(1, 3)]) \<and>
   (\<exists>s. emitIf is_ext (If (Is (Var ''a'') NoneLit) [Assign (Var ''b'') (ConstInt 1)]
                          [Assign (Var ''b'') (ConstInt 2)]) optional_state = Inr s \<and>
        nodes_of_kind ''aten::__is__'' (cs_graph s) = [1] \<and>
        nodes_of_kind ''prim::If'' (cs_graph s) = [2] \<and>
        n_inputs (g_nodes (cs_graph s) ! 2) = n_outputs (g_nodes (cs_graph s) ! 1))"
proof -
  define tb where "tb = [Assign (Var ''b'') (ConstInt 1)]"
  define fb where "fb = [Assign (Var ''b'') (ConstInt 2)]"
  define s1 where "s1 = snd (on_graph (insertConstant INone) optional_state)"
  define s2 where "s2 = snd (on_graph (insertConstant INone) s1)"
  have l: "emitSugaredExpr is_ext NoneLit 1 None optional_state = Inr (SimpleValue 1, s1)"
    by (simp add: s1_def emit_eval)
  have r: "emitSugaredExpr is_ext NoneLit 1 None s1 = Inr (SimpleValue 2, s2)"
    by (simp add: s2_def s1_def emit_eval)
  have a: "isNone is_ext (SimpleValue 1) (cs_graph s2) = ALWAYS"
    "isNone is_ext (SimpleValue 2) (cs_graph s2) = ALWAYS"
    by (simp_all add: s2_def s1_def emit_eval)
  have e1: "emitIf is_ext (If (Is NoneLit NoneLit) tb fb) optional_state = emitStatements is_ext tb s2"
    using is_none_dispatch [OF l r, of tb fb] a by blast
  have p1: "\<exists>s. emitIf is_ext (If (Is NoneLit NoneLit) tb fb) optional_state = Inr s \<and>
        nodes_of_kind ''prim::If'' (cs_graph s) = [] \<and> integral_constants s = [(1, 3)]"
    unfolding e1 by (simp add: tb_def s2_def s1_def emit_eval cong: prod.case_cong_weak)
  define t2 where "t2 = snd (on_graph (insertConstant INone) optional_state)"
  have l2: "emitSugaredExpr is_ext (Var ''a'') 1 None optional_state =
      Inr (SimpleValue 0, optional_state)"
    by (simp add: emit_eval)
  have r2: "emitSugaredExpr is_ext NoneLit 1 None optional_state = Inr (SimpleValue 1, t2)"
    by (simp add: t2_def emit_eval)
  have m: "isNone is_ext (SimpleValue 0) (cs_graph t2) = MAYBE"
    by (simp add: t2_def emit_eval)
  obtain g5 where c: "emitBuiltinCall is_ext ''aten::__is__'' None [simple_nv 0, simple_nv 1] [] True
       (cs_graph t2) = Inr (Some 2, g5)"
    and g5: "g5 = snd (insertNode1 ''aten::__is__'' [0, 1] BoolType [] None (cs_graph t2))"
    by (simp add: t2_def emit_eval)
  have e2: "emitIf is_ext (If (Is (Var ''a'') NoneLit) tb fb) optional_state =
      emitIfElseBlocks is_ext 2 (If (Is (Var ''a'') NoneLit) tb fb) (t2\<lparr>cs_graph := g5\<rparr>)"
    using is_none_dispatch [OF l2 r2, of tb fb] m c by (simp del: emitIfElseBlocks.simps)
  have p2: "\<exists>s. emitIf is_ext (If (Is (Var ''a'') NoneLit) tb fb) optional_state = Inr s \<and>
        nodes_of_kind ''aten::__is__'' (cs_graph s) = [1] \<and>
        nodes_of_kind ''prim::If'' (cs_graph s) = [2] \<and>
        n_inputs (g_nodes (cs_graph s) ! 2) = n_outputs (g_nodes (cs_graph s) ! 1)"
    unfolding e2 by (simp add: tb_def fb_def g5 t2_def emit_eval cong: prod.case_cong_weak)
  from p1 p2 show ?thesis unfolding tb_def fb_def by blast
qed

subsection \<open>Rebinding a name of an enclosing frame\<close>

text \<open>
  Claim C4. When \<open>name\<close> is bound in an enclosing frame, \<^verbatim>\<open>setSugaredVar\<close> succeeds (and
  binds the name in the innermost frame) if and only if the old binding and the new value
  are both plain values and the type of the new value is a subtype of the shape-erased
  type of the old one. Otherwise it fails: with one of the two "not a first-class value"
  errors when the new value, or else the old binding, is not a plain value, and with the
  "previously has type" error when only the types are incompatible.
\<close>

theorem rebind_enclosing:
  assumes "findInParentFrame name (f # next) = Some parent"
  shows "((\<exists>env1 g1. setSugaredVar X name value (f # next) g = Inr (env1, g1) \<and>
             findInThisFrame name env1 = Some value) \<longleftrightarrow>
          (\<exists>v p. value = SimpleValue v \<and> parent = SimpleValue p \<and>
             isSubtypeOf X (type_of g v) (unshapedType X (type_of g p))))
       \<and> (asSimple value = None \<longrightarrow>
            setSugaredVar X name value (f # next) g =
              Inl (ReassignToNonFirstClass name (sv_kind value)))
       \<and> (asSimple value \<noteq> None \<longrightarrow> asSimple parent = None \<longrightarrow>
            setSugaredVar X name value (f # next) g =
              Inl (ReassignOfNonFirstClass name (sv_kind value)))
       \<and> (\<forall>v p. value = SimpleValue v \<longrightarrow> parent = SimpleValue p \<longrightarrow>
            \<not> isSubtypeOf X (type_of g v) (unshapedType X (type_of g p)) \<longrightarrow>
            setSugaredVar X name value (f # next) g =
              Inl (VariablePreviouslyHasType name (type_of g p) (type_of g v)
                     (is_ListType (type_of g p) \<and> is_ListType (type_of g v))))"
proof -
  have par: "findInAnyFrame name next = Some parent" using assms by simp
  show ?thesis
  proof (cases "value")
    case (SimpleValue v)
    show ?thesis
    proof (cases parent)
      case (SimpleValue p)
      note P = this
      show ?thesis
      proof (cases "isSubtypeOf X (type_of g v) (unshapedType X (type_of g p))")
        case True
        obtain r env1 g2 where c: "createCapturedInputIfNeeded name (f # next)
            (if v_uname (g_vals g ! v) = None \<and> meaningfulName name \<and> v_block (g_vals g ! v) = fr_block f
             then setUniqueName v name g else g) = (r, env1, g2)"
          by (metis prod_cases3)
        from createCapturedInputIfNeeded_nonempty[OF c] obtain f1 next1 where e: "env1 = f1 # next1" by blast
        show ?thesis using True par P \<open>value = SimpleValue v\<close> c e
          by (simp add: Let_def map_of_update_same)
      next
        case False
        then show ?thesis using par P \<open>value = SimpleValue v\<close>
          by (simp add: Let_def)
      qed
    qed (use par \<open>value = SimpleValue v\<close> in \<open>simp_all add: Let_def\<close>)
  qed (use par in \<open>simp_all add: Let_def\<close>)
qed

theorem rebind_enclosing_witness:
  "findInParentFrame ''x'' rebind_env = Some (SimpleValue 0) \<and>
   (\<exists>env1 g1. setSugaredVar sample_ext ''x'' (SimpleValue 1) rebind_env rebind_graph = Inr (env1, g1) \<and>
      findInThisFrame ''x'' env1 = Some (SimpleValue 1)) \<and>
   setSugaredVar sample_ext ''x'' (SimpleValue 2) rebind_env rebind_graph =
     Inl (VariablePreviouslyHasType ''x'' IntType StringType False) \<and>
   setSugaredVar sample_ext ''x'' NoneValue rebind_env rebind_graph =
     Inl (ReassignToNonFirstClass ''x'' ''None'')"
proof -
  have h: "findInParentFrame ''x''
             (empty_frame 0 # [(empty_frame 0)\<lparr>value_table := [(''x'', SimpleValue 0)]\<rparr>]) =
           Some (SimpleValue 0)"
    by (simp add: empty_frame_def)
  have t0: "type_of rebind_graph 0 = IntType" and t1: "type_of rebind_graph 1 = IntType"
    and t2: "type_of rebind_graph 2 = StringType"
    by (simp_all add: rebind_graph_def type_of_def insertConstant_def insertNode1_def
        insertNode_def addInput_def insertInput_def new_val_def place_node_def fresh_graph_def
        Let_def)
  have sub: "isSubtypeOf sample_ext IntType (unshapedType sample_ext IntType)"
    "\<not> isSubtypeOf sample_ext StringType (unshapedType sample_ext IntType)"
    by (simp_all add: sample_ext_def sample_base_def sample_subtype_def sample_unshaped_def)
  show ?thesis
    using h t0 t1 t2 sub
      rebind_enclosing [OF h, of sample_ext "SimpleValue 1" rebind_graph]
      rebind_enclosing [OF h, of sample_ext "SimpleValue 2" rebind_graph]
      rebind_enclosing [OF h, of sample_ext NoneValue rebind_graph]
    by (simp add: rebind_env_def)
qed

subsection \<open>Tuple subscripts\<close>

text \<open>
  Claim C5. For a tuple of statically known length \<open>L\<close>: a subscript needs a compile-time
  integer constant (anything else fails with "tuple indices must be integer constants");
  a point index \<open>i\<close> is adjusted to \<open>L + i\<close> when negative and is accepted exactly when the
  adjusted index lies in \<open>[0, L - 1]\<close>, otherwise the out-of-range error is raised; a
  slice with constant bounds always succeeds, both bounds are adjusted the same way and
  then clamped into \<open>[0, L]\<close>, and slicing never raises the out-of-range error.
\<close>

theorem tuple_index_and_slice:
  "(toIValue g idx = Some (IInt i) \<longrightarrow>
      getTupleIndexVal g elems idx False =
        (let L = int (length elems); j = (if i < 0 then L + i else i)
         in if 0 \<le> j \<and> j \<le> L - 1 then Inr j else Inl (TupleIndexOutOfRange L i)))
   \<and> ((\<forall>i. toIValue g idx \<noteq> Some (IInt i)) \<longrightarrow>
        getTupleIndexVal g elems idx allow = Inl TupleIndicesMustBeIntegerConstants)
   \<and> (type_of g tup = TupleType elems \<longrightarrow> toIValue g idx = Some (IInt i) \<longrightarrow>
        \<not> (0 \<le> (if i < 0 then int (length elems) + i else i) \<and>
           (if i < 0 then int (length elems) + i else i) \<le> int (length elems) - 1) \<longrightarrow>
        emitTupleIndex tup idx g = Inl (TupleIndexOutOfRange (int (length elems)) i))
   \<and> (type_of g tup = TupleType elems \<longrightarrow> toIValue g b = Some (IInt i) \<longrightarrow>
        toIValue g e = Some (IInt k) \<longrightarrow>
        (let L = int (length elems);
             beg = min (max 0 (if i < 0 then L + i else i)) L;
             end = min (max 0 (if k < 0 then L + k else k)) L
         in 0 \<le> beg \<and> beg \<le> L \<and> 0 \<le> end \<and> end \<le> L \<and>
            (\<exists>v g1. emitTupleSlice tup b (Some e) g = Inr (v, g1) \<and>
               n_kind (g_nodes g1 ! length (g_nodes g)) = ''prim::TupleSlice'' \<and>
               n_ints (g_nodes g1 ! length (g_nodes g)) = [(''beg'', beg), (''end'', end)])))
   \<and> emitTupleSlice tup b eo g \<noteq> Inl (TupleIndexOutOfRange L0 i0)"
proof (intro conjI impI)
  assume "toIValue g idx = Some (IInt i)"
  then show "getTupleIndexVal g elems idx False =
        (let L = int (length elems); j = (if i < 0 then L + i else i)
         in if 0 \<le> j \<and> j \<le> L - 1 then Inr j else Inl (TupleIndexOutOfRange L i))"
    by (auto simp: getTupleIndexVal_def Let_def)
next
  assume "\<forall>i. toIValue g idx \<noteq> Some (IInt i)"
  then show "getTupleIndexVal g elems idx allow = Inl TupleIndicesMustBeIntegerConstants"
    by (auto simp: getTupleIndexVal_def split: option.splits ivalue.splits)
next
  assume "type_of g tup = TupleType elems" "toIValue g idx = Some (IInt i)"
    "\<not> (0 \<le> (if i < 0 then int (length elems) + i else i) \<and>
           (if i < 0 then int (length elems) + i else i) \<le> int (length elems) - 1)"
  then show "emitTupleIndex tup idx g = Inl (TupleIndexOutOfRange (int (length elems)) i)"
    by (auto simp: emitTupleIndex_def getTupleIndexVal_def Let_def)
next
  assume a: "type_of g tup = TupleType elems" "toIValue g b = Some (IInt i)" "toIValue g e = Some (IInt k)"
  define L where "L = int (length elems)"
  define B where "B = min (max 0 (if i < 0 then L + i else i)) L"
  define E where "E = min (max 0 (if k < 0 then L + k else k)) L"
  have run: "emitTupleSlice tup b (Some e) g = Inr (createTupleSlice tup elems B E g)"
    using a by (simp add: emitTupleSlice_def getTupleIndexVal_def Let_def L_def B_def E_def)
  obtain v g1 where c: "createTupleSlice tup elems B E g = (v, g1)"
    by (cases "createTupleSlice tup elems B E g") auto
  have rng: "0 \<le> B \<and> B \<le> L \<and> 0 \<le> E \<and> E \<le> L"
    by (auto simp: B_def E_def L_def)
  from createTupleSlice_node[OF c] run c rng
  show "(let L = int (length elems);
             beg = min (max 0 (if i < 0 then L + i else i)) L;
             end = min (max 0 (if k < 0 then L + k else k)) L
         in 0 \<le> beg \<and> beg \<le> L \<and> 0 \<le> end \<and> end \<le> L \<and>
            (\<exists>v g1. emitTupleSlice tup b (Some e) g = Inr (v, g1) \<and>
               n_kind (g_nodes g1 ! length (g_nodes g)) = ''prim::TupleSlice'' \<and>
               n_ints (g_nodes g1 ! length (g_nodes g)) = [(''beg'', beg), (''end'', end)]))"
    unfolding Let_def L_def[symmetric] B_def[symmetric] E_def[symmetric] by simp
next
  show "emitTupleSlice tup b eo g \<noteq> Inl (TupleIndexOutOfRange L0 i0)"
    by (auto simp: emitTupleSlice_def getTupleIndexVal_def Let_def
        split: jtype.splits sum.splits option.splits ivalue.splits)
qed

theorem tuple_index_and_slice_witness:
  "toIValue tuple_graph 1 = Some (IInt 5) \<and>
   toIValue tuple_graph 2 = Some (IInt (- 5)) \<and>
   type_of tuple_graph 0 = TupleType [IntType, FloatType, BoolType] \<and>
   getTupleIndexVal tuple_graph [IntType, FloatType, BoolType] 1 False =
     Inl (TupleIndexOutOfRange 3 5) \<and>
   getTupleIndexVal tuple_graph [IntType, FloatType, BoolType] 0 False =
     Inl TupleIndicesMustBeIntegerConstants \<and>
   emitTupleIndex 0 1 tuple_graph = Inl (TupleIndexOutOfRange 3 5) \<and>
   (\<exists>v g1. emitTupleSlice 0 2 (Some 1) tuple_graph = Inr (v, g1) \<and>
      n_ints (g_nodes g1 ! 2) = [(''beg'', 0), (''end'', 3)])"
proof -
  have h1: "toIValue tuple_graph 1 = Some (IInt 5)"
    by (simp add: tuple_graph_def toIValue_def insertConstant_def insertNode1_def insertNode_def
        addInput_def insertInput_def new_val_def place_node_def fresh_graph_def Let_def)
  have h2: "toIValue tuple_graph 2 = Some (IInt (- 5))"
    by (simp add: tuple_graph_def toIValue_def insertConstant_def insertNode1_def insertNode_def
        addInput_def insertInput_def new_val_def place_node_def fresh_graph_def Let_def)
  have h0: "\<forall>i. toIValue tuple_graph 0 \<noteq> Some (IInt i)"
    by (simp add: tuple_graph_def toIValue_def insertConstant_def insertNode1_def insertNode_def
        addInput_def insertInput_def new_val_def place_node_def fresh_graph_def Let_def)
  have h3: "type_of tuple_graph 0 = TupleType [IntType, FloatType, BoolType]"
    by (simp add: tuple_graph_def type_of_def insertConstant_def insertNode1_def insertNode_def
        addInput_def insertInput_def new_val_def place_node_def fresh_graph_def Let_def)
  have n: "length (g_nodes tuple_graph) = 2"
    by (simp add: tuple_graph_def insertConstant_def insertNode1_def insertNode_def
        addInput_def insertInput_def new_val_def place_node_def fresh_graph_def Let_def)
  show ?thesis
    using h0 h1 h2 h3 n
      tuple_index_and_slice [where g = tuple_graph and idx = 1 and i = 5
        and elems = "[IntType, FloatType, BoolType]" and tup = 0 and b = 2 and e = 1 and k = 5
        and allow = False and eo = None and ?L0.0 = 0 and ?i0.0 = 0]
      tuple_index_and_slice [where g = tuple_graph and idx = 0 and i = 0
        and elems = "[IntType, FloatType, BoolType]" and tup = 0 and b = 2 and e = 1 and k = 5
        and allow = False and eo = None and ?L0.0 = 0 and ?i0.0 = 0]
      tuple_index_and_slice [where g = tuple_graph and idx = 1 and i = "- 5"
        and elems = "[IntType, FloatType, BoolType]" and tup = 0 and b = 2 and e = 1 and k = 5
        and allow = False and eo = None and ?L0.0 = 0 and ?i0.0 = 0]
    by (auto simp: Let_def)
qed

subsection \<open>The list parameter that takes all remaining positional arguments\<close>

text \<open>
  Claim C6, as stated, gives the greedy path to a fixed-arity list parameter. The source
  gives it to a list parameter that has no fixed arity: the test requires \<^verbatim>\<open>!arg.N()\<close>.
  A call with two \<open>int\<close> arguments against the single parameter \<open>int[2] sizes\<close> does not
  bind both to the parameter: the first is broadcast to a list of two, the second is
  left over, and the candidate fails with "expected at most 1 arguments but found 2", with
  and without conversions.
\<close>

theorem greedy_fixed_arity_counterexample:
  "arg_N sizes_fixed = Some 2 \<and> arguments schema_fixed = [sizes_fixed] \<and>
   map_sum id (\<lambda>(m, r, g). (m, r))
     (tryMatchSchema sample_ext schema_fixed None [simple_nv 0, simple_nv 1] [] False two_ints_graph) =
     Inr ([ExpectedAtMost 1 2], None) \<and>
   map_sum id (\<lambda>(m, r, g). (m, r))
     (tryMatchSchema sample_ext schema_fixed None [simple_nv 0, simple_nv 1] [] True two_ints_graph) =
     Inr ([ExpectedAtMost 1 2], None)"
  by (simp add: schema_eval schema_fixed_def sizes_fixed_def two_ints_graph_def)

text \<open>
  Claim C6, amended. For a positional parameter that is reached with positional
  arguments left: if it has a fixed arity \<open>N\<close> it takes exactly the next argument, never
  the rest. If it is a list parameter without fixed arity in the last positional slot,
  and the next actual is neither a list nor convertible to the parameter's list type,
  then all remaining positional arguments are matched against the element type and
  consumed, and the parameter is bound to one value: the output, of the list type, of a
  single list-construction node with one input per remaining argument.
\<close>

theorem greedy_list_parameter:
  assumes "\<not> (arg_name arg = ''self'' \<and> m_self st \<noteq> None)" "\<not> kwarg_only arg"
    "used_args st < length args" "nv_value (args ! used_args st) g = (actual, g1)"
  shows "(arg_N arg \<noteq> None \<longrightarrow>
           matchParameter X args kwargs allow arg rest st g =
             (case tryMatchArgument X arg (args ! used_args st) allow (m_type_env st) g of
                Inl e \<Rightarrow> Inl e
              | Inr (Inl m, env1, g2) \<Rightarrow> Inr (Inl m, g2)
              | Inr (Inr positional, env1, g2) \<Rightarrow>
                  Inr (Inr (st\<lparr>used_args := used_args st + 1,
                               positional_inputs := positional_inputs st @ [positional],
                               m_type_env := env1\<rparr>), g2)))
       \<and> (arg_type arg = ListType elem \<longrightarrow> arg_N arg = None \<longrightarrow>
          (rest = [] \<or> kwarg_only (hd rest)) \<longrightarrow>
          \<not> is_ListType (type_of g1 actual) \<longrightarrow>
          \<not> convertibleToList X (type_of g1 actual) (ListType elem) \<longrightarrow>
           matchParameter X args kwargs allow arg rest st g =
             (case tryCreateList X elem (drop (used_args st) args) allow (m_type_env st) g1 of
                Inl e \<Rightarrow> Inl e
              | Inr (Inl m, env1, g2) \<Rightarrow> Inr (Inl m, g2)
              | Inr (Inr l, env1, g2) \<Rightarrow>
                  Inr (Inr (st\<lparr>used_args := length args,
                               positional_inputs := positional_inputs st @ [l],
                               m_type_env := env1\<rparr>), g2)))
       \<and> (\<forall>l env1 g2. tryCreateList X elem (drop (used_args st) args) allow (m_type_env st) g1 =
                         Inr (Inr l, env1, g2) \<longrightarrow>
            type_of g2 l = ListType elem \<and>
            (\<exists>n. n_kind (g_nodes g2 ! n) = ''prim::ListConstruct'' \<and>
                 n_outputs (g_nodes g2 ! n) = [l] \<and>
                 length (n_inputs (g_nodes g2 ! n)) = length args - used_args st))"
proof (intro conjI impI allI)
  assume "arg_N arg \<noteq> None"
  then show "matchParameter X args kwargs allow arg rest st g =
             (case tryMatchArgument X arg (args ! used_args st) allow (m_type_env st) g of
                Inl e \<Rightarrow> Inl e
              | Inr (Inl m, env1, g2) \<Rightarrow> Inr (Inl m, g2)
              | Inr (Inr positional, env1, g2) \<Rightarrow>
                  Inr (Inr (st\<lparr>used_args := used_args st + 1,
                               positional_inputs := positional_inputs st @ [positional],
                               m_type_env := env1\<rparr>), g2))"
    using assms
    by (auto simp: matchParameter_def consumes_varargs_def Let_def split: sum.splits prod.splits)
next
  assume "arg_type arg = ListType elem" "arg_N arg = None" "rest = [] \<or> kwarg_only (hd rest)"
    "\<not> is_ListType (type_of g1 actual)" "\<not> convertibleToList X (type_of g1 actual) (ListType elem)"
  then show "matchParameter X args kwargs allow arg rest st g =
             (case tryCreateList X elem (drop (used_args st) args) allow (m_type_env st) g1 of
                Inl e \<Rightarrow> Inl e
              | Inr (Inl m, env1, g2) \<Rightarrow> Inr (Inl m, g2)
              | Inr (Inr l, env1, g2) \<Rightarrow>
                  Inr (Inr (st\<lparr>used_args := length args,
                               positional_inputs := positional_inputs st @ [l],
                               m_type_env := env1\<rparr>), g2))"
    using assms
    by (auto simp: matchParameter_def consumes_varargs_def Let_def split: sum.splits prod.splits)
next
  fix l env1 g2
  assume "tryCreateList X elem (drop (used_args st) args) allow (m_type_env st) g1 =
                         Inr (Inr l, env1, g2)"
  from tryCreateList_node[OF this]
  show "type_of g2 l = ListType elem"
    and "\<exists>n. n_kind (g_nodes g2 ! n) = ''prim::ListConstruct'' \<and>
                 n_outputs (g_nodes g2 ! n) = [l] \<and>
                 length (n_inputs (g_nodes g2 ! n)) = length args - used_args st"
    by auto
qed

theorem greedy_list_parameter_witness:
  "\<exists>g2. tryMatchSchema sample_ext schema_list None [simple_nv 0, simple_nv 1] [] False two_ints_graph =
          Inr ([], Some \<lparr>ms_inputs = [2], ms_return_types = [DynamicType]\<rparr>, g2) \<and>
        n_kind (g_nodes g2 ! 0) = ''prim::ListConstruct'' \<and> n_inputs (g_nodes g2 ! 0) = [0, 1] \<and>
        type_of g2 2 = ListType IntType"
proof -
  define st where "st = \<lparr>m_self = None, used_args = 0, positional_inputs = [],
      used_kwarg = replicate (length ([] :: named_value list)) False, m_type_env = []\<rparr>"
  define arg where "arg = plain_arg ''sizes'' (ListType IntType)"
  have h1: "\<not> (arg_name arg = ''self'' \<and> m_self st \<noteq> None)"
    and h2: "\<not> kwarg_only arg"
    and h3: "used_args st < length [simple_nv 0, simple_nv 1]"
    and h4: "nv_value ([simple_nv 0, simple_nv 1] ! used_args st) two_ints_graph = (0, two_ints_graph)"
    by (simp_all add: st_def arg_def plain_arg_def nv_value_def simple_nv_def)
  have m: "matchParameter sample_ext [simple_nv 0, simple_nv 1] [] False arg [] st two_ints_graph =
      (case tryCreateList sample_ext IntType (drop (used_args st) [simple_nv 0, simple_nv 1]) False
              (m_type_env st) two_ints_graph of
         Inl e \<Rightarrow> Inl e
       | Inr (Inl m, env1, g2) \<Rightarrow> Inr (Inl m, g2)
       | Inr (Inr l, env1, g2) \<Rightarrow>
           Inr (Inr (st\<lparr>used_args := length [simple_nv 0, simple_nv 1],
                        positional_inputs := positional_inputs st @ [l],
                        m_type_env := env1\<rparr>), g2))"
    using greedy_list_parameter [OF h1 h2 h3 h4, where elem = IntType and rest = "[]"
        and X = sample_ext and kwargs = "[]" and allow = False]
    by (simp add: arg_def plain_arg_def two_ints_graph_def schema_eval)
  have "tryMatchSchema sample_ext schema_list None [simple_nv 0, simple_nv 1] [] False two_ints_graph =
      (case matchParameter sample_ext [simple_nv 0, simple_nv 1] [] False arg [] st two_ints_graph of
         Inl e \<Rightarrow> Inl e
       | Inr (Inl m, g1) \<Rightarrow> Inr ([m], None, g1)
       | Inr (Inr st1, g1) \<Rightarrow>
           Inr ([], Some \<lparr>ms_inputs = positional_inputs st1, ms_return_types = [DynamicType]\<rparr>, g1))"
    by (simp add: schema_list_def arg_def st_def schema_eval two_ints_graph_def)
  then show ?thesis
    unfolding m
    by (simp add: st_def schema_eval two_ints_graph_def)
qed

subsection \<open>Ternary conditionals\<close>

text \<open>
  Claim C7. \<^verbatim>\<open>emitTernaryIf\<close> lowers the condition and hands the two branch expressions
  to \<^verbatim>\<open>emitIfExpr\<close>, which creates one \<^verbatim>\<open>prim::If\<close> node with the condition as input and
  two blocks, and runs each branch with the insertion point and a fresh frame in its own
  block. A failure of either branch is the failure of the expression. When both branches
  have produced their block output, the expression fails at once, with the error naming
  both types, if the shape-erased types of the two outputs differ; otherwise it succeeds
  and the node receives a single new output carrying that common type. Whenever the
  expression succeeds, both branches were lowered.
\<close>

lemma ternary_if_parts:
  assumes "beginIf cond_value (cs_graph s) = (n, tb, fb, g1)"
  shows "n_kind (g_nodes g1 ! n) = ''prim::If'' \<and> n_inputs (g_nodes g1 ! n) = [cond_value] \<and>
         n_blocks (g_nodes g1 ! n) = [tb, fb] \<and> tb \<noteq> fb \<and>
         n = length (g_nodes (cs_graph s)) \<and> length (g_nodes g1) = Suc n \<and>
         b_owner (g_blocks g1 ! tb) = Some n \<and> b_owner (g_blocks g1 ! fb) = Some n"
    and "emitCond X cond s0 = Inr (cond_value, s) \<longrightarrow>
           emitTernaryIf X cond te fe s0 =
             emitIfExpr X cond_value (emitExpr X te None) (emitExpr X fe None) s"
    and "\<forall>e. true_expr (setInsertPoint tb None (pushFrame tb (s\<lparr>cs_graph := g1\<rparr>))) = Inl e \<longrightarrow>
           emitIfExpr X cond_value true_expr false_expr s = Inl e"
    and "\<forall>s2 e. emit_if_expr tb true_expr (s\<lparr>cs_graph := g1\<rparr>) = Inr s2 \<longrightarrow>
           false_expr (setInsertPoint fb None (pushFrame fb s2)) = Inl e \<longrightarrow>
           emitIfExpr X cond_value true_expr false_expr s = Inl e"
    and "\<forall>s2 s3 t_out ts f_out fs.
           emit_if_expr tb true_expr (s\<lparr>cs_graph := g1\<rparr>) = Inr s2 \<longrightarrow>
           emit_if_expr fb false_expr s2 = Inr s3 \<longrightarrow>
           b_outputs (g_blocks (cs_graph s3) ! tb) = t_out # ts \<longrightarrow>
           b_outputs (g_blocks (cs_graph s3) ! fb) = f_out # fs \<longrightarrow>
           (unshapedType X (type_of (cs_graph s3) t_out) \<noteq> unshapedType X (type_of (cs_graph s3) f_out) \<longrightarrow>
              emitIfExpr X cond_value true_expr false_expr s =
                Inl (IfExpressionBranchTypes (unshapedType X (type_of (cs_graph s3) t_out))
                       (unshapedType X (type_of (cs_graph s3) f_out)))) \<and>
           (unshapedType X (type_of (cs_graph s3) t_out) = unshapedType X (type_of (cs_graph s3) f_out) \<longrightarrow>
              (\<exists>v s4. emitIfExpr X cond_value true_expr false_expr s = Inr (v, s4) \<and>
                 type_of (cs_graph s4) v = unshapedType X (type_of (cs_graph s3) t_out) \<and>
                 environment_stack s4 = environment_stack s3 \<and>
                 (n < length (g_nodes (cs_graph s3)) \<longrightarrow>
                    n_outputs (g_nodes (cs_graph s4) ! n) =
                      n_outputs (g_nodes (cs_graph s3) ! n) @ [v])))"
    and "\<forall>v s4. emitIfExpr X cond_value true_expr false_expr s = Inr (v, s4) \<longrightarrow>
           (\<exists>s2 s3 tv sa fv sb.
              true_expr (setInsertPoint tb None (pushFrame tb (s\<lparr>cs_graph := g1\<rparr>))) = Inr (tv, sa) \<and>
              emit_if_expr tb true_expr (s\<lparr>cs_graph := g1\<rparr>) = Inr s2 \<and>
              false_expr (setInsertPoint fb None (pushFrame fb s2)) = Inr (fv, sb) \<and>
              emit_if_expr fb false_expr s2 = Inr s3)"
proof -
  note b = beginIf_node[OF assms]
  show "n_kind (g_nodes g1 ! n) = ''prim::If'' \<and> n_inputs (g_nodes g1 ! n) = [cond_value] \<and>
         n_blocks (g_nodes g1 ! n) = [tb, fb] \<and> tb \<noteq> fb \<and>
         n = length (g_nodes (cs_graph s)) \<and> length (g_nodes g1) = Suc n \<and>
         b_owner (g_blocks g1 ! tb) = Some n \<and> b_owner (g_blocks g1 ! fb) = Some n"
    using b by simp
  show "emitCond X cond s0 = Inr (cond_value, s) \<longrightarrow>
           emitTernaryIf X cond te fe s0 =
             emitIfExpr X cond_value (emitExpr X te None) (emitExpr X fe None) s"
    by (simp add: emitTernaryIf_def)
  show "\<forall>e. true_expr (setInsertPoint tb None (pushFrame tb (s\<lparr>cs_graph := g1\<rparr>))) = Inl e \<longrightarrow>
           emitIfExpr X cond_value true_expr false_expr s = Inl e"
    using assms by (simp add: emitIfExpr_def emit_if_expr_def)
  show "\<forall>s2 e. emit_if_expr tb true_expr (s\<lparr>cs_graph := g1\<rparr>) = Inr s2 \<longrightarrow>
           false_expr (setInsertPoint fb None (pushFrame fb s2)) = Inl e \<longrightarrow>
           emitIfExpr X cond_value true_expr false_expr s = Inl e"
    using assms by (simp add: emitIfExpr_def) (simp add: emit_if_expr_def)
  show "\<forall>s2 s3 t_out ts f_out fs.
           emit_if_expr tb true_expr (s\<lparr>cs_graph := g1\<rparr>) = Inr s2 \<longrightarrow>
           emit_if_expr fb false_expr s2 = Inr s3 \<longrightarrow>
           b_outputs (g_blocks (cs_graph s3) ! tb) = t_out # ts \<longrightarrow>
           b_outputs (g_blocks (cs_graph s3) ! fb) = f_out # fs \<longrightarrow>
           (unshapedType X (type_of (cs_graph s3) t_out) \<noteq> unshapedType X (type_of (cs_graph s3) f_out) \<longrightarrow>
              emitIfExpr X cond_value true_expr false_expr s =
                Inl (IfExpressionBranchTypes (unshapedType X (type_of (cs_graph s3) t_out))
                       (unshapedType X (type_of (cs_graph s3) f_out)))) \<and>
           (unshapedType X (type_of (cs_graph s3) t_out) = unshapedType X (type_of (cs_graph s3) f_out) \<longrightarrow>
              (\<exists>v s4. emitIfExpr X cond_value true_expr false_expr s = Inr (v, s4) \<and>
                 type_of (cs_graph s4) v = unshapedType X (type_of (cs_graph s3) t_out) \<and>
                 environment_stack s4 = environment_stack s3 \<and>
                 (n < length (g_nodes (cs_graph s3)) \<longrightarrow>
                    n_outputs (g_nodes (cs_graph s4) ! n) =
                      n_outputs (g_nodes (cs_graph s3) ! n) @ [v])))"
  proof (intro allI impI conjI)
    fix s2 s3 t_out ts f_out fs
    assume r: "emit_if_expr tb true_expr (s\<lparr>cs_graph := g1\<rparr>) = Inr s2"
      "emit_if_expr fb false_expr s2 = Inr s3"
      "b_outputs (g_blocks (cs_graph s3) ! tb) = t_out # ts"
      "b_outputs (g_blocks (cs_graph s3) ! fb) = f_out # fs"
    {
      assume "unshapedType X (type_of (cs_graph s3) t_out) \<noteq> unshapedType X (type_of (cs_graph s3) f_out)"
      then show "emitIfExpr X cond_value true_expr false_expr s =
                Inl (IfExpressionBranchTypes (unshapedType X (type_of (cs_graph s3) t_out))
                       (unshapedType X (type_of (cs_graph s3) f_out)))"
        using assms r by (simp add: emitIfExpr_def Let_def)
    }
    {
      assume eq: "unshapedType X (type_of (cs_graph s3) t_out) = unshapedType X (type_of (cs_graph s3) f_out)"
      obtain v g4 where a: "addOutput n (unshapedType X (type_of (cs_graph s3) t_out)) (cs_graph s3) = (v, g4)"
        by (cases "addOutput n (unshapedType X (type_of (cs_graph s3) t_out)) (cs_graph s3)") auto
      have "emitIfExpr X cond_value true_expr false_expr s = Inr (v, s3\<lparr>cs_graph := g4\<rparr>)"
        using assms r eq a by (simp add: emitIfExpr_def Let_def on_graph_def)
      with addOutput_type[OF a]
      show "\<exists>v s4. emitIfExpr X cond_value true_expr false_expr s = Inr (v, s4) \<and>
                 type_of (cs_graph s4) v = unshapedType X (type_of (cs_graph s3) t_out) \<and>
                 environment_stack s4 = environment_stack s3 \<and>
                 (n < length (g_nodes (cs_graph s3)) \<longrightarrow>
                    n_outputs (g_nodes (cs_graph s4) ! n) =
                      n_outputs (g_nodes (cs_graph s3) ! n) @ [v])"
        by auto
    }
  qed
  show "\<forall>v s4. emitIfExpr X cond_value true_expr false_expr s = Inr (v, s4) \<longrightarrow>
           (\<exists>s2 s3 tv sa fv sb.
              true_expr (setInsertPoint tb None (pushFrame tb (s\<lparr>cs_graph := g1\<rparr>))) = Inr (tv, sa) \<and>
              emit_if_expr tb true_expr (s\<lparr>cs_graph := g1\<rparr>) = Inr s2 \<and>
              false_expr (setInsertPoint fb None (pushFrame fb s2)) = Inr (fv, sb) \<and>
              emit_if_expr fb false_expr s2 = Inr s3)"
  proof (intro allI impI)
    fix v s4 assume ok: "emitIfExpr X cond_value true_expr false_expr s = Inr (v, s4)"
    then obtain s2 s3 where r: "emit_if_expr tb true_expr (s\<lparr>cs_graph := g1\<rparr>) = Inr s2"
      "emit_if_expr fb false_expr s2 = Inr s3"
      using assms by (auto simp: emitIfExpr_def split: sum.splits)
    from emit_if_expr_ok[OF r(1)] emit_if_expr_ok[OF r(2)] r
    show "\<exists>s2 s3 tv sa fv sb.
              true_expr (setInsertPoint tb None (pushFrame tb (s\<lparr>cs_graph := g1\<rparr>))) = Inr (tv, sa) \<and>
              emit_if_expr tb true_expr (s\<lparr>cs_graph := g1\<rparr>) = Inr s2 \<and>
              false_expr (setInsertPoint fb None (pushFrame fb s2)) = Inr (fv, sb) \<and>
              emit_if_expr fb false_expr s2 = Inr s3"
      by blast
  qed
qed


theorem ternary_if:
  assumes "beginIf cond_value (cs_graph s) = (n, tb, fb, g1)"
  shows "(n_kind (g_nodes g1 ! n) = ''prim::If'' \<and> n_inputs (g_nodes g1 ! n) = [cond_value] \<and>
         n_blocks (g_nodes g1 ! n) = [tb, fb] \<and> tb \<noteq> fb \<and>
         n = length (g_nodes (cs_graph s)) \<and> length (g_nodes g1) = Suc n \<and>
         b_owner (g_blocks g1 ! tb) = Some n \<and> b_owner (g_blocks g1 ! fb) = Some n)
   \<and> (emitCond X cond s0 = Inr (cond_value, s) \<longrightarrow>
           emitTernaryIf X cond te fe s0 =
             emitIfExpr X cond_value (emitExpr X te None) (emitExpr X fe None) s)
   \<and> (\<forall>e. true_expr (setInsertPoint tb None (pushFrame tb (s\<lparr>cs_graph := g1\<rparr>))) = Inl e \<longrightarrow>
           emitIfExpr X cond_value true_expr false_expr s = Inl e)
   \<and> (\<forall>s2 e. emit_if_expr tb true_expr (s\<lparr>cs_graph := g1\<rparr>) = Inr s2 \<longrightarrow>
           false_expr (setInsertPoint fb None (pushFrame fb s2)) = Inl e \<longrightarrow>
           emitIfExpr X cond_value true_expr false_expr s = Inl e)
   \<and> (\<forall>s2 s3 t_out ts f_out fs.
           emit_if_expr tb true_expr (s\<lparr>cs_graph := g1\<rparr>) = Inr s2 \<longrightarrow>
           emit_if_expr fb false_expr s2 = Inr s3 \<longrightarrow>
           b_outputs (g_blocks (cs_graph s3) ! tb) = t_out # ts \<longrightarrow>
           b_outputs (g_blocks (cs_graph s3) ! fb) = f_out # fs \<longrightarrow>
           (unshapedType X (type_of (cs_graph s3) t_out) \<noteq> unshapedType X (type_of (cs_graph s3) f_out) \<longrightarrow>
              emitIfExpr X cond_value true_expr false_expr s =
                Inl (IfExpressionBranchTypes (unshapedType X (type_of (cs_graph s3) t_out))
                       (unshapedType X (type_of (cs_graph s3) f_out)))) \<and>
           (unshapedType X (type_of (cs_graph s3) t_out) = unshapedType X (type_of (cs_graph s3) f_out) \<longrightarrow>
              (\<exists>v s4. emitIfExpr X cond_value true_expr false_expr s = Inr (v, s4) \<and>
                 type_of (cs_graph s4) v = unshapedType X (type_of (cs_graph s3) t_out) \<and>
                 environment_stack s4 = environment_stack s3 \<and>
                 (n < length (g_nodes (cs_graph s3)) \<longrightarrow>
                    n_outputs (g_nodes (cs_graph s4) ! n) =
                      n_outputs (g_nodes (cs_graph s3) ! n) @ [v]))))
   \<and> (\<forall>v s4. emitIfExpr X cond_value true_expr false_expr s = Inr (v, s4) \<longrightarrow>
           (\<exists>s2 s3 tv sa fv sb.
              true_expr (setInsertPoint tb None (pushFrame tb (s\<lparr>cs_graph := g1\<rparr>))) = Inr (tv, sa) \<and>
              emit_if_expr tb true_expr (s\<lparr>cs_graph := g1\<rparr>) = Inr s2 \<and>
              false_expr (setInsertPoint fb None (pushFrame fb s2)) = Inr (fv, sb) \<and>
              emit_if_expr fb false_expr s2 = Inr s3))"
proof -
  note p = ternary_if_parts [OF assms]
  show ?thesis
    apply (rule conjI, rule p(1))
    apply (rule conjI, rule p(2))
    apply (rule conjI, rule p(3))
    apply (rule conjI, rule p(4))
    apply (rule conjI, rule p(5))
    apply (rule p(6))
    done
qed

theorem ternary_if_witness:
  "emitTernaryIf sample_ext TrueLit (ConstInt 1) (StringLiteral ''a'') sample_state =
     Inl (IfExpressionBranchTypes IntType StringType) \<and>
   (\<exists>v s4. emitTernaryIf sample_ext TrueLit (ConstInt 1) (ConstInt 2) sample_state = Inr (v, s4) \<and>
      type_of (cs_graph s4) v = IntType)"
proof -
  define sC where "sC = snd (on_graph (insertConstant (IBool True)) sample_state)"
  have c: "emitCond sample_ext TrueLit sample_state = Inr (0, sC)"
    by (simp add: sC_def sample_eval emitCond_def sample_subtype_def)
  obtain n tb fb g1 where b: "beginIf 0 (cs_graph sC) = (n, tb, fb, g1)"
    by (metis prod_cases4)
  have e1: "emitTernaryIf sample_ext TrueLit (ConstInt 1) (StringLiteral ''a'') sample_state =
      emitIfExpr sample_ext 0 (emitExpr sample_ext (ConstInt 1) None)
        (emitExpr sample_ext (StringLiteral ''a'') None) sC"
    using ternary_if [OF b, of sample_ext TrueLit sample_state "ConstInt 1" "StringLiteral ''a''"] c
    by blast
  have e2: "emitTernaryIf sample_ext TrueLit (ConstInt 1) (ConstInt 2) sample_state =
      emitIfExpr sample_ext 0 (emitExpr sample_ext (ConstInt 1) None)
        (emitExpr sample_ext (ConstInt 2) None) sC"
    using ternary_if [OF b, of sample_ext TrueLit sample_state "ConstInt 1" "ConstInt 2"] c
    by blast
  show ?thesis
    unfolding e1 e2
    by (simp add: sC_def sample_eval emitCond_def emitIfExpr_def beginIf_def emit_if_expr_def
        addBlock_def addNodeInput_def setInsertPoint_def restoreInsertPoint_def popFrame_def
        registerOutput_def sample_subtype_def sample_unshaped_def addOutput_def)
qed

subsection \<open>Return statements\<close>












subsection \<open>List literals\<close>

text \<open>
  Claim C10. For a list literal whose elements have been lowered to the values \<open>vs\<close>: the
  element type is the element type of a \<open>List\<close> type hint when there is one, otherwise the
  type of the first value, otherwise \<open>Tensor\<close>. The source compares type pointers; given
  that two equal type pointers hold the same type, the literal is rejected with "Lists
  must contain only a single type" whenever some element's type differs from the element
  type, and every accepted literal is homogeneous and yields one list-construction node
  over exactly these values, typed as a list of the element type.
\<close>

theorem list_literal_homogeneous:
  assumes "getValues X inputs True s = Inr (vs, s1)"
  shows "elem_type_of (cs_graph s1) (elem_ptr type_hint vs) =
           (case type_hint of
              Some (ListType t) \<Rightarrow> t
            | _ \<Rightarrow> (case vs of [] \<Rightarrow> DynamicType | v # _ \<Rightarrow> type_of (cs_graph s1) v))
       \<and> ((\<forall>v p. type_ptr_eq X (cs_graph s1) v p \<longrightarrow>
                  type_of (cs_graph s1) v = elem_type_of (cs_graph s1) p) \<longrightarrow>
            ((\<exists>v \<in> set vs. type_of (cs_graph s1) v \<noteq> elem_type_of (cs_graph s1) (elem_ptr type_hint vs)) \<longrightarrow>
               (\<exists>t. emitListLiteral X inputs type_hint s =
                      Inl (ListsMustContainOnlyASingleType
                             (elem_type_of (cs_graph s1) (elem_ptr type_hint vs)) t)))
          \<and> (\<forall>r s2. emitListLiteral X inputs type_hint s = Inr (r, s2) \<longrightarrow>
                (\<forall>v \<in> set vs. type_of (cs_graph s1) v =
                                elem_type_of (cs_graph s1) (elem_ptr type_hint vs)) \<and>
                type_of (cs_graph s2) r =
                  ListType (elem_type_of (cs_graph s1) (elem_ptr type_hint vs)) \<and>
                n_kind (g_nodes (cs_graph s2) ! length (g_nodes (cs_graph s1))) =
                  ''prim::ListConstruct'' \<and>
                n_inputs (g_nodes (cs_graph s2) ! length (g_nodes (cs_graph s1))) = vs))"
proof (intro conjI impI allI)
  show "elem_type_of (cs_graph s1) (elem_ptr type_hint vs) =
           (case type_hint of
              Some (ListType t) \<Rightarrow> t
            | _ \<Rightarrow> (case vs of [] \<Rightarrow> DynamicType | v # _ \<Rightarrow> type_of (cs_graph s1) v))"
    by (auto simp: elem_ptr_def split: option.splits jtype.splits list.splits)
next
  assume H: "\<forall>v p. type_ptr_eq X (cs_graph s1) v p \<longrightarrow>
                  type_of (cs_graph s1) v = elem_type_of (cs_graph s1) p"
    and ex: "\<exists>v \<in> set vs. type_of (cs_graph s1) v \<noteq> elem_type_of (cs_graph s1) (elem_ptr type_hint vs)"
  then obtain v where "v \<in> set vs" "\<not> type_ptr_eq X (cs_graph s1) v (elem_ptr type_hint vs)"
    by blast
  then obtain w where "find (\<lambda>v. \<not> type_ptr_eq X (cs_graph s1) v (elem_ptr type_hint vs)) vs = Some w"
    by (cases "find (\<lambda>v. \<not> type_ptr_eq X (cs_graph s1) v (elem_ptr type_hint vs)) vs")
       (auto simp: find_None_iff)
  then show "\<exists>t. emitListLiteral X inputs type_hint s =
                      Inl (ListsMustContainOnlyASingleType
                             (elem_type_of (cs_graph s1) (elem_ptr type_hint vs)) t)"
    using assms by (simp add: emitListLiteral_def Let_def)
next
  fix r s2
  assume H: "\<forall>v p. type_ptr_eq X (cs_graph s1) v p \<longrightarrow>
                  type_of (cs_graph s1) v = elem_type_of (cs_graph s1) p"
    and ok: "emitListLiteral X inputs type_hint s = Inr (r, s2)"
  let ?p = "elem_ptr type_hint vs"
  let ?g = "cs_graph s1"
  from ok assms have nf: "find (\<lambda>v. \<not> type_ptr_eq X ?g v ?p) vs = None"
    and cl: "on_graph (createList (elem_type_of ?g ?p) vs) s1 = (r, s2)"
    by (auto simp: emitListLiteral_def Let_def split: option.splits)
  from nf H show "\<forall>v \<in> set vs. type_of ?g v = elem_type_of ?g ?p"
    by (auto simp: find_None_iff)
  from cl obtain g2 where c: "createList (elem_type_of ?g ?p) vs ?g = (r, g2)" and s2: "cs_graph s2 = g2"
    by (auto simp: on_graph_def split: prod.splits)
  from insertNode1_type[OF c[unfolded createList_def]] s2
  show "type_of (cs_graph s2) r = ListType (elem_type_of ?g ?p)"
    and "n_kind (g_nodes (cs_graph s2) ! length (g_nodes ?g)) = ''prim::ListConstruct''"
    and "n_inputs (g_nodes (cs_graph s2) ! length (g_nodes ?g)) = vs"
    by auto
qed


theorem list_literal_homogeneous_witness:
  "(\<exists>vs s1. getValues sample_ext [ConstInt 1, StringLiteral ''a''] True sample_state = Inr (vs, s1)) \<and>
   (\<exists>t. emitListLiteral sample_ext [ConstInt 1, StringLiteral ''a''] None sample_state =
          Inl (ListsMustContainOnlyASingleType IntType t)) \<and>
   (\<exists>r s2. emitListLiteral sample_ext [ConstInt 1, ConstInt 2] None sample_state = Inr (r, s2) \<and>
      type_of (cs_graph s2) r = ListType IntType)"
proof -
  have H: "\<forall>v p. type_ptr_eq sample_ext g v p \<longrightarrow> type_of g v = elem_type_of g p" for g
    by (simp add: sample_ext_def sample_base_def)
  obtain vs s1 where eq: "getValues sample_ext [ConstInt 1, StringLiteral ''a''] True sample_state = Inr (vs, s1)"
    and vs: "vs = [0, 1]"
    and ty: "type_of (cs_graph s1) 0 = IntType" "type_of (cs_graph s1) 1 = StringType"
    by (simp add: sample_eval)
  have bad: "\<exists>v \<in> set vs. type_of (cs_graph s1) v \<noteq> elem_type_of (cs_graph s1) (elem_ptr None vs)"
    using vs ty by (simp add: elem_ptr_def)
  have fails: "\<exists>t. emitListLiteral sample_ext [ConstInt 1, StringLiteral ''a''] None sample_state =
          Inl (ListsMustContainOnlyASingleType IntType t)"
    using list_literal_homogeneous [OF eq, of None] H bad vs ty by (simp add: elem_ptr_def)
  obtain ws s3 where eq2: "getValues sample_ext [ConstInt 1, ConstInt 2] True sample_state = Inr (ws, s3)"
    and ws: "ws = [0, 1]"
    and ty2: "type_of (cs_graph s3) 0 = IntType" "type_of (cs_graph s3) 1 = IntType"
    by (simp add: sample_eval)
  obtain r s2 where ok: "emitListLiteral sample_ext [ConstInt 1, ConstInt 2] None sample_state = Inr (r, s2)"
    using eq2 ws ty2
    by (cases "on_graph (createList IntType ws) s3")
       (simp add: emitListLiteral_def elem_ptr_def Let_def sample_ext_def sample_base_def)
  have "type_of (cs_graph s2) r = ListType IntType"
    using list_literal_homogeneous [OF eq2, of None] H ok ws ty2 by (simp add: elem_ptr_def)
  with ok fails eq show ?thesis by blast
qed

subsection \<open>Names bound with different types in the branches of an if/else\<close>

lemma createCapturedInputIfNeeded_unbound:
  "findInAnyFrame x env = None \<Longrightarrow> createCapturedInputIfNeeded x env g = (None, env, g)"
  by (induction env) (auto split: option.splits)







lemma setVariableTypeError_empty:
  "(setVariableTypeError x m env = []) = (env = [])"
  by (induction x m env rule: setVariableTypeError.induct) simp_all

lemma findVariableTypeError_cons:
  "env \<noteq> [] \<Longrightarrow> findVariableTypeError x (f # env) = findVariableTypeError x env"
  by (cases env) simp_all

lemma findVariableTypeError_set:
  "env \<noteq> [] \<Longrightarrow> findVariableTypeError x (setVariableTypeError x m env) = Some m"
  by (induction x m env rule: setVariableTypeError.induct)
     (simp_all add: map_of_update_same findVariableTypeError_cons setVariableTypeError_empty)

lemma findInAnyFrame_setVariableTypeError:
  "findInAnyFrame y (setVariableTypeError x m env) = findInAnyFrame y env"
  by (induction x m env rule: setVariableTypeError.induct) (simp_all split: option.splits)

lemma getSugaredVar_deferred:
  assumes "env \<noteq> []" "findInAnyFrame x env = None" "map_of globals x = None" "resolver X x = None"
  shows "getSugaredVar X x True (setVariableTypeError x m env) g = Inl (UsedHere m)"
  using assms
  by (simp add: getSugaredVar_def createCapturedInputIfNeeded_unbound
      findInAnyFrame_setVariableTypeError findVariableTypeError_set)




subsection \<open>Determinism of the emitted graph\<close>




end
